theory Spec2Isabelle
  imports Complex_Main "HOL-Library.AList" "HOL-Library.Char_ord" "HOL-Library.List_Lexorder"
    "HOL-Library.Product_Lexorder"
begin

section \<open>Conventions of the embedding\<close>

text \<open>
  The development embeds the TED exporter and importer of the \<^verbatim>\<open>cipa\<close> package
  (\<^verbatim>\<open>cipa/io/tedutils.py\<close> and the classes it uses).

  \<^item> Python \<^verbatim>\<open>str\<close> is \<^typ>\<open>string\<close> (ASCII), \<^verbatim>\<open>int\<close> is \<^typ>\<open>int\<close>, and a finite
    \<^verbatim>\<open>float\<close> is the \<^typ>\<open>real\<close> it stands for (no rounding and no overflow); the
    floats \<^verbatim>\<open>nan\<close> and \<^verbatim>\<open>inf\<close> only occur as table cells.
  \<^item> Every \<^verbatim>\<open>raise\<close>, and every exception of the Python runtime or of pandas that the
    code can run into, is a value \<open>Inl e\<close> of the result type.
  \<^item> An attribute that the constructors leave as \<^verbatim>\<open>None\<close> by default is an \<open>option\<close>.
\<close>

datatype error =
    KeyError
  | IndexError
  | ValueError
  | TypeError
  | AttributeError
  | FileNotFoundError
  | ParseFileError string string
  | EncapsulatedDataFileError string string

section \<open>Strings\<close>

text \<open>\<^verbatim>\<open>s.split(sep)\<close> for a separator of one character: empty fields are kept.\<close>

fun split_on :: "char \<Rightarrow> string \<Rightarrow> string list" where
  "split_on sep [] = [[]]"
| "split_on sep (c # cs) =
     (if c = sep then [] # split_on sep cs
      else (case split_on sep cs of
              [] \<Rightarrow> [[c]]
            | t # ts \<Rightarrow> (c # t) # ts))"

text \<open>\<^verbatim>\<open>sep.join(parts)\<close>.\<close>

fun join :: "string \<Rightarrow> string list \<Rightarrow> string" where
  "join sep [] = []"
| "join sep [p] = p"
| "join sep (p # q # ps) = p @ sep @ join sep (q # ps)"

definition upper_char :: "char \<Rightarrow> char" where
  "upper_char c =
     (case map_of (zip ''abcdefghijklmnopqrstuvwxyz'' ''ABCDEFGHIJKLMNOPQRSTUVWXYZ'') c of
        None \<Rightarrow> c
      | Some u \<Rightarrow> u)"

definition lower_char :: "char \<Rightarrow> char" where
  "lower_char c =
     (case map_of (zip ''ABCDEFGHIJKLMNOPQRSTUVWXYZ'' ''abcdefghijklmnopqrstuvwxyz'') c of
        None \<Rightarrow> c
      | Some l \<Rightarrow> l)"

definition upper :: "string \<Rightarrow> string" where
  "upper s = map upper_char s"

definition lower :: "string \<Rightarrow> string" where
  "lower s = map lower_char s"

text \<open>
  \<^verbatim>\<open>int(s)\<close> on a string: surrounding white space is stripped, one sign is allowed, and
  the digits may be grouped by single underscores. \<open>None\<close> stands for the
  \<^verbatim>\<open>ValueError\<close> of a string that is no integer literal.
\<close>

definition is_space :: "char \<Rightarrow> bool" where
  "is_space c = (c \<in> set [CHR '' '', CHR 0x09, CHR 0x0A, CHR 0x0B, CHR 0x0C, CHR 0x0D,
                            CHR 0x1C, CHR 0x1D, CHR 0x1E, CHR 0x1F])"

definition strip :: "string \<Rightarrow> string" where
  "strip s = rev (dropWhile is_space (rev (dropWhile is_space s)))"

definition digit_of :: "char \<Rightarrow> nat option" where
  "digit_of c = map_of (zip ''0123456789'' [0, 1, 2, 3, 4, 5, 6, 7, 8, 9]) c"

text \<open>The digits of a literal, most significant first; an underscore must stand
  between two digits.\<close>

fun digits_of :: "string \<Rightarrow> nat list option" where
  "digits_of [] = None"
| "digits_of [c] = map_option (\<lambda>d. [d]) (digit_of c)"
| "digits_of (c # d # cs) =
     (case digit_of c of
        None \<Rightarrow> None
      | Some n \<Rightarrow>
          (if d = CHR ''_'' then map_option ((#) n) (digits_of cs)
           else map_option ((#) n) (digits_of (d # cs))))"

definition nat_of_digits :: "nat list \<Rightarrow> nat" where
  "nat_of_digits ds = foldl (\<lambda>acc d. 10 * acc + d) 0 ds"

definition py_int :: "string \<Rightarrow> int option" where
  "py_int s =
     (case strip s of
        [] \<Rightarrow> None
      | c # cs \<Rightarrow>
          (if c = CHR ''-'' then map_option (\<lambda>ds. - int (nat_of_digits ds)) (digits_of cs)
           else if c = CHR ''+'' then map_option (\<lambda>ds. int (nat_of_digits ds)) (digits_of cs)
           else map_option (\<lambda>ds. int (nat_of_digits ds)) (digits_of (c # cs))))"

text \<open>\<^verbatim>\<open>str(n)\<close> for an integer.\<close>

definition digit_char :: "nat \<Rightarrow> char" where
  "digit_char d = ''0123456789'' ! d"

function str_of_nat :: "nat \<Rightarrow> string" where
  "str_of_nat n =
     (if n < 10 then [digit_char n] else str_of_nat (n div 10) @ [digit_char (n mod 10)])"
  by pat_completeness auto
termination
  by (relation "measure id") auto

declare str_of_nat.simps [simp del]

definition str_of_int :: "int \<Rightarrow> string" where
  "str_of_int i = (if i < 0 then CHR ''-'' # str_of_nat (nat (- i)) else str_of_nat (nat i))"

section \<open>Expanding a list of trace numbers\<close>

text \<open>
  \<^verbatim>\<open>expand_numbers_list\<close>: the loop over the items, each item a token split at
  \<^verbatim>\<open>-\<close>. The state of the loop is \<^verbatim>\<open>new_row\<close> and the messages passed to
  \<^verbatim>\<open>logger.error\<close> so far.
\<close>

definition out_of_range_message :: "string list \<Rightarrow> string" where
  "out_of_range_message item =
     ''expand_numbers_list: '' @ item ! 0 @ '' to '' @ item ! 1 @ '' are out of range''"

fun expand_items ::
  "string list list \<Rightarrow> string list \<Rightarrow> string list \<Rightarrow> error + (string list \<times> string list)"
where
  "expand_items [] new_row logged = Inr (new_row, logged)"
| "expand_items (item # rest) new_row logged =
     (if length item = 2 then
        (case py_int (item ! 0) of
           None \<Rightarrow> Inl ValueError
         | Some a \<Rightarrow>
             (case py_int (item ! 1) of
                None \<Rightarrow> Inl ValueError
              | Some b \<Rightarrow>
                  (if a \<le> b then expand_items rest (new_row @ map str_of_int [a..b]) logged
                   else expand_items rest new_row (logged @ [out_of_range_message item]))))
      else if length item = 1 then expand_items rest (new_row @ [item ! 0]) logged
      else if length item < 2 then Inl IndexError
      else expand_items rest new_row (logged @ [out_of_range_message item]))"

definition items_of :: "string \<Rightarrow> string list list" where
  "items_of numbers_string = map (split_on CHR ''-'') (split_on CHR '';'' numbers_string)"

definition expand_numbers_list :: "string option \<Rightarrow> error + (string list \<times> string list)" where
  "expand_numbers_list numbers_string =
     (case numbers_string of
        None \<Rightarrow> Inr ([], [])
      | Some s \<Rightarrow>
          (if filter (\<lambda>c. c \<noteq> CHR '' '') s \<noteq> [] then expand_items (items_of s) [] []
           else Inr ([], [])))"

text \<open>What the loop does with one item, in the words of the specification: a single
  token is kept, a range \<open>a-b\<close> becomes the numbers from \<open>a\<close> to \<open>b\<close> (none when
  \<open>b < a\<close>), anything else gives nothing.\<close>

definition item_numbers :: "string list \<Rightarrow> string list" where
  "item_numbers item =
     (case item of
        [t] \<Rightarrow> [t]
      | [a, b] \<Rightarrow> map str_of_int [the (py_int a)..the (py_int b)]
      | _ \<Rightarrow> [])"

definition item_skipped :: "string list \<Rightarrow> bool" where
  "item_skipped item =
     (case item of
        [t] \<Rightarrow> False
      | [a, b] \<Rightarrow> the (py_int b) < the (py_int a)
      | _ \<Rightarrow> True)"

definition malformed_range :: "string list \<Rightarrow> bool" where
  "malformed_range item =
     (case item of
        [a, b] \<Rightarrow> py_int a = None \<or> py_int b = None
      | _ \<Rightarrow> False)"

section \<open>The data model\<close>

text \<open>The classes of \<^verbatim>\<open>cipa\<close> as records, with the attributes the exporter and the importer
  read; the enumerations as datatypes, each with the function \<^verbatim>\<open>.name\<close>.\<close>

record Id =
  id_root :: string
  id_extension :: string

text \<open>
  A value that goes into a cell of a pandas table as it is: a string, a finite float,
  an integer, the float \<^verbatim>\<open>nan\<close>, which pandas also puts where a row has no entry for
  a column, or one of the floats \<^verbatim>\<open>inf\<close> (\<open>Infinity True\<close>) and \<^verbatim>\<open>-inf\<close>
  (\<open>Infinity False\<close>).
\<close>

datatype cell = Str string | Num real | Intg int | NaN | Infinity bool

datatype Protocol_Type =
    CIPA_PROTOCOL_VOLTAGE
  | CIPA_PROTOCOL_CURRENT
  | CIPA_PROTOCOL_LIQUID
  | CIPA_PROTOCOL_TEMPERATURE
  | CIPA_PROTOCOL_UNKNOWN

datatype Concentration_Type =
    CIPA_PROTOCOL_LIQUID_CONCENTRATION_NOMINAL
  | CIPA_PROTOCOL_LIQUID_CONCENTRATION_CALCULATED
  | CIPA_PROTOCOL_LIQUID_CONCENTRATION_MEASURED
  | CIPA_PROTOCOL_LIQUID_CONCENTRATION_SATELLITE
  | CIPA_PROTOCOL_LIQUID_CONCENTRATION_UNKNOWN

fun Concentration_Type_name :: "Concentration_Type \<Rightarrow> string" where
  "Concentration_Type_name CIPA_PROTOCOL_LIQUID_CONCENTRATION_NOMINAL =
     ''CIPA_PROTOCOL_LIQUID_CONCENTRATION_NOMINAL''"
| "Concentration_Type_name CIPA_PROTOCOL_LIQUID_CONCENTRATION_CALCULATED =
     ''CIPA_PROTOCOL_LIQUID_CONCENTRATION_CALCULATED''"
| "Concentration_Type_name CIPA_PROTOCOL_LIQUID_CONCENTRATION_MEASURED =
     ''CIPA_PROTOCOL_LIQUID_CONCENTRATION_MEASURED''"
| "Concentration_Type_name CIPA_PROTOCOL_LIQUID_CONCENTRATION_SATELLITE =
     ''CIPA_PROTOCOL_LIQUID_CONCENTRATION_SATELLITE''"
| "Concentration_Type_name CIPA_PROTOCOL_LIQUID_CONCENTRATION_UNKNOWN =
     ''CIPA_PROTOCOL_LIQUID_CONCENTRATION_UNKNOWN''"

datatype Cursor_Type = AVERAGE | MAXIMUM | MINIMUM | CUSTOM

fun Cursor_Type_name :: "Cursor_Type \<Rightarrow> string" where
  "Cursor_Type_name AVERAGE = ''AVERAGE''"
| "Cursor_Type_name MAXIMUM = ''MAXIMUM''"
| "Cursor_Type_name MINIMUM = ''MINIMUM''"
| "Cursor_Type_name CUSTOM = ''CUSTOM''"

datatype LeakMethod_Type =
    CIPA_LEAK_METHOD_NONE
  | CIPA_LEAK_METHOD_SMALL_PULSE
  | CIPA_LEAK_METHOD_FAST_LEAK
  | CIPA_LEAK_METHOD_SWEEP
  | CIPA_LEAK_METHOD_ZERO_CURSOR
  | CIPA_LEAK_METHOD_UNKNOWN

fun LeakMethod_Type_name :: "LeakMethod_Type \<Rightarrow> string" where
  "LeakMethod_Type_name CIPA_LEAK_METHOD_NONE = ''CIPA_LEAK_METHOD_NONE''"
| "LeakMethod_Type_name CIPA_LEAK_METHOD_SMALL_PULSE = ''CIPA_LEAK_METHOD_SMALL_PULSE''"
| "LeakMethod_Type_name CIPA_LEAK_METHOD_FAST_LEAK = ''CIPA_LEAK_METHOD_FAST_LEAK''"
| "LeakMethod_Type_name CIPA_LEAK_METHOD_SWEEP = ''CIPA_LEAK_METHOD_SWEEP''"
| "LeakMethod_Type_name CIPA_LEAK_METHOD_ZERO_CURSOR = ''CIPA_LEAK_METHOD_ZERO_CURSOR''"
| "LeakMethod_Type_name CIPA_LEAK_METHOD_UNKNOWN = ''CIPA_LEAK_METHOD_UNKNOWN''"

datatype Result_Type =
    CIPA_RESULT_TYPE_VOLTAGE
  | CIPA_RESULT_TYPE_CURRENT
  | CIPA_RESULT_TYPE_TEMPERATURE
  | CIPA_RESULT_TYPE_SERIES_RESISTANCE
  | CIPA_RESULT_TYPE_SERIES_RESISTANCE_COMPENSATION
  | CIPA_RESULT_TYPE_SEAL_RESISTANCE
  | CIPA_RESULT_TYPE_MEMBRANE_CAPACITANCE
  | CIPA_RESULT_TYPE_INPUT_RESISTANCE
  | CIPA_RESULT_TYPE_UNKNOWN

fun Result_Type_name :: "Result_Type \<Rightarrow> string" where
  "Result_Type_name CIPA_RESULT_TYPE_VOLTAGE = ''CIPA_RESULT_TYPE_VOLTAGE''"
| "Result_Type_name CIPA_RESULT_TYPE_CURRENT = ''CIPA_RESULT_TYPE_CURRENT''"
| "Result_Type_name CIPA_RESULT_TYPE_TEMPERATURE = ''CIPA_RESULT_TYPE_TEMPERATURE''"
| "Result_Type_name CIPA_RESULT_TYPE_SERIES_RESISTANCE = ''CIPA_RESULT_TYPE_SERIES_RESISTANCE''"
| "Result_Type_name CIPA_RESULT_TYPE_SERIES_RESISTANCE_COMPENSATION =
     ''CIPA_RESULT_TYPE_SERIES_RESISTANCE_COMPENSATION''"
| "Result_Type_name CIPA_RESULT_TYPE_SEAL_RESISTANCE = ''CIPA_RESULT_TYPE_SEAL_RESISTANCE''"
| "Result_Type_name CIPA_RESULT_TYPE_MEMBRANE_CAPACITANCE =
     ''CIPA_RESULT_TYPE_MEMBRANE_CAPACITANCE''"
| "Result_Type_name CIPA_RESULT_TYPE_INPUT_RESISTANCE = ''CIPA_RESULT_TYPE_INPUT_RESISTANCE''"
| "Result_Type_name CIPA_RESULT_TYPE_UNKNOWN = ''CIPA_RESULT_TYPE_UNKNOWN''"

datatype Patch_Type = CIPA_CELL_SINGLE | CIPA_CELL_POPULATION | CIPA_CELL_UNKNOWN

datatype LJP_ReportedVoltage_Type = Vcell | Vclamp

record Waveform =
  head_value :: real
  head_unit :: string
  increment_value :: real
  increment_unit :: string
  origin_value :: real
  origin_unit :: string
  scale_value :: real
  scale_unit :: string
  digits :: "real list"
  cipaType :: string
  sequenceType :: string
  wf_displayName :: string
  tracenum :: int
  signalnam :: string
  edfilename :: string
  numrows :: int
  itemcol :: int
  headersize :: int

record Liquid =
  liquid_id :: Id
  liquid_name :: string
  batch :: string
  liquid_description :: string

record LiquidJunctionPotential =
  ljp_value :: real
  ljp_unit :: string
  reportedVoltage :: LJP_ReportedVoltage_Type

record VoltageProtocol =
  vp_id :: Id
  vp_waveform :: Waveform
  vp_name :: string
  vp_duration :: real
  vp_duration_u :: string

record LiquidProtocol =
  lp_id :: Id
  lp_liquid :: Liquid
  lp_name :: string
  lp_duration :: real
  lp_duration_u :: string
  conc :: real
  conc_u :: string
  conc_type :: Concentration_Type
  isControl :: bool
  isSelectiveBlocker :: bool

text \<open>The two subclasses of \<^verbatim>\<open>Protocol\<close>; the attribute \<^verbatim>\<open>type\<close> is the tag their
  constructors set.\<close>

datatype Protocol = VoltageP VoltageProtocol | LiquidP LiquidProtocol

fun protocol_type :: "Protocol \<Rightarrow> Protocol_Type" where
  "protocol_type (VoltageP _) = CIPA_PROTOCOL_VOLTAGE"
| "protocol_type (LiquidP _) = CIPA_PROTOCOL_LIQUID"

record ProtocolExecution =
  pe_protocol :: Protocol
  pe_time :: real
  pe_time_u :: string

record CursorResult =
  cr_value :: cell
  cr_unit :: string

record Cursor =
  cursor_name :: string
  cursor_start :: cell
  cursor_end :: cell
  cursor_time_u :: string
  cursor_type :: "Cursor_Type option"
  cursor_result :: "CursorResult option"

datatype Property_Type =
    CIPA_PROPERTY_INPUT_RESISTANCE
  | CIPA_PROPERTY_MEMBRANE_CAPACITANCE
  | CIPA_PROPERTY_MEMBRANE_RESISTANCE
  | CIPA_PROPERTY_MEMBRANE_RESTING_POTENTIAL
  | CIPA_PROPERTY_PASSAGE_NUMBER
  | CIPA_PROPERTY_SEAL_RESISTANCE
  | CIPA_PROPERTY_SERIES_RESISTANCE
  | CIPA_PROPERTY_SERIES_RESISTANCE_COMPENSATION
  | CIPA_PROPERTY_TEMPERATURE
  | CIPA_PROPERTY_UNKNOWN

record Property =
  prop_code :: string
  prop_displayName :: string
  propertyType :: Property_Type
  prop_value :: string
  prop_unit :: string

definition propertiesDict :: "string \<Rightarrow> Property_Type option" where
  "propertiesDict =
     map_of [(''Cm'', CIPA_PROPERTY_MEMBRANE_CAPACITANCE),
             (''P'', CIPA_PROPERTY_PASSAGE_NUMBER),
             (''Rm'', CIPA_PROPERTY_MEMBRANE_RESISTANCE),
             (''Rs'', CIPA_PROPERTY_SERIES_RESISTANCE),
             (''Rseal'', CIPA_PROPERTY_SEAL_RESISTANCE),
             (''Temperature'', CIPA_PROPERTY_TEMPERATURE),
             (''Vm'', CIPA_PROPERTY_MEMBRANE_RESTING_POTENTIAL)]"

record Cell =
  cell_id :: "Id option"
  cell_properties :: "Property list"

record Result =
  traceNumber :: int
  valid :: bool
  result_type :: Result_Type
  elapsedTime :: real
  elapsedTime_u :: string
  waveform :: "Waveform option"
  result_cursors :: "Cursor list option"

record Results =
  cell :: Cell
  patchType :: Patch_Type
  plateId :: string
  wellId :: string
  leakMethod :: LeakMethod_Type
  results_ljp :: "LiquidJunctionPotential option"
  results_cursors :: "Cursor list option"
  results :: "Result list option"

record Experiment =
  exp_id :: Id
  exp_name :: string
  exp_device :: "Id option"
  startTime :: string
  exp_protocols :: "ProtocolExecution list option"
  resultsSet :: "Results list option"

record StudyReport =
  report_title :: string
  report_version :: string
  report_date :: string
  report_text :: string

record Study =
  studyId :: string
  report :: StudyReport

record Device =
  device_id :: "Id option"
  device_code :: string
  manufacturerModelName :: string
  deviceSoftwareName :: string

record Trial =
  trial_version :: string
  trial_description :: string
  study :: "Study option"
  devices :: "Device list"
  trial_ljp :: "LiquidJunctionPotential option"
  liquids :: "Liquid list"
  protocols :: "Protocol list"
  experiments :: "Experiment list"

section \<open>Tables\<close>

text \<open>
  A row under construction is a Python dictionary, here an association list in
  insertion order; \<^verbatim>\<open>d[k] = v\<close> is \<^const>\<open>AList.update\<close>.
\<close>


type_synonym row_dict = "(string \<times> cell) list"

record dataframe =
  df_columns :: "string list"
  df_rows :: "cell list list"

text \<open>\<^verbatim>\<open>drop_duplicates\<close> on a sequence keeps the first of equal entries.\<close>

definition drop_duplicates :: "'a list \<Rightarrow> 'a list" where
  "drop_duplicates xs = rev (remdups (rev xs))"

text \<open>\<^verbatim>\<open>pd.DataFrame(data=dicts)\<close>: the columns are the keys in the order of their first
  appearance; a list without dictionaries gives a table without columns.\<close>

definition DataFrame :: "row_dict list \<Rightarrow> dataframe" where
  "DataFrame dicts =
     (let cols = drop_duplicates (concat (map (map fst) dicts))
      in \<lparr>df_columns = cols,
          df_rows = map (\<lambda>d. map (\<lambda>c. case map_of d c of None \<Rightarrow> NaN | Some v \<Rightarrow> v) cols) dicts\<rparr>)"

text \<open>\<^verbatim>\<open>pd.DataFrame(columns=cols)\<close>: no rows.\<close>

definition DataFrame_columns :: "string list \<Rightarrow> dataframe" where
  "DataFrame_columns cols = \<lparr>df_columns = cols, df_rows = []\<rparr>"

definition df_get :: "dataframe \<Rightarrow> cell list \<Rightarrow> string \<Rightarrow> cell" where
  "df_get df r c = (case map_of (zip (df_columns df) r) c of None \<Rightarrow> NaN | Some v \<Rightarrow> v)"

text \<open>\<^verbatim>\<open>df.drop(columns=[c])\<close> raises \<^verbatim>\<open>KeyError\<close> when the table has no such column.\<close>

definition df_drop :: "string \<Rightarrow> dataframe \<Rightarrow> error + dataframe" where
  "df_drop c df =
     (if c \<in> set (df_columns df)
      then Inr \<lparr>df_columns = filter (\<lambda>k. k \<noteq> c) (df_columns df),
                df_rows = map (\<lambda>r. map snd (filter (\<lambda>kv. fst kv \<noteq> c) (zip (df_columns df) r)))
                            (df_rows df)\<rparr>
      else Inl KeyError)"

definition df_drop_duplicates :: "dataframe \<Rightarrow> dataframe" where
  "df_drop_duplicates df = df\<lparr>df_rows := drop_duplicates (df_rows df)\<rparr>"

text \<open>
  The order of \<^verbatim>\<open>sort_values\<close> on the cells of a column: numbers by value, strings by
  code point, \<^verbatim>\<open>nan\<close> last. On several columns the sort is stable, and a key that is
  not a column raises \<^verbatim>\<open>KeyError\<close>.
\<close>

fun cell_key :: "cell \<Rightarrow> nat \<times> real \<times> string" where
  "cell_key (Infinity False) = (0, 0, [])"
| "cell_key (Intg i) = (1, real_of_int i, [])"
| "cell_key (Num x) = (1, x, [])"
| "cell_key (Infinity True) = (2, 0, [])"
| "cell_key (Str s) = (3, 0, s)"
| "cell_key NaN = (4, 0, [])"

definition df_sort_values :: "string list \<Rightarrow> dataframe \<Rightarrow> error + dataframe" where
  "df_sort_values by_cols df =
     (if set by_cols \<subseteq> set (df_columns df)
      then Inr (df\<lparr>df_rows := sort_key (\<lambda>r. map (\<lambda>c. cell_key (df_get df r c)) by_cols) (df_rows df)\<rparr>)
      else Inl KeyError)"

section \<open>The tabular projection builder\<close>

text \<open>
  The row classes of \<^verbatim>\<open>tedutils.py\<close>. A \<^verbatim>\<open>TED_ResultWide\<close> object has its thirteen
  attributes and, in \<open>rw_dynamic\<close>, the entries that the builder adds to its dictionary
  under other keys: one per cursor name, and \<^verbatim>\<open>CTLFL\<close> and \<^verbatim>\<open>SBFL\<close>.

  The builder writes the value of a cursor into the dictionary of the row under the
  name of the cursor, \<^verbatim>\<open>rww[rc.name] = rc.result.value\<close>. For a cursor with the name of
  one of the thirteen attributes (such as \<^verbatim>\<open>TRACENUM\<close> or \<^verbatim>\<open>ELTIME\<close>) this replaces
  the attribute by the value of the cursor, which the record cannot hold: the record
  describes the dictionary of a row only when no cursor has such a name. That is the
  condition \<open>cursors_named_apart\<close> below, a hypothesis of every statement that reads
  the attributes of a row.
\<close>

record TED_CellProperty =
  cp_EXPID :: string
  cp_CELLID :: string
  PARAMCD :: string
  PARAM :: string
  cp_VALUE :: string
  cp_UNIT :: string

record TED_LiquidAddition =
  la_EXPID :: string
  la_CELLID :: string
  la_STIME :: string
  LJP :: real
  LJPU :: string
  la_LIQUID :: string
  la_CONC :: real
  la_CONCU :: string
  la_CONCT :: string
  FIRST :: int
  LAST :: int
  la_CTLFL :: string
  la_SBFL :: string
  ANL :: string
  la_SRCXFN :: string
  NOTES :: string

record TED_CursorDefinition =
  CURSOR :: string
  cd_STIME :: cell
  STIMEU :: string
  ETIME :: cell
  ETIMEU :: string
  CURSORT :: string

record TED_ResultWide =
  rw_EXPID :: string
  rw_CELLID :: string
  RESTYPE :: string
  LEAKMTH :: string
  ELTIME :: real
  ELTIMEU :: string
  TRACENUM :: int
  ANLFL :: string
  rw_SRCXFN :: string
  rw_LIQUID :: string
  rw_CONC :: cell
  rw_CONCU :: string
  rw_CONCT :: string
  rw_dynamic :: row_dict

text \<open>\<^verbatim>\<open>obj.__dict__\<close> for the four classes.\<close>

definition cp_dict :: "TED_CellProperty \<Rightarrow> row_dict" where
  "cp_dict cp =
     [(''EXPID'', Str (cp_EXPID cp)), (''CELLID'', Str (cp_CELLID cp)),
      (''PARAMCD'', Str (PARAMCD cp)), (''PARAM'', Str (PARAM cp)),
      (''VALUE'', Str (cp_VALUE cp)), (''UNIT'', Str (cp_UNIT cp))]"

definition la_dict :: "TED_LiquidAddition \<Rightarrow> row_dict" where
  "la_dict la =
     [(''EXPID'', Str (la_EXPID la)), (''CELLID'', Str (la_CELLID la)),
      (''STIME'', Str (la_STIME la)), (''LJP'', Num (LJP la)), (''LJPU'', Str (LJPU la)),
      (''LIQUID'', Str (la_LIQUID la)), (''CONC'', Num (la_CONC la)),
      (''CONCU'', Str (la_CONCU la)), (''CONCT'', Str (la_CONCT la)),
      (''FIRST'', Intg (FIRST la)), (''LAST'', Intg (LAST la)),
      (''CTLFL'', Str (la_CTLFL la)), (''SBFL'', Str (la_SBFL la)), (''ANL'', Str (ANL la)),
      (''SRCXFN'', Str (la_SRCXFN la)), (''NOTES'', Str (NOTES la))]"

definition cd_dict :: "TED_CursorDefinition \<Rightarrow> row_dict" where
  "cd_dict cd =
     [(''CURSOR'', Str (CURSOR cd)), (''STIME'', cd_STIME cd),
      (''STIMEU'', Str (STIMEU cd)), (''ETIME'', ETIME cd),
      (''ETIMEU'', Str (ETIMEU cd)), (''CURSORT'', Str (CURSORT cd))]"

definition rw_dict :: "TED_ResultWide \<Rightarrow> row_dict" where
  "rw_dict rw =
     [(''EXPID'', Str (rw_EXPID rw)), (''CELLID'', Str (rw_CELLID rw)),
      (''RESTYPE'', Str (RESTYPE rw)), (''LEAKMTH'', Str (LEAKMTH rw)),
      (''ELTIME'', Num (ELTIME rw)), (''ELTIMEU'', Str (ELTIMEU rw)),
      (''TRACENUM'', Intg (TRACENUM rw)), (''ANLFL'', Str (ANLFL rw)),
      (''SRCXFN'', Str (rw_SRCXFN rw)), (''LIQUID'', Str (rw_LIQUID rw)),
      (''CONC'', rw_CONC rw), (''CONCU'', Str (rw_CONCU rw)), (''CONCT'', Str (rw_CONCT rw))]
     @ rw_dynamic rw"

text \<open>The dictionaries collected in \<^verbatim>\<open>exec_ps\<close>, one per executed liquid protocol.\<close>

record liquid_execution =
  ex_LIQUID :: string
  ex_CONC :: real
  ex_CONCU :: string
  ex_CONCT :: string
  ex_TIME :: real
  ex_TIMEU :: string
  ex_CTLFL :: string
  ex_SBFL :: string

fun map_result :: "('a \<Rightarrow> error + 'b) \<Rightarrow> 'a list \<Rightarrow> error + 'b list" where
  "map_result f [] = Inr []"
| "map_result f (x # xs) =
     (case f x of
        Inl e \<Rightarrow> Inl e
      | Inr y \<Rightarrow> (case map_result f xs of Inl e \<Rightarrow> Inl e | Inr ys \<Rightarrow> Inr (y # ys)))"

text \<open>The key \<^verbatim>\<open>EXPID\<close> or \<^verbatim>\<open>CELLID\<close> of an identifier.\<close>

definition composite_id :: "Id \<Rightarrow> string" where
  "composite_id i =
     (if id_extension i = [] then id_root i else join ''_'' [id_root i, id_extension i])"

text \<open>
  \<^verbatim>\<open>float(s)\<close> on a string. Surrounding white space is stripped and one sign is
  allowed; then comes \<^verbatim>\<open>inf\<close>, \<^verbatim>\<open>infinity\<close> or \<^verbatim>\<open>nan\<close> in any case, or a decimal
  literal: digits with at most one point among them, at least one digit, and
  optionally \<^verbatim>\<open>e\<close> or \<^verbatim>\<open>E\<close> with a signed exponent of at least one digit; the digits
  may be grouped by single underscores. \<open>None\<close> stands for the \<^verbatim>\<open>ValueError\<close> of any
  other string.
\<close>

definition digits_opt :: "string \<Rightarrow> nat list option" where
  "digits_opt s = (if s = [] then Some [] else digits_of s)"

definition is_exponent_mark :: "char \<Rightarrow> bool" where
  "is_exponent_mark c = (c = CHR ''e'' \<or> c = CHR ''E'')"

definition scale10 :: "real \<Rightarrow> int \<Rightarrow> real" where
  "scale10 x k = (if 0 \<le> k then x * 10 ^ nat k else x / 10 ^ nat (- k))"

definition decimal_literal :: "string \<Rightarrow> real option" where
  "decimal_literal body =
     (let mantissa = takeWhile (\<lambda>c. \<not> is_exponent_mark c) body;
          after_mantissa = dropWhile (\<lambda>c. \<not> is_exponent_mark c) body;
          int_part = takeWhile (\<lambda>c. c \<noteq> CHR ''.'') mantissa;
          after_int = dropWhile (\<lambda>c. c \<noteq> CHR ''.'') mantissa;
          exponent =
            (case after_mantissa of
               [] \<Rightarrow> Some 0
             | _ # e \<Rightarrow>
                 (case e of
                    [] \<Rightarrow> None
                  | c # cs \<Rightarrow>
                      (if c = CHR ''-'' then map_option (\<lambda>ds. - int (nat_of_digits ds)) (digits_of cs)
                       else if c = CHR ''+'' then map_option (\<lambda>ds. int (nat_of_digits ds)) (digits_of cs)
                       else map_option (\<lambda>ds. int (nat_of_digits ds)) (digits_of e))))
      in case (digits_opt int_part, digits_opt (tl after_int), exponent) of
           (Some ds, Some fs, Some k) \<Rightarrow>
             (if ds @ fs = [] then None
              else Some (scale10 (real (nat_of_digits (ds @ fs))) (k - int (length fs))))
         | _ \<Rightarrow> None)"

definition float_literal :: "string \<Rightarrow> cell option" where
  "float_literal s =
     (let stripped = strip s;
          negative = (stripped \<noteq> [] \<and> hd stripped = CHR ''-'');
          signed = (stripped \<noteq> [] \<and> (hd stripped = CHR ''-'' \<or> hd stripped = CHR ''+''));
          body = (if signed then tl stripped else stripped)
      in if lower body = ''inf'' \<or> lower body = ''infinity'' then Some (Infinity (\<not> negative))
         else if lower body = ''nan'' then Some NaN
         else map_option (\<lambda>x. Num (if negative then - x else x)) (decimal_literal body))"

text \<open>\<^verbatim>\<open>float(v)\<close> on a value: a float stays, an integer becomes a float, and a string
  must be a literal.\<close>

definition py_float :: "cell \<Rightarrow> error + cell" where
  "py_float v =
     (case v of
        Num x \<Rightarrow> Inr (Num x)
      | Intg i \<Rightarrow> Inr (Num (real_of_int i))
      | NaN \<Rightarrow> Inr NaN
      | Infinity positive \<Rightarrow> Inr (Infinity positive)
      | Str s \<Rightarrow> (case float_literal s of None \<Rightarrow> Inl ValueError | Some x \<Rightarrow> Inr x))"

definition cursor_definition :: "Cursor \<Rightarrow> error + TED_CursorDefinition" where
  "cursor_definition c =
     (case py_float (cursor_start c) of Inl e \<Rightarrow> Inl e | Inr s \<Rightarrow>
      case py_float (cursor_end c) of Inl e \<Rightarrow> Inl e | Inr e \<Rightarrow>
      case cursor_type c of
        None \<Rightarrow> Inl AttributeError
      | Some t \<Rightarrow>
          Inr \<lparr>CURSOR = cursor_name c, cd_STIME = s, STIMEU = cursor_time_u c,
               ETIME = e, ETIMEU = cursor_time_u c, CURSORT = Cursor_Type_name t\<rparr>)"

definition cursor_definitions :: "Results \<Rightarrow> error + TED_CursorDefinition list" where
  "cursor_definitions rs =
     (case results_cursors rs of
        None \<Rightarrow> Inr []
      | Some cs \<Rightarrow> map_result cursor_definition cs)"

text \<open>The liquid addition protocols executed, in the order of \<^verbatim>\<open>exp.protocols\<close>.\<close>

fun liquid_execution_of :: "ProtocolExecution \<Rightarrow> liquid_execution list" where
  "liquid_execution_of p =
     (case pe_protocol p of
        VoltageP _ \<Rightarrow> []
      | LiquidP lp \<Rightarrow>
          [\<lparr>ex_LIQUID = liquid_name (lp_liquid lp), ex_CONC = conc lp, ex_CONCU = conc_u lp,
            ex_CONCT = last (split_on CHR ''_'' (Concentration_Type_name (conc_type lp))),
            ex_TIME = pe_time p, ex_TIMEU = pe_time_u p,
            ex_CTLFL = (if isControl lp then ''Y'' else []),
            ex_SBFL = (if isSelectiveBlocker lp then ''Y'' else [])\<rparr>])"

definition liquid_executions :: "Experiment \<Rightarrow> error + liquid_execution list" where
  "liquid_executions experiment =
     (case exp_protocols experiment of
        None \<Rightarrow> Inl TypeError
      | Some ps \<Rightarrow> Inr (concat (map liquid_execution_of ps)))"

text \<open>
  \<^verbatim>\<open>pd.DataFrame(exec_ps).sort_values(['TIME']).drop_duplicates()\<close>: without a
  dictionary the table has no column \<^verbatim>\<open>TIME\<close>. The sort on this one column is not a
  stable one, so the code fixes the order of the additions only up to the order of
  distinct additions at the same time; here these stay in the order of their execution.
  The times of the rows, one after the other, do not depend on that order, and neither
  do the rows themselves when distinct additions have distinct times.
\<close>

definition sorted_liquid_additions :: "liquid_execution list \<Rightarrow> error + liquid_execution list" where
  "sorted_liquid_additions exec_ps =
     (if exec_ps = [] then Inl KeyError
      else Inr (drop_duplicates (sort_key ex_TIME exec_ps)))"

text \<open>One row of the wide layout for a result of type current; the cursor values are
  added to the dictionary of the row under the cursor names.\<close>

fun add_cursor_values :: "Cursor list \<Rightarrow> row_dict \<Rightarrow> error + row_dict" where
  "add_cursor_values [] d = Inr d"
| "add_cursor_values (rc # rcs) d =
     (case cursor_result rc of
        None \<Rightarrow> Inl AttributeError
      | Some r \<Rightarrow> add_cursor_values rcs (AList.update (cursor_name rc) (cr_value r) d))"

definition result_wide_row ::
  "TED_LiquidAddition \<Rightarrow> Results \<Rightarrow> Result \<Rightarrow> error + TED_ResultWide"
where
  "result_wide_row la rs res =
     (case waveform res of
        None \<Rightarrow> Inl AttributeError
      | Some wav \<Rightarrow>
          (case result_cursors res of
             None \<Rightarrow> Inl TypeError
           | Some rcs \<Rightarrow>
               (case add_cursor_values rcs [] of
                  Inl e \<Rightarrow> Inl e
                | Inr dyn \<Rightarrow>
                    Inr \<lparr>rw_EXPID = la_EXPID la, rw_CELLID = la_CELLID la,
                         RESTYPE = Result_Type_name (result_type res),
                         LEAKMTH = LeakMethod_Type_name (leakMethod rs),
                         ELTIME = elapsedTime res, ELTIMEU = elapsedTime_u res,
                         TRACENUM = traceNumber res,
                         ANLFL = (if valid res then ''Y'' else []),
                         rw_SRCXFN = edfilename wav,
                         rw_LIQUID = [], rw_CONC = NaN, rw_CONCU = [], rw_CONCT = [],
                         rw_dynamic = dyn\<rparr>)))"

definition experiment_results_wide ::
  "TED_LiquidAddition \<Rightarrow> Results \<Rightarrow> error + TED_ResultWide list"
where
  "experiment_results_wide la rs =
     (case results rs of
        None \<Rightarrow> Inl TypeError
      | Some ress \<Rightarrow>
          map_result (result_wide_row la rs)
            (filter (\<lambda>res. result_type res = CIPA_RESULT_TYPE_CURRENT) ress))"

definition cell_property_rows :: "TED_LiquidAddition \<Rightarrow> Results \<Rightarrow> TED_CellProperty list" where
  "cell_property_rows la rs =
     map (\<lambda>p. \<lparr>cp_EXPID = la_EXPID la, cp_CELLID = la_CELLID la, PARAMCD = prop_code p,
               PARAM = prop_displayName p, cp_VALUE = prop_value p, cp_UNIT = prop_unit p\<rparr>)
         (cell_properties (cell rs))"

text \<open>\<^verbatim>\<open>tmp\<close>: the rows of the experiment sorted by \<^verbatim>\<open>EXPID, CELLID, ELTIME, TRACENUM\<close>;
  without rows the table has no such columns.\<close>

definition rw_sort_key :: "TED_ResultWide \<Rightarrow> string \<times> string \<times> real \<times> int" where
  "rw_sort_key r = (rw_EXPID r, rw_CELLID r, ELTIME r, TRACENUM r)"

definition sorted_results_wide :: "TED_ResultWide list \<Rightarrow> error + TED_ResultWide list" where
  "sorted_results_wide exp_res_wide =
     (if exp_res_wide = [] then Inl KeyError else Inr (sort_key rw_sort_key exp_res_wide))"

text \<open>
  The loop over \<^verbatim>\<open>exp_las.itertuples()\<close>. Its state is the object \<^verbatim>\<open>la\<close>, which every
  iteration updates and copies, and the list \<^verbatim>\<open>exp_liq_adds\<close> of the copies.
  \<^verbatim>\<open>.iloc[0]\<close> and \<^verbatim>\<open>.iloc[-1]\<close> raise \<^verbatim>\<open>IndexError\<close> on a selection without rows.
\<close>

fun trace_ranges ::
  "TED_ResultWide list \<Rightarrow> liquid_execution list \<Rightarrow> TED_LiquidAddition \<Rightarrow>
   TED_LiquidAddition list \<Rightarrow> error + TED_LiquidAddition list"
where
  "trace_ranges tmp [] la exp_liq_adds = Inr exp_liq_adds"
| "trace_ranges tmp (exp_la # rest) la exp_liq_adds =
     (case filter (\<lambda>r. ELTIME r \<ge> ex_TIME exp_la) tmp of
        [] \<Rightarrow> Inl IndexError
      | r # _ \<Rightarrow>
          (let la' = la\<lparr>la_LIQUID := ex_LIQUID exp_la, la_CONC := ex_CONC exp_la,
                        la_CONCU := ex_CONCU exp_la, la_CONCT := ex_CONCT exp_la,
                        la_CTLFL := ex_CTLFL exp_la, la_SBFL := ex_SBFL exp_la,
                        FIRST := TRACENUM r\<rparr>
           in if length exp_liq_adds > 0 then
                (if filter (\<lambda>r. ELTIME r < ex_TIME exp_la) tmp = [] then Inl IndexError
                 else trace_ranges tmp rest la'
                        (butlast exp_liq_adds @
                         [(last exp_liq_adds)
                            \<lparr>LAST := TRACENUM (last (filter (\<lambda>r. ELTIME r < ex_TIME exp_la) tmp))\<rparr>,
                          la']))
              else trace_ranges tmp rest la' (exp_liq_adds @ [la'])))"

text \<open>\<^verbatim>\<open>exp_liq_adds[-1].LAST = tmp.iloc[-1]["TRACENUM"]\<close>.\<close>

definition close_last_range ::
  "TED_ResultWide list \<Rightarrow> TED_LiquidAddition list \<Rightarrow> error + TED_LiquidAddition list"
where
  "close_last_range tmp exp_liq_adds =
     (if exp_liq_adds = [] \<or> tmp = [] then Inl IndexError
      else Inr (butlast exp_liq_adds @ [(last exp_liq_adds)\<lparr>LAST := TRACENUM (last tmp)\<rparr>]))"

text \<open>The analysis traces and the source files of one liquid addition.\<close>

definition in_range :: "TED_LiquidAddition \<Rightarrow> int \<Rightarrow> bool" where
  "in_range la n = (n \<ge> FIRST la \<and> n \<le> LAST la)"

definition fill_analysis :: "TED_ResultWide list \<Rightarrow> TED_LiquidAddition \<Rightarrow> TED_LiquidAddition" where
  "fill_analysis tmp exp_la =
     exp_la\<lparr>ANL := join '';''
                 (map str_of_int
                    (drop_duplicates
                       (map TRACENUM
                          (filter (\<lambda>r. ANLFL r = ''Y'' \<and> in_range exp_la (TRACENUM r)) tmp)))),
            la_SRCXFN := join '';''
                 (drop_duplicates
                    (map rw_SRCXFN (filter (\<lambda>r. in_range exp_la (TRACENUM r)) tmp)))\<rparr>"

text \<open>The liquid of an addition is written into the rows of its range.\<close>

definition add_liquid :: "TED_LiquidAddition \<Rightarrow> TED_ResultWide \<Rightarrow> TED_ResultWide" where
  "add_liquid exp_la er =
     (if rw_EXPID er = la_EXPID exp_la \<and> rw_CELLID er = la_CELLID exp_la \<and>
         TRACENUM er \<ge> FIRST exp_la \<and> TRACENUM er \<le> LAST exp_la
      then er\<lparr>rw_LIQUID := la_LIQUID exp_la, rw_CONC := Num (la_CONC exp_la),
              rw_CONCU := la_CONCU exp_la, rw_CONCT := la_CONCT exp_la,
              rw_dynamic := AList.update ''SBFL'' (Str (la_SBFL exp_la))
                              (AList.update ''CTLFL'' (Str (la_CTLFL exp_la)) (rw_dynamic er))\<rparr>
      else er)"

definition add_liquids ::
  "TED_LiquidAddition list \<Rightarrow> TED_ResultWide list \<Rightarrow> TED_ResultWide list"
where
  "add_liquids exp_liq_adds exp_res_wide =
     foldl (\<lambda>ers exp_la. map (add_liquid exp_la) ers) exp_res_wide exp_liq_adds"

text \<open>The body of the loop over \<^verbatim>\<open>trial.experiments\<close>: what one experiment adds to
  \<^verbatim>\<open>cursors_defs\<close>, \<^verbatim>\<open>cell_props\<close>, \<^verbatim>\<open>liquid_adds\<close> and \<^verbatim>\<open>res_wide\<close>.\<close>

record experiment_rows =
  er_cursors_defs :: "TED_CursorDefinition list"
  er_cell_props :: "TED_CellProperty list"
  er_liquid_adds :: "TED_LiquidAddition list"
  er_res_wide :: "TED_ResultWide list"

definition new_liquid_addition :: TED_LiquidAddition where
  "new_liquid_addition =
     \<lparr>la_EXPID = [], la_CELLID = [], la_STIME = [], LJP = 0, LJPU = [], la_LIQUID = [],
      la_CONC = 0, la_CONCU = [], la_CONCT = [], FIRST = 0, LAST = 0, la_CTLFL = [],
      la_SBFL = [], ANL = [], la_SRCXFN = [], NOTES = []\<rparr>"

definition first_results :: "Experiment \<Rightarrow> error + Results" where
  "first_results experiment =
     (case resultsSet experiment of
        None \<Rightarrow> Inl TypeError
      | Some [] \<Rightarrow> Inl IndexError
      | Some (rs # _) \<Rightarrow> Inr rs)"

definition experiment_ljp :: "Trial \<Rightarrow> Results \<Rightarrow> error + LiquidJunctionPotential" where
  "experiment_ljp trial rs =
     (case results_ljp rs of
        Some l \<Rightarrow> Inr l
      | None \<Rightarrow> (case trial_ljp trial of None \<Rightarrow> Inl AttributeError | Some l \<Rightarrow> Inr l))"

text \<open>The object \<^verbatim>\<open>la\<close> of an experiment before the loop over its liquid additions.\<close>

definition template_liquid_addition ::
  "Experiment \<Rightarrow> Id \<Rightarrow> LiquidJunctionPotential \<Rightarrow> TED_LiquidAddition"
where
  "template_liquid_addition experiment cid l =
     new_liquid_addition
       \<lparr>la_EXPID := composite_id (exp_id experiment), la_STIME := startTime experiment,
        la_CELLID := composite_id cid, LJP := ljp_value l, LJPU := ljp_unit l\<rparr>"

definition liquid_addition_rows ::
  "TED_ResultWide list \<Rightarrow> liquid_execution list \<Rightarrow> TED_LiquidAddition \<Rightarrow>
   error + TED_LiquidAddition list"
where
  "liquid_addition_rows tmp exp_las la =
     (case trace_ranges tmp exp_las la [] of
        Inl e \<Rightarrow> Inl e
      | Inr exp_liq_adds \<Rightarrow>
          (case close_last_range tmp exp_liq_adds of
             Inl e \<Rightarrow> Inl e
           | Inr ranges \<Rightarrow> Inr (map (fill_analysis tmp) ranges)))"

definition experiment_tables :: "Trial \<Rightarrow> Experiment \<Rightarrow> error + experiment_rows" where
  "experiment_tables trial experiment =
     (case first_results experiment of Inl e \<Rightarrow> Inl e | Inr rs \<Rightarrow>
      case cursor_definitions rs of Inl e \<Rightarrow> Inl e | Inr cdefs \<Rightarrow>
      case cell_id (cell rs) of None \<Rightarrow> Inl AttributeError | Some cid \<Rightarrow>
      case experiment_ljp trial rs of Inl e \<Rightarrow> Inl e | Inr l \<Rightarrow>
      let la = template_liquid_addition experiment cid l in
      case liquid_executions experiment of Inl e \<Rightarrow> Inl e | Inr exec_ps \<Rightarrow>
      case sorted_liquid_additions exec_ps of Inl e \<Rightarrow> Inl e | Inr exp_las \<Rightarrow>
      case experiment_results_wide la rs of Inl e \<Rightarrow> Inl e | Inr exp_res_wide \<Rightarrow>
      case sorted_results_wide exp_res_wide of Inl e \<Rightarrow> Inl e | Inr tmp \<Rightarrow>
      case liquid_addition_rows tmp exp_las la of Inl e \<Rightarrow> Inl e | Inr exp_liq_adds \<Rightarrow>
        Inr \<lparr>er_cursors_defs = cdefs,
             er_cell_props = cell_property_rows la rs,
             er_liquid_adds = exp_liq_adds,
             er_res_wide = add_liquids exp_liq_adds exp_res_wide\<rparr>)"

text \<open>\<^verbatim>\<open>cells_cursors_liquids_results_dataframes\<close>.\<close>

record ted_tables =
  CellProperties :: dataframe
  CursorsDefinitions :: dataframe
  LiquidAdditions :: dataframe
  ResultsWide :: dataframe

definition cells_cursors_liquids_results_dataframes :: "Trial \<Rightarrow> error + ted_tables" where
  "cells_cursors_liquids_results_dataframes trial =
     (case map_result (experiment_tables trial) (experiments trial) of Inl e \<Rightarrow> Inl e | Inr rows \<Rightarrow>
      let cell_props = concat (map er_cell_props rows);
          cursors_defs = concat (map er_cursors_defs rows);
          liquid_adds = concat (map er_liquid_adds rows);
          res_wide = concat (map er_res_wide rows);
          cell_props_df =
            (if length cell_props = 0
             then DataFrame_columns [''EXPID'', ''CELLID'', ''PARAMCD'', ''PARAM'', ''VALUE'', ''UNIT'']
             else DataFrame (map cp_dict cell_props));
          cursors_defs_df = df_drop_duplicates (DataFrame (map cd_dict cursors_defs)) in
      case df_sort_values [''STIME'', ''EXPID'', ''CELLID'', ''FIRST'', ''LAST'']
             (DataFrame (map la_dict liquid_adds)) of Inl e \<Rightarrow> Inl e | Inr la_df \<Rightarrow>
      case df_drop ''SRCXFN'' (DataFrame (map rw_dict res_wide)) of Inl e \<Rightarrow> Inl e | Inr dropped \<Rightarrow>
      case df_sort_values [''EXPID'', ''CELLID'', ''ELTIME'', ''TRACENUM'']
             (df_drop_duplicates dropped) of Inl e \<Rightarrow> Inl e | Inr rw_df \<Rightarrow>
        Inr \<lparr>CellProperties = cell_props_df, CursorsDefinitions = cursors_defs_df,
             LiquidAdditions = la_df, ResultsWide = rw_df\<rparr>)"

section \<open>The waveform store\<close>

text \<open>
  \<^verbatim>\<open>os.path.splitext\<close>, \<^verbatim>\<open>os.path.dirname\<close> and \<^verbatim>\<open>os.path.join\<close> on POSIX paths.
\<close>

definition splitext_ext :: "string \<Rightarrow> string" where
  "splitext_ext path =
     (let parts = split_on CHR ''.'' (last (split_on CHR ''/'' path))
      in if length parts \<ge> 2 \<and> (\<exists>s \<in> set (butlast parts). s \<noteq> [])
         then CHR ''.'' # last parts else [])"

definition dirname :: "string \<Rightarrow> string" where
  "dirname path =
     (let hd_part = rev (dropWhile (\<lambda>c. c \<noteq> CHR ''/'') (rev path))
      in if \<forall>c \<in> set hd_part. c = CHR ''/'' then hd_part
         else rev (dropWhile (\<lambda>c. c = CHR ''/'') (rev hd_part)))"

definition path_join :: "string \<Rightarrow> string \<Rightarrow> string" where
  "path_join a b =
     (if b \<noteq> [] \<and> hd b = CHR ''/'' then b
      else if a = [] \<or> last a = CHR ''/'' then a @ b
      else a @ ''/'' @ b)"

text \<open>
  Reading a column of samples from a delimited text file is outside the program:
  a reader \<open>rd\<close> gives, for a file name, a number of header rows, a number of rows to
  read and a column, the samples, or nothing when pandas cannot read them (modelled as
  \<^verbatim>\<open>FileNotFoundError\<close>).
\<close>

type_synonym csv_reader = "string \<Rightarrow> int \<Rightarrow> int \<Rightarrow> int \<Rightarrow> real list option"

text \<open>\<^verbatim>\<open>Waveform.digits_from_file\<close>, called on a waveform without samples in memory.
  Without header rows no file is read and the method fails on \<^verbatim>\<open>None.iloc\<close>.\<close>

definition digits_from_file :: "csv_reader \<Rightarrow> Waveform \<Rightarrow> error + Waveform" where
  "digits_from_file rd w =
     (if lower (splitext_ext (edfilename w)) = ''.csv'' then
        (if headersize w > 0 then
           (case rd (edfilename w) (headersize w) (numrows w) (itemcol w) of
              None \<Rightarrow> Inl FileNotFoundError
            | Some ds \<Rightarrow> Inr (w\<lparr>digits := ds\<rparr>))
         else Inl AttributeError)
      else Inr w)"

definition column_frame :: "string \<Rightarrow> cell list \<Rightarrow> dataframe" where
  "column_frame c vs = \<lparr>df_columns = [c], df_rows = map (\<lambda>v. [v]) vs\<rparr>"

text \<open>\<^verbatim>\<open>df.insert(0, c, vs)\<close>: a column that exists already is refused.\<close>

definition df_insert_first :: "string \<Rightarrow> cell list \<Rightarrow> dataframe \<Rightarrow> error + dataframe" where
  "df_insert_first c vs df =
     (if c \<in> set (df_columns df) \<or> length vs \<noteq> length (df_rows df) then Inl ValueError
      else Inr \<lparr>df_columns = c # df_columns df, df_rows = map2 (#) vs (df_rows df)\<rparr>)"

text \<open>\<^verbatim>\<open>pd.concat(dfs, axis=1)\<close>: the columns side by side, shorter tables filled with
  \<^verbatim>\<open>nan\<close>.\<close>

definition concat_columns :: "dataframe list \<Rightarrow> dataframe" where
  "concat_columns dfs =
     \<lparr>df_columns = concat (map df_columns dfs),
      df_rows =
        map (\<lambda>i. concat (map (\<lambda>df. if i < length (df_rows df) then df_rows df ! i
                                    else replicate (length (df_columns df)) NaN) dfs))
            [0..<foldr max (map (\<lambda>df. length (df_rows df)) dfs) 0]\<rparr>"

text \<open>\<^verbatim>\<open>Waveform.timeseries_to_df\<close>: the samples in physical units, and with
  \<^verbatim>\<open>includetime\<close> the time axis \<^verbatim>\<open>np.linspace(0, (n - 1) * increment, n)\<close> before them.\<close>

definition timeseries_to_df :: "csv_reader \<Rightarrow> bool \<Rightarrow> Waveform \<Rightarrow> error + dataframe" where
  "timeseries_to_df rd includetime w0 =
     (case (if length (digits w0) = 0 then digits_from_file rd w0 else Inr w0) of
        Inl e \<Rightarrow> Inl e
      | Inr w \<Rightarrow>
          (let signam = (if signalnam w = [] then lower (last (split_on CHR ''_'' (cipaType w)))
                         else signalnam w);
               signal_colname = ''trace_#'' @ str_of_int (tracenum w) @ ''_'' @ signam @ ''_''
                                 @ scale_unit w;
               wf_df = column_frame signal_colname
                         (map (\<lambda>d. Num (d * scale_value w + origin_value w)) (digits w))
           in if includetime then
                df_insert_first (''t_'' @ increment_unit w)
                  (map (\<lambda>i. Num (real i * increment_value w)) [0..<length (digits w)]) wf_df
              else Inr wf_df))"

text \<open>\<^verbatim>\<open>waveforms_to_df\<close>: the first waveform gives the time axis. The list holds the
  attribute \<^verbatim>\<open>waveform\<close> of each result, which may be \<^verbatim>\<open>None\<close>.\<close>

definition waveform_frame :: "csv_reader \<Rightarrow> bool \<Rightarrow> Waveform option \<Rightarrow> error + dataframe" where
  "waveform_frame rd includetime w =
     (case w of None \<Rightarrow> Inl AttributeError | Some v \<Rightarrow> timeseries_to_df rd includetime v)"

definition waveforms_to_df :: "csv_reader \<Rightarrow> Waveform option list \<Rightarrow> error + dataframe" where
  "waveforms_to_df rd wf_list =
     (case wf_list of
        [] \<Rightarrow> Inl IndexError
      | w # ws \<Rightarrow>
          (case waveform_frame rd True w of
             Inl e \<Rightarrow> Inl e
           | Inr wf_df \<Rightarrow>
               (if length wf_list > 1 then
                  (case map_result (waveform_frame rd False) ws of
                     Inl e \<Rightarrow> Inl e
                   | Inr dfs \<Rightarrow> Inr (concat_columns [wf_df, concat_columns dfs]))
                else Inr wf_df)))"

section \<open>The exporter\<close>

text \<open>A TED dataset: the sheets of the workbook and the waveform files, each with the
  name under which it is stored (for a sheet of \<^verbatim>\<open>waveforms.xlsx\<close>, the name of the
  sheet after a colon).\<close>

record ted_dataset =
  GeneralInformation :: "(string \<times> string) list"
  wb_CellProperties :: dataframe
  wb_LiquidAdditions :: dataframe
  wb_CursorsDefinitions :: dataframe
  IntendedVoltageProtocol :: dataframe
  wb_ResultsWide :: dataframe
  waveform_files :: "(string \<times> dataframe) list"

definition general_information :: "Trial \<Rightarrow> error + (string \<times> string) list" where
  "general_information trial =
     (case study trial of
        None \<Rightarrow> Inl AttributeError
      | Some st \<Rightarrow>
          (case devices trial of
             [] \<Rightarrow> Inl IndexError
           | d # _ \<Rightarrow>
               (case device_id d of
                  None \<Rightarrow> Inl AttributeError
                | Some i \<Rightarrow>
                    Inr [(''STUDYID'', studyId st),
                         (''REPORT_TITLE'', report_title (report st)),
                         (''REPORT_VERSION'', report_version (report st)),
                         (''REPORT_DATE'', report_date (report st)),
                         (''REPORT_DESCRIPTION'', report_text (report st)),
                         (''DEVICE_ID'', id_root i @ id_extension i),
                         (''DEVICE_CODE'', device_code d),
                         (''DEVICE_MODEL'', manufacturerModelName d),
                         (''DEVICE_SOFTWARE'', deviceSoftwareName d)])))"

text \<open>\<^verbatim>\<open>voltage_command_dataframe\<close>: the waveform of the first voltage protocol.\<close>

definition voltage_command_dataframe :: "csv_reader \<Rightarrow> Trial \<Rightarrow> error + dataframe" where
  "voltage_command_dataframe rd trial =
     (case filter (\<lambda>p. protocol_type p = CIPA_PROTOCOL_VOLTAGE) (protocols trial) of
        VoltageP vp # _ \<Rightarrow>
          (case timeseries_to_df rd True (vp_waveform vp) of
             Inl e \<Rightarrow> Inl e
           | Inr ivp \<Rightarrow> Inr (df_drop_duplicates ivp))
      | _ \<Rightarrow> Inr (df_drop_duplicates (DataFrame [])))"

text \<open>\<^verbatim>\<open>la_df.loc[(la_df["EXPID"] == expid) & (la_df["CELLID"] == sheetname), "SRCXFN"] = v\<close>.\<close>

definition set_SRCXFN :: "string \<Rightarrow> string \<Rightarrow> string \<Rightarrow> dataframe \<Rightarrow> dataframe" where
  "set_SRCXFN expid sheetname v la_df =
     la_df\<lparr>df_rows :=
       map (\<lambda>r. if df_get la_df r ''EXPID'' = Str expid \<and> df_get la_df r ''CELLID'' = Str sheetname
                then map (\<lambda>kc. if fst kc = ''SRCXFN'' then Str v else snd kc)
                       (zip (df_columns la_df) r)
                else r)
           (df_rows la_df)\<rparr>"

text \<open>The name of the waveform file of a cell and the reference to it in \<^verbatim>\<open>SRCXFN\<close>,
  in the three supported formats.\<close>

definition edfile_name :: "string \<Rightarrow> string \<Rightarrow> string" where
  "edfile_name edformat sheetname =
     (if edformat = ''csv'' then join ''.'' [sheetname, ''csv'']
      else if edformat = ''zip'' then join ''.'' [sheetname, ''csv'', ''zip'']
      else ''waveforms.xlsx:'' @ sheetname)"

definition edfile_reference :: "string \<Rightarrow> string \<Rightarrow> string" where
  "edfile_reference edformat sheetname =
     (if edformat = ''csv'' then join ''.'' [sheetname, ''csv'']
      else if edformat = ''zip''
      then (let csvfn = join ''.'' [sheetname, ''csv'', ''zip'']
            in csvfn @ '':'' @ take (length csvfn - 4) csvfn)
      else ''waveforms.xlsx:'' @ sheetname)"

text \<open>The body of the loop over the experiments in each of the three branches: the
  reference is written into the rows of the cell, and the waveforms of the first set of
  results are saved.\<close>

definition export_experiment_waveforms ::
  "csv_reader \<Rightarrow> string \<Rightarrow> string \<Rightarrow> Experiment \<Rightarrow> dataframe \<times> (string \<times> dataframe) list \<Rightarrow>
   error + dataframe \<times> (string \<times> dataframe) list"
where
  "export_experiment_waveforms rd edformat teddir experiment st =
     (case first_results experiment of Inl e \<Rightarrow> Inl e | Inr rs \<Rightarrow>
      case cell_id (cell rs) of None \<Rightarrow> Inl AttributeError | Some cid \<Rightarrow>
      let expid = composite_id (exp_id experiment);
          sheetname = composite_id cid;
          la_df = set_SRCXFN expid sheetname (edfile_reference edformat sheetname) (fst st) in
      case results rs of None \<Rightarrow> Inl TypeError | Some ress \<Rightarrow>
      case waveforms_to_df rd (map waveform ress) of Inl e \<Rightarrow> Inl e | Inr wf_df \<Rightarrow>
        Inr (la_df, snd st @ [(path_join teddir (edfile_name edformat sheetname), wf_df)]))"

fun export_waveforms ::
  "csv_reader \<Rightarrow> string \<Rightarrow> string \<Rightarrow> Experiment list \<Rightarrow> dataframe \<times> (string \<times> dataframe) list \<Rightarrow>
   error + dataframe \<times> (string \<times> dataframe) list"
where
  "export_waveforms rd edformat teddir [] st = Inr st"
| "export_waveforms rd edformat teddir (experiment # rest) st =
     (case export_experiment_waveforms rd edformat teddir experiment st of
        Inl e \<Rightarrow> Inl e
      | Inr st' \<Rightarrow> export_waveforms rd edformat teddir rest st')"

text \<open>\<^verbatim>\<open>to_xlsx\<close>. The format of the waveform files is looked at after the tables have
  been built.\<close>

definition to_xlsx :: "csv_reader \<Rightarrow> Trial \<Rightarrow> string \<Rightarrow> string \<Rightarrow> error + ted_dataset" where
  "to_xlsx rd trial ted_xlsx_filename edformat =
     (case general_information trial of Inl e \<Rightarrow> Inl e | Inr gi \<Rightarrow>
      case voltage_command_dataframe rd trial of Inl e \<Rightarrow> Inl e | Inr ivp_df \<Rightarrow>
      case cells_cursors_liquids_results_dataframes trial of Inl e \<Rightarrow> Inl e | Inr dfs \<Rightarrow>
      case (if edformat = ''csv'' \<or> edformat = ''zip'' \<or> edformat = ''xlsx''
            then export_waveforms rd edformat (dirname ted_xlsx_filename)
                   (experiments trial) (LiquidAdditions dfs, [])
            else Inl (EncapsulatedDataFileError edformat
                        ''Unsopported file format for encapsulated data'')) of
        Inl e \<Rightarrow> Inl e
      | Inr written \<Rightarrow>
          Inr \<lparr>GeneralInformation = gi,
               wb_CellProperties = CellProperties dfs,
               wb_LiquidAdditions = fst written,
               wb_CursorsDefinitions = CursorsDefinitions dfs,
               IntendedVoltageProtocol = ivp_df,
               wb_ResultsWide = ResultsWide dfs,
               waveform_files = snd written\<rparr>)"

text \<open>The exceptions of Python and pandas, as opposed to the two classes of
  \<^verbatim>\<open>cipa.core\<close>.\<close>

fun builtin_exception :: "error \<Rightarrow> bool" where
  "builtin_exception (ParseFileError f m) = False"
| "builtin_exception (EncapsulatedDataFileError f m) = False"
| "builtin_exception e = True"

text \<open>The steps of \<^verbatim>\<open>to_xlsx\<close> before it looks at the format complete.\<close>

definition tables_built :: "csv_reader \<Rightarrow> Trial \<Rightarrow> bool" where
  "tables_built rd trial =
     (\<not> isl (general_information trial) \<and> \<not> isl (voltage_command_dataframe rd trial) \<and>
      \<not> isl (cells_cursors_liquids_results_dataframes trial))"

section \<open>The importer\<close>

text \<open>
  What \<^verbatim>\<open>from_xlsx\<close> reads. The workbook is given by its sheets as pandas reads them,
  with the columns of the TED format and cells of the types that \<^verbatim>\<open>to_xlsx\<close> writes;
  the sheet \<^verbatim>\<open>IntendedVoltageProtocol\<close> and the waveform files are tables of numbers.
  The waveform files are looked up by their path: delimited text files, archives with
  their members, and workbooks with their first sheet. A file that is not there gives
  \<^verbatim>\<open>FileNotFoundError\<close>, a missing member of an archive \<^verbatim>\<open>KeyError\<close>.
\<close>

record numeric_table =
  nt_columns :: "string list"
  nt_rows :: "real list list"

record ted_workbook =
  sheet_GeneralInformation :: "(string \<times> string) list"
  sheet_CellProperties :: "TED_CellProperty list"
  sheet_LiquidAdditions :: "TED_LiquidAddition list"
  sheet_CursorsDefinitions :: "TED_CursorDefinition list"
  sheet_IntendedVoltageProtocol :: numeric_table
  sheet_ResultsWide :: "TED_ResultWide list"

record ted_files =
  csv_files :: "string \<Rightarrow> numeric_table option"
  zip_files :: "string \<Rightarrow> (string \<Rightarrow> numeric_table option) option"
  xlsx_files :: "string \<Rightarrow> numeric_table option"

text \<open>\<^verbatim>\<open>df.iloc[i, j]\<close> and \<^verbatim>\<open>df.columns[j]\<close>.\<close>

definition nt_iloc :: "numeric_table \<Rightarrow> nat \<Rightarrow> nat \<Rightarrow> error + real" where
  "nt_iloc t i j =
     (if i < length (nt_rows t) \<and> j < length (nt_rows t ! i) then Inr (nt_rows t ! i ! j)
      else Inl IndexError)"

definition nt_column_name :: "numeric_table \<Rightarrow> nat \<Rightarrow> error + string" where
  "nt_column_name t j =
     (if j < length (nt_columns t) then Inr (nt_columns t ! j) else Inl IndexError)"

text \<open>The values of the column with a given name.\<close>

definition nt_column :: "numeric_table \<Rightarrow> string \<Rightarrow> real list" where
  "nt_column t c =
     (case filter (\<lambda>j. nt_columns t ! j = c) [0..<length (nt_columns t)] of
        [] \<Rightarrow> []
      | j # _ \<Rightarrow> map (\<lambda>r. r ! j) (nt_rows t))"

text \<open>The helper dictionaries of \<^verbatim>\<open>from_xlsx\<close>, and \<^verbatim>\<open>LeakMethod_Type[name]\<close>.\<close>

definition conctypes :: "string \<Rightarrow> Concentration_Type option" where
  "conctypes =
     map_of [(''NOMINAL'', CIPA_PROTOCOL_LIQUID_CONCENTRATION_NOMINAL),
             (''MEASURED'', CIPA_PROTOCOL_LIQUID_CONCENTRATION_MEASURED)]"

definition cursortypes :: "string \<Rightarrow> Cursor_Type option" where
  "cursortypes =
     map_of [(''AVERAGE'', AVERAGE), (''MAXIMUM'', MAXIMUM), (''MINIMUM'', MINIMUM),
             (''CUSTOM'', CUSTOM)]"

definition LeakMethod_Type_of :: "string \<Rightarrow> LeakMethod_Type option" where
  "LeakMethod_Type_of =
     map_of (map (\<lambda>m. (LeakMethod_Type_name m, m))
               [CIPA_LEAK_METHOD_NONE, CIPA_LEAK_METHOD_SMALL_PULSE, CIPA_LEAK_METHOD_FAST_LEAK,
                CIPA_LEAK_METHOD_SWEEP, CIPA_LEAK_METHOD_ZERO_CURSOR, CIPA_LEAK_METHOD_UNKNOWN])"

definition new_Id :: "string \<Rightarrow> Id" where
  "new_Id r = \<lparr>id_root = r, id_extension = []\<rparr>"

definition new_Waveform :: Waveform where
  "new_Waveform =
     \<lparr>head_value = 0, head_unit = ''s'', increment_value = 0, increment_unit = ''s'',
      origin_value = 0, origin_unit = [], scale_value = 0, scale_unit = [], digits = [],
      cipaType = [], sequenceType = [], wf_displayName = [], tracenum = - 1, signalnam = [],
      edfilename = [], numrows = - 1, itemcol = 0, headersize = 0\<rparr>"

subsection \<open>Study, device and liquid junction potential\<close>

text \<open>\<^verbatim>\<open>gi[gi["PARAMCD"] == key]["VALUE"].map(str).iloc[0]\<close>.\<close>

definition gi_value :: "(string \<times> string) list \<Rightarrow> string \<Rightarrow> error + string" where
  "gi_value gi key =
     (case filter (\<lambda>kv. fst kv = key) gi of [] \<Rightarrow> Inl IndexError | kv # _ \<Rightarrow> Inr (snd kv))"

definition import_study_and_devices :: "(string \<times> string) list \<Rightarrow> error + Study \<times> Device list" where
  "import_study_and_devices gi =
     (case map_result (gi_value gi)
             [''STUDYID'', ''REPORT_TITLE'', ''REPORT_VERSION'', ''REPORT_DATE'',
              ''REPORT_DESCRIPTION'', ''DEVICE_ID'', ''DEVICE_CODE'', ''DEVICE_MODEL'',
              ''DEVICE_SOFTWARE''] of
        Inl e \<Rightarrow> Inl e
      | Inr vs \<Rightarrow>
          Inr (\<lparr>studyId = vs ! 0,
                report = \<lparr>report_title = vs ! 1, report_version = vs ! 2,
                          report_date = vs ! 3, report_text = vs ! 4\<rparr>\<rparr>,
               [\<lparr>device_id = Some (new_Id (vs ! 5)), device_code = vs ! 6,
                 manufacturerModelName = vs ! 7, deviceSoftwareName = vs ! 8\<rparr>]))"

text \<open>\<^verbatim>\<open>la["CTLFL"].map(str).replace('nan', '').str.upper()\<close> on one cell.\<close>

definition flag_upper :: "string \<Rightarrow> string" where
  "flag_upper s = upper (if s = ''nan'' then [] else s)"

definition normalise_flags :: "TED_LiquidAddition \<Rightarrow> TED_LiquidAddition" where
  "normalise_flags r = r\<lparr>la_CTLFL := flag_upper (la_CTLFL r), la_SBFL := flag_upper (la_SBFL r)\<rparr>"

text \<open>The liquid junction potential of the first row; without rows, \<^verbatim>\<open>la["LJP"][0]\<close>
  raises \<^verbatim>\<open>KeyError\<close>.\<close>

definition import_ljp :: "TED_LiquidAddition list \<Rightarrow> error + LiquidJunctionPotential" where
  "import_ljp la =
     (case la of
        [] \<Rightarrow> Inl KeyError
      | r # _ \<Rightarrow> Inr \<lparr>ljp_value = LJP r, ljp_unit = LJPU r, reportedVoltage = Vclamp\<rparr>)"

subsection \<open>Protocols\<close>

definition import_voltage_protocol :: "numeric_table \<Rightarrow> error + VoltageProtocol" where
  "import_voltage_protocol vc =
     (case nt_column_name vc 0 of Inl e \<Rightarrow> Inl e | Inr c0 \<Rightarrow>
      case nt_column_name vc 1 of Inl e \<Rightarrow> Inl e | Inr c1 \<Rightarrow>
      case nt_iloc vc 1 0 of Inl e \<Rightarrow> Inl e | Inr t1 \<Rightarrow>
      case nt_iloc vc 0 0 of Inl e \<Rightarrow> Inl e | Inr t0 \<Rightarrow>
      let t_units = last (split_on CHR ''_'' c0);
          v_units = last (split_on CHR ''_'' c1);
          vcwf = new_Waveform
                   \<lparr>head_value := 0, head_unit := t_units,
                    increment_value := t1 - t0, increment_unit := t_units,
                    origin_value := 0, origin_unit := v_units,
                    scale_value := 1, scale_unit := v_units,
                    cipaType := ''CIPA_PROTOCOL_VOLTAGE'', tracenum := - 1,
                    signalnam := ''voltage'',
                    wf_displayName := ''Step ramp voltage protocol for hERG'',
                    sequenceType := ''CIPA_TRACE_RECONSTRUTED'',
                    digits := map (\<lambda>r. r ! 1) (nt_rows vc)\<rparr>
      in Inr \<lparr>vp_id = new_Id ''PV-10001'', vp_waveform = vcwf,
              vp_name = ''Intended voltage command'', vp_duration = 5, vp_duration_u = ''s''\<rparr>)"

text \<open>The liquids: one per name, numbered in the order of their first row.\<close>

definition import_liquids :: "TED_LiquidAddition list \<Rightarrow> Liquid list" where
  "import_liquids la =
     map (\<lambda>(idx, nm). \<lparr>liquid_id = new_Id (''L-'' @ str_of_int (int idx)), liquid_name = nm,
                         batch = [], liquid_description = []\<rparr>)
         (enumerate 0 (drop_duplicates (map la_LIQUID la)))"

text \<open>The key of a liquid protocol: \<^verbatim>\<open>LIQUID, CONC, CONCU, CONCT, CTLFL, SBFL\<close>.\<close>

type_synonym liquid_key = "string \<times> real \<times> string \<times> string \<times> string \<times> string"

definition liquid_key_of :: "TED_LiquidAddition \<Rightarrow> liquid_key" where
  "liquid_key_of r = (la_LIQUID r, la_CONC r, la_CONCU r, la_CONCT r, la_CTLFL r, la_SBFL r)"

text \<open>
  One liquid protocol for a key, as the \<^verbatim>\<open>lambda\<close> passed to \<^verbatim>\<open>liquid_ps.apply\<close>
  builds it. The type of concentration is \<^verbatim>\<open>conctypes[x.CONCT.upper()]\<close>, which
  raises \<^verbatim>\<open>KeyError\<close> for a key that is not in the dictionary. \<open>fmt\<close> is the text
  that an f-string gives for a float.
\<close>

definition import_liquid_protocol ::
  "(real \<Rightarrow> string) \<Rightarrow> Liquid list \<Rightarrow> nat \<times> liquid_key \<Rightarrow> error + LiquidProtocol"
where
  "import_liquid_protocol fmt ls ik =
     (case ik of (idx, (liquid, c, cu, ct, ctlfl, sbfl)) \<Rightarrow>
        (case filter (\<lambda>l. liquid_name l = liquid) ls of
           [] \<Rightarrow> Inl AttributeError
         | l # _ \<Rightarrow>
             (case conctypes (upper ct) of
                None \<Rightarrow> Inl KeyError
              | Some t \<Rightarrow>
                  Inr \<lparr>lp_id = new_Id (''P-'' @ str_of_int (int idx) @ ''_'' @ id_root (liquid_id l)),
                       lp_liquid = l,
                       lp_name = liquid @ '' '' @ fmt c @ '' '' @ cu,
                       lp_duration = 0, lp_duration_u = [],
                       conc = c, conc_u = cu, conc_type = t,
                       isControl = (upper ctlfl = ''Y''),
                       isSelectiveBlocker = (upper sbfl = ''Y'')\<rparr>)))"

definition import_liquid_protocols ::
  "(real \<Rightarrow> string) \<Rightarrow> TED_LiquidAddition list \<Rightarrow> error + (liquid_key \<times> LiquidProtocol) list"
where
  "import_liquid_protocols fmt la =
     (let keys = drop_duplicates (map liquid_key_of la)
      in case map_result (import_liquid_protocol fmt (import_liquids la)) (enumerate 0 keys) of
           Inl e \<Rightarrow> Inl e
         | Inr lps \<Rightarrow> Inr (zip keys lps))"

definition import_cursor :: "TED_CursorDefinition \<Rightarrow> error + Cursor" where
  "import_cursor c =
     (case cursortypes (upper (CURSORT c)) of
        None \<Rightarrow> Inl KeyError
      | Some t \<Rightarrow>
          Inr \<lparr>cursor_name = CURSOR c, cursor_start = cd_STIME c, cursor_end = ETIME c,
               cursor_time_u = STIMEU c, cursor_type = Some t, cursor_result = None\<rparr>)"

text \<open>
  The first part of \<^verbatim>\<open>from_xlsx\<close>, up to the cursors: the trial without its
  experiments, the rows of the liquid additions with their flags in upper case, the
  liquid protocol of each key, and the cursors of the results.
\<close>

record import_head =
  ih_trial :: Trial
  ih_la :: "TED_LiquidAddition list"
  ih_protocols :: "(liquid_key \<times> LiquidProtocol) list"
  ih_voltage :: VoltageProtocol
  ih_cursors :: "Cursor list"

definition from_xlsx_head :: "(real \<Rightarrow> string) \<Rightarrow> ted_workbook \<Rightarrow> error + import_head" where
  "from_xlsx_head fmt wb =
     (case import_study_and_devices (sheet_GeneralInformation wb) of Inl e \<Rightarrow> Inl e | Inr sd \<Rightarrow>
      let la = map normalise_flags (sheet_LiquidAdditions wb) in
      case import_ljp la of Inl e \<Rightarrow> Inl e | Inr l \<Rightarrow>
      case import_voltage_protocol (sheet_IntendedVoltageProtocol wb) of Inl e \<Rightarrow> Inl e | Inr vp \<Rightarrow>
      case import_liquid_protocols fmt la of Inl e \<Rightarrow> Inl e | Inr lps \<Rightarrow>
      case map_result import_cursor (sheet_CursorsDefinitions wb) of Inl e \<Rightarrow> Inl e | Inr cs \<Rightarrow>
        Inr \<lparr>ih_trial =
               \<lparr>trial_version = ''2022.07'',
                trial_description = ''COD dataset imported from TED files'',
                study = Some (fst sd), devices = snd sd, trial_ljp = Some l,
                liquids = import_liquids la,
                protocols = VoltageP vp # map (\<lambda>kp. LiquidP (snd kp)) lps,
                experiments = []\<rparr>,
             ih_la = la, ih_protocols = lps, ih_voltage = vp, ih_cursors = cs\<rparr>)"

subsection \<open>The waveform file of a trace\<close>

text \<open>The last \<open>n\<close> characters of a string, \<^verbatim>\<open>s[-n:]\<close>.\<close>

definition last_chars :: "nat \<Rightarrow> string \<Rightarrow> string" where
  "last_chars n s = drop (length s - n) s"

record waveformdata =
  wd_filename :: string
  wd_data :: "numeric_table option"
  t_increase_ms :: real

definition new_waveformdata :: waveformdata where
  "new_waveformdata = \<lparr>wd_filename = [], wd_data = None, t_increase_ms = 0\<rparr>"

definition read_csv :: "ted_files \<Rightarrow> string \<Rightarrow> error + numeric_table" where
  "read_csv files path =
     (case csv_files files path of None \<Rightarrow> Inl FileNotFoundError | Some t \<Rightarrow> Inr t)"

definition read_zipped_csv :: "ted_files \<Rightarrow> string \<Rightarrow> string \<Rightarrow> error + numeric_table" where
  "read_zipped_csv files path member =
     (case zip_files files path of
        None \<Rightarrow> Inl FileNotFoundError
      | Some container \<Rightarrow>
          (case container member of None \<Rightarrow> Inl KeyError | Some t \<Rightarrow> Inr t))"

definition read_excel :: "ted_files \<Rightarrow> string \<Rightarrow> error + numeric_table" where
  "read_excel files path =
     (case xlsx_files files path of None \<Rightarrow> Inl FileNotFoundError | Some t \<Rightarrow> Inr t)"

text \<open>
  The \<^verbatim>\<open>if\<close> on the extension of \<^verbatim>\<open>SRCXFN\<close>: what is in \<^verbatim>\<open>waveformdata_from_file["data"]\<close>
  afterwards. A reference that ends in \<^verbatim>\<open>.csv\<close> and has a colon, but no archive
  \<^verbatim>\<open>.zip\<close> before it, is only printed as unsupported; a reference that ends neither
  in \<^verbatim>\<open>.csv\<close> nor in \<^verbatim>\<open>.xlsx\<close> falls through. In both cases the data stay as they
  were.
\<close>

definition load_waveform_file ::
  "ted_files \<Rightarrow> string \<Rightarrow> string \<Rightarrow> numeric_table option \<Rightarrow> error + numeric_table option"
where
  "load_waveform_file files ted_directory filename old_data =
     (if lower (last_chars 4 filename) = ''.csv'' then
        (let parts = split_on CHR '':'' filename
         in if length parts = 1 then
              map_sum id Some (read_csv files (path_join ted_directory filename))
            else if lower (last_chars 4 (parts ! 0)) = ''.zip'' then
              map_sum id Some
                (read_zipped_csv files (path_join ted_directory (parts ! 0)) (parts ! 1))
            else Inr old_data)
      else if lower (last_chars 5 filename) = ''.xlsx'' then
        map_sum id Some (read_excel files (path_join ted_directory filename))
      else Inr old_data)"

text \<open>
  The time axis in milliseconds: the unit after the last underscore of the name of the
  first column, the first time, and the step between the first two times.
\<close>

definition normalise_time :: "string \<Rightarrow> real \<Rightarrow> real \<Rightarrow> string \<times> real \<times> real" where
  "normalise_time time_units time_head time_step =
     (if time_units = ''s'' then (time_units, time_head * 1000, time_step * 1000)
      else if time_units = ''ms'' then (time_units, time_head, time_step)
      else if time_units = ''us'' then (time_units, time_head * (1 / 1000), time_step * (1 / 1000))
      else if time_step < 1 / 1000 then (''ms'', time_head * (1 / 1000), time_step * 1000)
      else (''ms'', time_head, time_step))"

text \<open>
  The block that \<^verbatim>\<open>from_xlsx\<close> runs for a trace whose \<^verbatim>\<open>SRCXFN\<close> is not the file
  loaded last: it returns the new state of \<^verbatim>\<open>waveformdata_from_file\<close> with
  \<^verbatim>\<open>time_units\<close> and \<^verbatim>\<open>time_head\<close>. Without data, \<^verbatim>\<open>None.columns\<close> raises
  \<^verbatim>\<open>AttributeError\<close>.
\<close>

definition load_waveform_data ::
  "ted_files \<Rightarrow> string \<Rightarrow> waveformdata \<Rightarrow> string \<Rightarrow> error + waveformdata \<times> string \<times> real"
where
  "load_waveform_data files ted_directory wd srcxfn =
     (case load_waveform_file files ted_directory srcxfn (wd_data wd) of Inl e \<Rightarrow> Inl e
      | Inr loaded \<Rightarrow>
      case loaded of None \<Rightarrow> Inl AttributeError | Some t \<Rightarrow>
      case nt_column_name t 0 of Inl e \<Rightarrow> Inl e | Inr c0 \<Rightarrow>
      case nt_iloc t 0 0 of Inl e \<Rightarrow> Inl e | Inr time_head \<Rightarrow>
      case nt_iloc t 1 0 of Inl e \<Rightarrow> Inl e | Inr t1 \<Rightarrow>
      case normalise_time (lower (last (split_on CHR ''_'' c0))) time_head (t1 - time_head) of
        (time_units, time_head', time_step) \<Rightarrow>
          Inr (\<lparr>wd_filename = srcxfn, wd_data = Some t, t_increase_ms = time_step\<rparr>,
               time_units, time_head'))"

definition waveform_for_trace ::
  "ted_files \<Rightarrow> string \<Rightarrow> waveformdata \<Rightarrow> string \<Rightarrow> error + waveformdata \<times> string \<times> real"
where
  "waveform_for_trace files ted_directory wd srcxfn =
     (if wd_filename wd = [] \<or> wd_filename wd \<noteq> srcxfn
      then load_waveform_data files ted_directory wd srcxfn
      else Inr (wd, ''ms'', 0))"

subsection \<open>Experiments\<close>

text \<open>\<^verbatim>\<open>a in b\<close> on strings.\<close>

fun starts_with :: "string \<Rightarrow> string \<Rightarrow> bool" where
  "starts_with [] s = True"
| "starts_with (c # cs) [] = False"
| "starts_with (c # cs) (d # ds) = (c = d \<and> starts_with cs ds)"

fun contains :: "string \<Rightarrow> string \<Rightarrow> bool" where
  "contains sub [] = (sub = [])"
| "contains sub (c # cs) = (starts_with sub (c # cs) \<or> contains sub cs)"

definition Result_Type_of :: "string \<Rightarrow> Result_Type option" where
  "Result_Type_of =
     map_of (map (\<lambda>t. (Result_Type_name t, t))
               [CIPA_RESULT_TYPE_VOLTAGE, CIPA_RESULT_TYPE_CURRENT, CIPA_RESULT_TYPE_TEMPERATURE,
                CIPA_RESULT_TYPE_SERIES_RESISTANCE,
                CIPA_RESULT_TYPE_SERIES_RESISTANCE_COMPENSATION,
                CIPA_RESULT_TYPE_SEAL_RESISTANCE, CIPA_RESULT_TYPE_MEMBRANE_CAPACITANCE,
                CIPA_RESULT_TYPE_INPUT_RESISTANCE, CIPA_RESULT_TYPE_UNKNOWN])"

text \<open>The left merge of the rows of an experiment with the liquid additions on
  \<^verbatim>\<open>EXPID, CELLID\<close> and \<^verbatim>\<open>TRACENUM = FIRST\<close>: a row comes once for every addition that
  starts at its trace, with the protocol of the addition, and once without a protocol
  when there is none.\<close>

definition merge_liquid_protocols ::
  "import_head \<Rightarrow> TED_ResultWide \<Rightarrow> (TED_ResultWide \<times> LiquidProtocol option) list"
where
  "merge_liquid_protocols h res =
     (case filter (\<lambda>l. la_EXPID l = rw_EXPID res \<and> la_CELLID l = rw_CELLID res \<and>
                        FIRST l = TRACENUM res) (ih_la h) of
        [] \<Rightarrow> [(res, None)]
      | ms \<Rightarrow> map (\<lambda>l. (res, map_of (ih_protocols h) (liquid_key_of l))) ms)"

definition import_leak_method :: "TED_ResultWide list \<Rightarrow> error + LeakMethod_Type" where
  "import_leak_method expres =
     (case drop_duplicates (map LEAKMTH expres) of
        [] \<Rightarrow> Inr CIPA_LEAK_METHOD_NONE
      | m # _ \<Rightarrow> (case LeakMethod_Type_of m of None \<Rightarrow> Inl KeyError | Some t \<Rightarrow> Inr t))"

definition import_property :: "TED_CellProperty \<Rightarrow> Property" where
  "import_property p =
     \<lparr>prop_code = PARAMCD p, prop_displayName = PARAM p,
      propertyType = (case propertiesDict (PARAMCD p) of
                        None \<Rightarrow> CIPA_PROPERTY_UNKNOWN | Some t \<Rightarrow> t),
      prop_value = cp_VALUE p, prop_unit = cp_UNIT p\<rparr>"

text \<open>The cursors of a trace: for every defined cursor whose name is a column of the
  rows, the cell of the row in that column, in \<^verbatim>\<open>pA\<close>.\<close>

definition trace_cursors :: "string list \<Rightarrow> string list \<Rightarrow> TED_ResultWide \<Rightarrow> Cursor list" where
  "trace_cursors cursor_columns expres_columns res =
     concat (map (\<lambda>cn. if cn \<in> set expres_columns
                        then [\<lparr>cursor_name = cn, cursor_start = NaN, cursor_end = NaN,
                               cursor_time_u = [], cursor_type = None,
                               cursor_result =
                                 Some \<lparr>cr_value = (case map_of (rw_dict res) cn of
                                                      None \<Rightarrow> NaN | Some v \<Rightarrow> v),
                                       cr_unit = ''pA''\<rparr>\<rparr>]
                        else [])
                 cursor_columns)"

text \<open>The result of a trace for one matching column of its waveform file, if the
  kind of signal in the name of the column is the \<^verbatim>\<open>RESTYPE\<close> of the row.\<close>

definition column_cipaType :: "string \<Rightarrow> string" where
  "column_cipaType coltype =
     (if upper coltype = ''CURRENT'' then ''CIPA_RESULT_TYPE_CURRENT''
      else if upper coltype = ''VOLTAGE'' then ''CIPA_RESULT_TYPE_VOLTAGE''
      else if upper coltype = ''TEMPERATURE'' then ''CIPA_RESULT_TYPE_TEMPERATURE''
      else ''CIPA_RESULT_TYPE_UNKNOWN'')"

definition column_result ::
  "waveformdata \<Rightarrow> real \<Rightarrow> TED_ResultWide \<Rightarrow> bool \<Rightarrow> Cursor list \<Rightarrow> string \<Rightarrow> error + Result list"
where
  "column_result wd time_head res validfl cwf colname =
     (let colparts = split_on CHR ''_'' colname
      in if length colparts < 2 then Inl IndexError
         else
           (let colunits = filter (\<lambda>c. c \<noteq> CHR 0x27) (last colparts);
                coltype = colparts ! (length colparts - 2)
            in if column_cipaType coltype = RESTYPE res then
                 (case Result_Type_of (RESTYPE res) of
                    None \<Rightarrow> Inl KeyError
                  | Some ty \<Rightarrow>
                      Inr [\<lparr>traceNumber = TRACENUM res, valid = validfl, result_type = ty,
                            elapsedTime = ELTIME res, elapsedTime_u = ELTIMEU res,
                            waveform =
                              Some (new_Waveform
                                \<lparr>cipaType := RESTYPE res,
                                 increment_value := t_increase_ms wd, increment_unit := ''ms'',
                                 head_value := time_head, head_unit := ''ms'',
                                 origin_value := 0, origin_unit := colunits,
                                 scale_value := 1, scale_unit := colunits,
                                 digits := (case wd_data wd of
                                              None \<Rightarrow> [] | Some t \<Rightarrow> nt_column t colname),
                                 sequenceType := ''CIPA_TRACE_RECORDED'',
                                 wf_displayName := coltype, tracenum := TRACENUM res,
                                 signalnam := coltype\<rparr>),
                            result_cursors = Some cwf\<rparr>])
               else Inr []))"

text \<open>The state of the loop over the rows of an experiment: its protocol executions,
  the results of its set of results, and the waveform file loaded last.\<close>

record import_state =
  is_protocols :: "ProtocolExecution list option"
  is_results :: "Result list"
  is_waveformdata :: waveformdata

definition append_execution ::
  "ProtocolExecution \<Rightarrow> ProtocolExecution list option \<Rightarrow> ProtocolExecution list option"
where
  "append_execution pe ps = (case ps of None \<Rightarrow> Some [pe] | Some l \<Rightarrow> Some (l @ [pe]))"

definition import_trace ::
  "ted_files \<Rightarrow> string \<Rightarrow> import_head \<Rightarrow> string \<Rightarrow> string list \<Rightarrow> string list \<Rightarrow>
   TED_ResultWide \<times> LiquidProtocol option \<Rightarrow> import_state \<Rightarrow> error + import_state"
where
  "import_trace files ted_directory h cellid cursor_columns expres_columns row st =
     (case row of (res, cipa_lp) \<Rightarrow>
      let ps1 = (case cipa_lp of
                   None \<Rightarrow> is_protocols st
                 | Some lp \<Rightarrow>
                     append_execution
                       \<lparr>pe_protocol = LiquidP lp, pe_time = ELTIME res, pe_time_u = ELTIMEU res\<rparr>
                       (is_protocols st));
          ps2 = append_execution
                  \<lparr>pe_protocol = VoltageP (ih_voltage h), pe_time = ELTIME res,
                   pe_time_u = ELTIMEU res\<rparr> ps1;
          la_row = filter (\<lambda>l. la_EXPID l = rw_EXPID res \<and> la_CELLID l = cellid \<and>
                               FIRST l \<le> TRACENUM res \<and> LAST l \<ge> TRACENUM res) (ih_la h)
      in if length la_row = 1 then
           (case expand_numbers_list (Some (ANL (la_row ! 0))) of Inl e \<Rightarrow> Inl e | Inr expanded \<Rightarrow>
            case map_result (\<lambda>n. case py_int n of None \<Rightarrow> Inl ValueError | Some i \<Rightarrow> Inr i)
                   (fst expanded) of Inl e \<Rightarrow> Inl e | Inr valid_traces \<Rightarrow>
            case waveform_for_trace files ted_directory (is_waveformdata st)
                   (la_SRCXFN (la_row ! 0)) of Inl e \<Rightarrow> Inl e | Inr (wd, time_units, time_head) \<Rightarrow>
            case map_result
                   (column_result wd time_head res (TRACENUM res \<in> set valid_traces)
                      (trace_cursors cursor_columns expres_columns res))
                   (filter (\<lambda>x. contains (lower (''Trace_#'' @ str_of_int (TRACENUM res) @ ''_''))
                                  (lower x))
                      (case wd_data wd of None \<Rightarrow> [] | Some t \<Rightarrow> nt_columns t)) of
              Inl e \<Rightarrow> Inl e
            | Inr found \<Rightarrow>
                Inr \<lparr>is_protocols = ps2, is_results = is_results st @ concat found,
                     is_waveformdata = wd\<rparr>)
         else Inr (st\<lparr>is_protocols := ps2\<rparr>))"

fun import_traces ::
  "ted_files \<Rightarrow> string \<Rightarrow> import_head \<Rightarrow> string \<Rightarrow> string list \<Rightarrow> string list \<Rightarrow>
   (TED_ResultWide \<times> LiquidProtocol option) list \<Rightarrow> import_state \<Rightarrow> error + import_state"
where
  "import_traces files ted_directory h cellid cursor_columns expres_columns [] st = Inr st"
| "import_traces files ted_directory h cellid cursor_columns expres_columns (row # rest) st =
     (case import_trace files ted_directory h cellid cursor_columns expres_columns row st of
        Inl e \<Rightarrow> Inl e
      | Inr st' \<Rightarrow>
          import_traces files ted_directory h cellid cursor_columns expres_columns rest st')"

text \<open>The body of the loop over the experiments: one experiment for each
  \<^verbatim>\<open>EXPID, CELLID, STIME\<close> of the liquid additions.\<close>

definition import_experiment ::
  "ted_files \<Rightarrow> string \<Rightarrow> ted_workbook \<Rightarrow> import_head \<Rightarrow> string \<times> string \<times> string \<Rightarrow>
   error + Experiment"
where
  "import_experiment files ted_directory wb h key =
     (case key of (expid, cellid, stime) \<Rightarrow>
      let rows = filter (\<lambda>r. rw_EXPID r = expid \<and> rw_CELLID r = cellid) (sheet_ResultsWide wb);
          expres = concat (map (merge_liquid_protocols h) rows)
      in case import_leak_method rows of Inl e \<Rightarrow> Inl e | Inr lm \<Rightarrow>
         case import_traces files ted_directory h cellid
                (map CURSOR (sheet_CursorsDefinitions wb))
                (drop_duplicates (concat (map (\<lambda>r. map fst (rw_dict r)) rows)))
                expres
                \<lparr>is_protocols = None, is_results = [], is_waveformdata = new_waveformdata\<rparr> of
           Inl e \<Rightarrow> Inl e
         | Inr st \<Rightarrow>
             Inr \<lparr>exp_id = \<lparr>id_root = expid, id_extension = cellid\<rparr>, exp_name = [],
                  exp_device = (case devices (ih_trial h) of [] \<Rightarrow> None | d # _ \<Rightarrow> device_id d),
                  startTime = stime,
                  exp_protocols = is_protocols st,
                  resultsSet =
                    Some [\<lparr>cell = \<lparr>cell_id = Some (new_Id cellid),
                                   cell_properties =
                                     map import_property
                                       (filter (\<lambda>p. cp_EXPID p = expid \<and> cp_CELLID p = cellid)
                                          (sheet_CellProperties wb))\<rparr>,
                           patchType = CIPA_CELL_SINGLE, plateId = ''Patch clamp rig'',
                           wellId = ''well'', leakMethod = lm, results_ljp = None,
                           results_cursors = Some (ih_cursors h),
                           results = Some (is_results st)\<rparr>]\<rparr>)"

text \<open>\<^verbatim>\<open>from_xlsx\<close>.\<close>

definition from_xlsx ::
  "(real \<Rightarrow> string) \<Rightarrow> ted_files \<Rightarrow> string \<Rightarrow> ted_workbook \<Rightarrow> error + Trial"
where
  "from_xlsx fmt files ted_directory wb =
     (case from_xlsx_head fmt wb of Inl e \<Rightarrow> Inl e | Inr h \<Rightarrow>
      case map_result (import_experiment files ted_directory wb h)
             (drop_duplicates (map (\<lambda>l. (la_EXPID l, la_CELLID l, la_STIME l)) (ih_la h))) of
        Inl e \<Rightarrow> Inl e
      | Inr exps \<Rightarrow> Inr ((ih_trial h)\<lparr>experiments := exps\<rparr>))"

section \<open>Notions of the specification\<close>

text \<open>The recorded results of an experiment (those of its first set of results), the
  ones of type current, and the liquid additions in the order in which the builder
  goes through them.\<close>

definition recorded_results :: "Experiment \<Rightarrow> Result list" where
  "recorded_results experiment =
     (case resultsSet experiment of
        Some (rs # _) \<Rightarrow> (case results rs of None \<Rightarrow> [] | Some ress \<Rightarrow> ress)
      | _ \<Rightarrow> [])"

definition current_results :: "Experiment \<Rightarrow> Result list" where
  "current_results experiment =
     filter (\<lambda>res. result_type res = CIPA_RESULT_TYPE_CURRENT) (recorded_results experiment)"

definition liquid_additions_of :: "Experiment \<Rightarrow> liquid_execution list" where
  "liquid_additions_of experiment =
     (case exp_protocols experiment of
        None \<Rightarrow> []
      | Some ps \<Rightarrow> drop_duplicates (sort_key ex_TIME (concat (map liquid_execution_of ps))))"

text \<open>A recording as the list of its traces, each with its elapsed time and its
  trace number.\<close>

definition traces_of :: "Result list \<Rightarrow> (real \<times> int) list" where
  "traces_of ress = map (\<lambda>res. (elapsedTime res, traceNumber res)) ress"

text \<open>Trace numbers strictly increasing with elapsed time.\<close>

definition increasing_with_time :: "(real \<times> int) list \<Rightarrow> bool" where
  "increasing_with_time traces =
     (\<forall>p \<in> set traces. \<forall>q \<in> set traces. fst p < fst q \<longrightarrow> snd p < snd q)"

text \<open>\<open>n\<close> is the trace number of the earliest trace with elapsed time \<open>\<ge> t\<close>; of the
  latest trace with elapsed time \<open>< t\<close>; of the last trace.\<close>

definition earliest_from :: "(real \<times> int) list \<Rightarrow> real \<Rightarrow> int \<Rightarrow> bool" where
  "earliest_from traces t n =
     (\<exists>p \<in> set traces. t \<le> fst p \<and> snd p = n \<and>
        (\<forall>q \<in> set traces. t \<le> fst q \<longrightarrow> fst p \<le> fst q \<and> n \<le> snd q))"

definition latest_before :: "(real \<times> int) list \<Rightarrow> real \<Rightarrow> int \<Rightarrow> bool" where
  "latest_before traces t n =
     (\<exists>p \<in> set traces. fst p < t \<and> snd p = n \<and>
        (\<forall>q \<in> set traces. fst q < t \<longrightarrow> fst q \<le> fst p \<and> snd q \<le> n))"

definition last_trace :: "(real \<times> int) list \<Rightarrow> int \<Rightarrow> bool" where
  "last_trace traces n =
     (\<exists>p \<in> set traces. snd p = n \<and> (\<forall>q \<in> set traces. fst q \<le> fst p \<and> snd q \<le> n))"

text \<open>The trace numbers that the builder reads off the sorted rows \<^verbatim>\<open>tmp\<close>, and the
  rows that its loop over the additions leaves in \<^verbatim>\<open>exp_liq_adds\<close>.\<close>

definition first_from :: "TED_ResultWide list \<Rightarrow> real \<Rightarrow> int" where
  "first_from tmp t = TRACENUM (hd (filter (\<lambda>r. ELTIME r \<ge> t) tmp))"

definition last_before :: "TED_ResultWide list \<Rightarrow> real \<Rightarrow> int" where
  "last_before tmp t = TRACENUM (last (filter (\<lambda>r. ELTIME r < t) tmp))"

fun range_rows ::
  "TED_ResultWide list \<Rightarrow> TED_LiquidAddition \<Rightarrow> liquid_execution list \<Rightarrow> TED_LiquidAddition list"
where
  "range_rows tmp la [] = []"
| "range_rows tmp la (a # rest) =
     (let la' = la\<lparr>la_LIQUID := ex_LIQUID a, la_CONC := ex_CONC a,
                   la_CONCU := ex_CONCU a, la_CONCT := ex_CONCT a,
                   la_CTLFL := ex_CTLFL a, la_SBFL := ex_SBFL a,
                   FIRST := first_from tmp (ex_TIME a)\<rparr>
      in la'\<lparr>LAST := (case rest of [] \<Rightarrow> LAST la | b # _ \<Rightarrow> last_before tmp (ex_TIME b))\<rparr>
         # range_rows tmp la' rest)"

definition next_addition :: "TED_ResultWide list \<Rightarrow> TED_LiquidAddition \<Rightarrow> liquid_execution \<Rightarrow> TED_LiquidAddition" where
  "next_addition tmp la a = la\<lparr>la_LIQUID := ex_LIQUID a, la_CONC := ex_CONC a,
                   la_CONCU := ex_CONCU a, la_CONCT := ex_CONCT a,
                   la_CTLFL := ex_CTLFL a, la_SBFL := ex_SBFL a,
                   FIRST := first_from tmp (ex_TIME a)\<rparr>"

definition row_traces :: "TED_ResultWide list \<Rightarrow> (real \<times> int) list" where
  "row_traces rows = map (\<lambda>r. (ELTIME r, TRACENUM r)) rows"

text \<open>The ranges \<open>(FIRST, LAST)\<close> among the rows that the builder returns for an
  experiment (none when it raises), and the trace numbers inside one of them.\<close>

definition ranges_of :: "error + experiment_rows \<Rightarrow> (int \<times> int) list" where
  "ranges_of returned =
     (case returned of
        Inl e \<Rightarrow> []
      | Inr rows \<Rightarrow> map (\<lambda>la. (FIRST la, LAST la)) (er_liquid_adds rows))"

definition covered :: "(int \<times> int) list \<Rightarrow> int \<Rightarrow> bool" where
  "covered ranges n = (\<exists>r \<in> set ranges. fst r \<le> n \<and> n \<le> snd r)"

section \<open>Example recordings\<close>

text \<open>A cell with one experiment: a list of protocol executions and a list of results,
  each result with the cursor \<open>Peak\<close>.\<close>

definition example_waveform :: Waveform where
  "example_waveform =
     \<lparr>head_value = 0, head_unit = ''ms'', increment_value = 1, increment_unit = ''ms'',
      origin_value = 0, origin_unit = ''pA'', scale_value = 1, scale_unit = ''pA'',
      digits = [1, 2], cipaType = ''CIPA_RESULT_TYPE_CURRENT'',
      sequenceType = ''CIPA_TRACE_RECORDED'', wf_displayName = ''current'', tracenum = 1,
      signalnam = ''current'', edfilename = ''cell1.csv'', numrows = - 1, itemcol = 0,
      headersize = 0\<rparr>"

definition example_result :: "Result_Type \<Rightarrow> int \<Rightarrow> real \<Rightarrow> Result" where
  "example_result ty n t =
     \<lparr>traceNumber = n, valid = True, result_type = ty,
      elapsedTime = t, elapsedTime_u = ''s'',
      waveform = Some example_waveform,
      result_cursors =
        Some [\<lparr>cursor_name = ''Peak'', cursor_start = Num 2, cursor_end = Num 3,
               cursor_time_u = ''ms'', cursor_type = Some MINIMUM,
               cursor_result = Some \<lparr>cr_value = Num (- 150), cr_unit = ''pA''\<rparr>\<rparr>]\<rparr>"

definition example_addition ::
  "string \<Rightarrow> real \<Rightarrow> Concentration_Type \<Rightarrow> bool \<Rightarrow> real \<Rightarrow> ProtocolExecution"
where
  "example_addition nm c ct ctl t =
     \<lparr>pe_protocol = LiquidP
        \<lparr>lp_id = \<lparr>id_root = ''P-1'', id_extension = []\<rparr>,
         lp_liquid = \<lparr>liquid_id = \<lparr>id_root = ''L-1'', id_extension = []\<rparr>, liquid_name = nm,
                      batch = [], liquid_description = []\<rparr>,
         lp_name = nm, lp_duration = 0, lp_duration_u = [],
         conc = c, conc_u = ''uM'', conc_type = ct,
         isControl = ctl, isSelectiveBlocker = False\<rparr>,
      pe_time = t, pe_time_u = ''s''\<rparr>"

definition example_experiment :: "ProtocolExecution list \<Rightarrow> Result list \<Rightarrow> Experiment" where
  "example_experiment pes ress =
     \<lparr>exp_id = \<lparr>id_root = ''E1'', id_extension = []\<rparr>, exp_name = [], exp_device = None,
      startTime = ''2022-01-01T00:00:00'',
      exp_protocols = Some pes,
      resultsSet =
        Some [\<lparr>cell = \<lparr>cell_id = Some \<lparr>id_root = ''C1'', id_extension = []\<rparr>,
                       cell_properties = []\<rparr>,
               patchType = CIPA_CELL_SINGLE, plateId = [], wellId = [],
               leakMethod = CIPA_LEAK_METHOD_NONE, results_ljp = None,
               results_cursors = Some [], results = Some ress\<rparr>]\<rparr>"

definition example_trial :: "Experiment list \<Rightarrow> Trial" where
  "example_trial exps =
     \<lparr>trial_version = ''2022.07'', trial_description = [],
      study = Some \<lparr>studyId = ''S1'',
                    report = \<lparr>report_title = [], report_version = [], report_date = [],
                              report_text = []\<rparr>\<rparr>,
      devices = [\<lparr>device_id = Some \<lparr>id_root = ''D1'', id_extension = []\<rparr>, device_code = [],
                  manufacturerModelName = [], deviceSoftwareName = []\<rparr>],
      trial_ljp = Some \<lparr>ljp_value = 0, ljp_unit = ''mV'', reportedVoltage = Vclamp\<rparr>,
      liquids = [], protocols = [], experiments = exps\<rparr>"

text \<open>Ten current traces, numbered 1 to 10 and recorded at 0 s to 9 s.\<close>

definition ten_traces :: "Result list" where
  "ten_traces =
     map (\<lambda>n. example_result CIPA_RESULT_TYPE_CURRENT n (real_of_int (n - 1)))
       [1, 2, 3, 4, 5, 6, 7, 8, 9, 10]"

text \<open>Two liquid additions, at 0 s and 5 s.\<close>

definition two_additions :: Experiment where
  "two_additions =
     example_experiment
       [example_addition ''control'' 0 CIPA_PROTOCOL_LIQUID_CONCENTRATION_NOMINAL True 0,
        example_addition ''drug'' 1 CIPA_PROTOCOL_LIQUID_CONCENTRATION_NOMINAL False 5]
       ten_traces"

text \<open>One liquid addition, at 5 s.\<close>

definition late_addition :: Experiment where
  "late_addition =
     example_experiment
       [example_addition ''drug'' 1 CIPA_PROTOCOL_LIQUID_CONCENTRATION_NOMINAL False 5]
       ten_traces"

text \<open>A voltage recorded at 0 s as trace 1, three currents recorded at 1 s to 3 s as
  traces 2 to 4, and a liquid addition at 0 s.\<close>

definition voltage_first :: Experiment where
  "voltage_first =
     example_experiment
       [example_addition ''control'' 0 CIPA_PROTOCOL_LIQUID_CONCENTRATION_NOMINAL True 0]
       [example_result CIPA_RESULT_TYPE_VOLTAGE 1 0, example_result CIPA_RESULT_TYPE_CURRENT 2 1,
        example_result CIPA_RESULT_TYPE_CURRENT 3 2, example_result CIPA_RESULT_TYPE_CURRENT 4 3]"

text \<open>One liquid addition at 20 s, after the last of the ten traces.\<close>

definition addition_after_traces :: Experiment where
  "addition_after_traces =
     example_experiment
       [example_addition ''drug'' 1 CIPA_PROTOCOL_LIQUID_CONCENTRATION_NOMINAL False 20]
       ten_traces"

text \<open>No file can be read.\<close>

definition no_files :: csv_reader where
  "no_files f h n c = None"

text \<open>The attributes of a \<^verbatim>\<open>TED_ResultWide\<close> object, the cursor names of the current
  results of a trial (those of the first set of results of each experiment), and a
  table sorted by some of its columns.\<close>

definition wide_columns :: "string list" where
  "wide_columns =
     [''EXPID'', ''CELLID'', ''RESTYPE'', ''LEAKMTH'', ''ELTIME'', ''ELTIMEU'', ''TRACENUM'',
      ''ANLFL'', ''SRCXFN'', ''LIQUID'', ''CONC'', ''CONCU'', ''CONCT'']"

definition result_cursor_names :: "Result \<Rightarrow> string list" where
  "result_cursor_names res =
     (case result_cursors res of None \<Rightarrow> [] | Some rcs \<Rightarrow> map cursor_name rcs)"

definition cursor_names :: "Trial \<Rightarrow> string set" where
  "cursor_names trial =
     (\<Union>experiment \<in> set (experiments trial).
        \<Union>res \<in> set (current_results experiment). set (result_cursor_names res))"

text \<open>No cursor of a current result has the name of an attribute of a row.\<close>

definition cursors_named_apart :: "Experiment \<Rightarrow> bool" where
  "cursors_named_apart experiment =
     (\<forall>res \<in> set (current_results experiment).
        \<forall>n \<in> set (result_cursor_names res). n \<notin> set wide_columns)"

text \<open>The rows that the builder has collected in \<^verbatim>\<open>res_wide\<close> (none when it raises), and
  the cells of a dictionary under given columns, \<^verbatim>\<open>nan\<close> where it has no entry.\<close>

definition wide_rows :: "Trial \<Rightarrow> TED_ResultWide list" where
  "wide_rows trial =
     (case map_result (experiment_tables trial) (experiments trial) of
        Inl e \<Rightarrow> []
      | Inr rows \<Rightarrow> concat (map er_res_wide rows))"

definition row_cells :: "string list \<Rightarrow> row_dict \<Rightarrow> cell list" where
  "row_cells cols d = map (\<lambda>c. case map_of d c of None \<Rightarrow> NaN | Some v \<Rightarrow> v) cols"

text \<open>The experiment, elapsed time and trace number of the current results of a
  trial, experiment by experiment.\<close>

definition current_traces :: "Trial \<Rightarrow> (string \<times> real \<times> int) list" where
  "current_traces trial =
     concat (map (\<lambda>experiment.
                    map (\<lambda>res. (composite_id (exp_id experiment), elapsedTime res, traceNumber res))
                      (current_results experiment))
               (experiments trial))"

text \<open>The keys that the builder has added to the dictionaries of some rows.\<close>

definition dynamic_keys :: "TED_ResultWide list \<Rightarrow> string set" where
  "dynamic_keys rows = (\<Union>r \<in> set rows. fst ` set (rw_dynamic r))"

definition sorted_by :: "string list \<Rightarrow> dataframe \<Rightarrow> bool" where
  "sorted_by by_cols df =
     sorted (map (\<lambda>r. map (\<lambda>c. cell_key (df_get df r c)) by_cols) (df_rows df))"

text \<open>The reading of the time axis in the words of the specification: seconds and
  microseconds are scaled to milliseconds, and an unknown unit is taken as
  milliseconds, or as seconds when the step is below 0.001.\<close>

definition time_axis_in_ms :: "string \<Rightarrow> real \<Rightarrow> real \<Rightarrow> real \<times> real" where
  "time_axis_in_ms time_units time_head time_step =
     (if time_units = ''s'' then (time_head * 1000, time_step * 1000)
      else if time_units = ''us'' then (time_head * (1 / 1000), time_step * (1 / 1000))
      else if time_units = ''ms'' then (time_head, time_step)
      else if time_step < 1 / 1000 then (time_head * 1000, time_step * 1000)
      else (time_head, time_step))"

text \<open>A reference to a waveform file of none of the supported kinds: it is neither a
  name that ends in \<^verbatim>\<open>.csv\<close>, nor an archive that ends in \<^verbatim>\<open>.zip\<close> with a member that
  ends in \<^verbatim>\<open>.csv\<close> after a colon, nor a name that ends in \<^verbatim>\<open>.xlsx\<close>.\<close>

definition unsupported_reference :: "string \<Rightarrow> bool" where
  "unsupported_reference srcxfn =
     (if lower (last_chars 4 srcxfn) = ''.csv''
      then length (split_on CHR '':'' srcxfn) \<noteq> 1 \<and>
           lower (last_chars 4 (split_on CHR '':'' srcxfn ! 0)) \<noteq> ''.zip''
      else lower (last_chars 5 srcxfn) \<noteq> ''.xlsx'')"

text \<open>The sheets that \<^verbatim>\<open>from_xlsx\<close> reads before it builds the liquid protocols can be
  read.\<close>

definition sheets_readable :: "ted_workbook \<Rightarrow> bool" where
  "sheets_readable wb =
     (\<not> isl (import_study_and_devices (sheet_GeneralInformation wb)) \<and>
      \<not> isl (import_voltage_protocol (sheet_IntendedVoltageProtocol wb)))"

section \<open>Example datasets\<close>

text \<open>A workbook for one cell with two liquid additions and three traces, with the
  reference to the waveform file and the type of concentration left open, and the
  waveform file \<^verbatim>\<open>C1.csv\<close> in the directory \<^verbatim>\<open>.\<close> of the dataset.\<close>

definition example_liquid_row ::
  "string \<Rightarrow> string \<Rightarrow> string \<Rightarrow> real \<Rightarrow> int \<Rightarrow> int \<Rightarrow> string \<Rightarrow> TED_LiquidAddition"
where
  "example_liquid_row srcxfn conct liquid c fst_trace lst_trace anl =
     \<lparr>la_EXPID = ''E1'', la_CELLID = ''C1'', la_STIME = ''2022-01-01T00:00:00'', LJP = 0,
      LJPU = ''mV'', la_LIQUID = liquid, la_CONC = c, la_CONCU = ''uM'', la_CONCT = conct,
      FIRST = fst_trace, LAST = lst_trace, la_CTLFL = [], la_SBFL = [], ANL = anl,
      la_SRCXFN = srcxfn, NOTES = []\<rparr>"

definition example_wide_row :: "int \<Rightarrow> real \<Rightarrow> TED_ResultWide" where
  "example_wide_row n t =
     \<lparr>rw_EXPID = ''E1'', rw_CELLID = ''C1'', RESTYPE = ''CIPA_RESULT_TYPE_CURRENT'',
      LEAKMTH = ''CIPA_LEAK_METHOD_NONE'', ELTIME = t, ELTIMEU = ''s'', TRACENUM = n,
      ANLFL = ''Y'', rw_SRCXFN = [], rw_LIQUID = [], rw_CONC = NaN, rw_CONCU = [],
      rw_CONCT = [], rw_dynamic = [(''Peak'', Num (- 150))]\<rparr>"

definition example_workbook :: "string \<Rightarrow> string \<Rightarrow> ted_workbook" where
  "example_workbook srcxfn conct =
     \<lparr>sheet_GeneralInformation =
        [(''STUDYID'', ''S1''), (''REPORT_TITLE'', []), (''REPORT_VERSION'', []),
         (''REPORT_DATE'', []), (''REPORT_DESCRIPTION'', []), (''DEVICE_ID'', ''D1''),
         (''DEVICE_CODE'', []), (''DEVICE_MODEL'', []), (''DEVICE_SOFTWARE'', [])],
      sheet_CellProperties = [],
      sheet_LiquidAdditions =
        [example_liquid_row srcxfn ''NOMINAL'' ''control'' 0 1 2 ''1;2'',
         example_liquid_row srcxfn conct ''drug'' 1 3 3 ''3''],
      sheet_CursorsDefinitions =
        [\<lparr>CURSOR = ''Peak'', cd_STIME = Num 2, STIMEU = ''ms'', ETIME = Num 3, ETIMEU = ''ms'',
          CURSORT = ''MINIMUM''\<rparr>],
      sheet_IntendedVoltageProtocol =
        \<lparr>nt_columns = [''t_ms'', ''voltage_mV''], nt_rows = [[0, - 80], [1, - 80], [2, 40]]\<rparr>,
      sheet_ResultsWide = [example_wide_row 1 0, example_wide_row 2 1, example_wide_row 3 2]\<rparr>"

definition example_files :: ted_files where
  "example_files =
     \<lparr>csv_files =
        (\<lambda>path. if path = ''./C1.csv''
                 then Some \<lparr>nt_columns = [''t_ms'', ''trace_#1_current_pA'', ''trace_#2_current_pA'',
                                           ''trace_#3_current_pA''],
                            nt_rows = [[0, 1, 2, 3], [1, 4, 5, 6]]\<rparr>
                 else if path = ''./seconds.csv''
                 then Some \<lparr>nt_columns = [''time'', ''trace_#1_current_pA''],
                            nt_rows = [[1 / 2, 1], [5002 / 10000, 4]]\<rparr>
                 else None),
      zip_files = (\<lambda>path. None),
      xlsx_files =
        (\<lambda>path. if path = ''./waveforms.xlsx''
                 then Some \<lparr>nt_columns = [''t_ms'', ''trace_#1_current_pA'', ''trace_#2_current_pA'',
                                           ''trace_#3_current_pA''],
                            nt_rows = [[0, 1, 2, 3], [1, 4, 5, 6]]\<rparr>
                 else None)\<rparr>"

text \<open>The references to the waveform files in the table of liquid additions that
  \<^verbatim>\<open>to_xlsx\<close> returns (none when it raises).\<close>

definition written_references :: "error + ted_dataset \<Rightarrow> cell list" where
  "written_references returned =
     (case returned of
        Inl e \<Rightarrow> []
      | Inr ds \<Rightarrow> map (\<lambda>r. df_get (wb_LiquidAdditions ds) r ''SRCXFN'')
                    (df_rows (wb_LiquidAdditions ds)))"

text \<open>A stand-in for the text of a float in an f-string.\<close>

definition example_fmt :: "real \<Rightarrow> string" where
  "example_fmt x = ''0.0''"

section \<open>Properties of the trace-number expansion\<close>

lemma split_on_not_Nil: "split_on sep s \<noteq> []"
  by (induction s) (auto split: list.splits)

lemma items_of_not_Nil: "item \<in> set (items_of s) \<Longrightarrow> item \<noteq> []"
  by (auto simp: items_of_def split_on_not_Nil)

lemma expand_items_wellformed:
  assumes "\<forall>item \<in> set items. item \<noteq> [] \<and> \<not> malformed_range item"
  shows "expand_items items new_row logged =
     Inr (new_row @ concat (map item_numbers items),
          logged @ map out_of_range_message (filter item_skipped items))"
  using assms
proof (induction items arbitrary: new_row logged)
  case Nil
  show ?case by simp
next
  case (Cons item rest)
  have rest: "\<forall>i \<in> set rest. i \<noteq> [] \<and> \<not> malformed_range i"
    using Cons.prems by simp
  have ok: "item \<noteq> []" "\<not> malformed_range item"
    using Cons.prems by simp_all
  show ?case
  proof (cases item)
    case Nil
    with ok show ?thesis by simp
  next
    case (Cons a as)
    note item = this
    show ?thesis
    proof (cases as)
      case Nil
      with item show ?thesis
        by (simp add: Cons.IH [OF rest] item_numbers_def item_skipped_def)
    next
      case (Cons b bs)
      note as = this
      show ?thesis
      proof (cases bs)
        case Nil
        with item as ok obtain x y where "py_int a = Some x" "py_int b = Some y"
          by (auto simp: malformed_range_def)
        with item as Nil show ?thesis
          by (simp add: Cons.IH [OF rest] item_numbers_def item_skipped_def)
      next
        case (Cons c cs)
        with item as show ?thesis
          by (simp add: Cons.IH [OF rest] item_numbers_def item_skipped_def)
      qed
    qed
  qed
qed

lemma expand_items_malformed:
  assumes "\<exists>item \<in> set items. malformed_range item"
    and "\<forall>item \<in> set items. item \<noteq> []"
  shows "expand_items items new_row logged = Inl ValueError"
  using assms
proof (induction items arbitrary: new_row logged)
  case Nil
  then show ?case by simp
next
  case (Cons item rest)
  have ne: "item \<noteq> []" and rest_ne: "\<forall>i \<in> set rest. i \<noteq> []"
    using Cons.prems(2) by simp_all
  show ?case
  proof (cases "malformed_range item")
    case True
    then obtain a b where "item = [a, b]" "py_int a = None \<or> py_int b = None"
      by (auto simp: malformed_range_def split: list.splits)
    then show ?thesis by (auto split: option.splits)
  next
    case False
    with Cons.prems(1) have "\<exists>i \<in> set rest. malformed_range i" by simp
    from Cons.IH [OF this rest_ne] ne show ?thesis
      by (cases item) (auto split: option.splits)
  qed
qed

text \<open>
  Claim C8 does not hold of the code for a malformed token \<open>a-b\<close> one of whose parts
  is no integer literal: the loop calls \<^verbatim>\<open>int\<close> on both parts before it reaches the
  branch that logs and skips, \<^verbatim>\<open>int\<close> raises \<^verbatim>\<open>ValueError\<close>, and the call is aborted.
  For every other string the result is the one of the claim: \<^verbatim>\<open>None\<close> and a string of
  blanks give the empty list; otherwise every token without \<^verbatim>\<open>-\<close> is kept, every
  token \<open>a-b\<close> of two integer literals with \<open>a \<le> b\<close> becomes the numbers
  \<open>a, \<dots>, b\<close>, and a token \<open>a-b\<close> with \<open>b < a\<close> or a token with two or more \<^verbatim>\<open>-\<close> is
  logged and skipped.
\<close>

theorem expand_numbers_list_tokens:
  "expand_numbers_list None = Inr ([], []) \<and>
   (filter (\<lambda>c. c \<noteq> CHR '' '') s = [] \<longrightarrow> expand_numbers_list (Some s) = Inr ([], [])) \<and>
   (filter (\<lambda>c. c \<noteq> CHR '' '') s \<noteq> [] \<longrightarrow>
      expand_numbers_list (Some s) =
        (if \<exists>item \<in> set (items_of s). malformed_range item then Inl ValueError
         else Inr (concat (map item_numbers (items_of s)),
                   map out_of_range_message (filter item_skipped (items_of s)))))"
proof -
  have ne: "\<forall>item \<in> set (items_of s). item \<noteq> []"
    using items_of_not_Nil by blast
  have "expand_items (items_of s) [] [] = Inl ValueError"
    if "\<exists>item \<in> set (items_of s). malformed_range item"
    using expand_items_malformed [OF that ne] .
  moreover have "expand_items (items_of s) [] [] =
      Inr (concat (map item_numbers (items_of s)),
           map out_of_range_message (filter item_skipped (items_of s)))"
    if "\<not> (\<exists>item \<in> set (items_of s). malformed_range item)"
    using expand_items_wellformed [of "items_of s" "[]" "[]"] that ne by simp
  ultimately show ?thesis
    by (simp add: expand_numbers_list_def)
qed

text \<open>Well-formed ranges, single numbers, and the two kinds of token that are logged
  and skipped.\<close>

theorem expand_numbers_list_tokens_witness:
  "expand_numbers_list (Some ''2-4;7; 9 - 10;6-5;1-2-3'') =
     Inr ([''2'', ''3'', ''4'', ''7'', ''9'', ''10''],
          [''expand_numbers_list: 6 to 5 are out of range'',
           ''expand_numbers_list: 1 to 2 are out of range''])"
  using expand_numbers_list_tokens [of "''2-4;7; 9 - 10;6-5;1-2-3''"]
  by (simp add: items_of_def malformed_range_def item_numbers_def item_skipped_def
      out_of_range_message_def py_int_def strip_def is_space_def digit_of_def
      nat_of_digits_def str_of_int_def str_of_nat.simps digit_char_def upto.simps)

text \<open>The token \<^verbatim>\<open>2-x\<close> is not skipped: the call raises \<^verbatim>\<open>ValueError\<close>, and the number 1
  before it is lost with it.\<close>

theorem expand_numbers_list_aborts:
  "expand_numbers_list (Some ''1;2-x'') = Inl ValueError"
  by (simp add: expand_numbers_list_def items_of_def py_int_def strip_def is_space_def
      digit_of_def nat_of_digits_def)

section \<open>Properties of the trace ranges\<close>

lemma LAST_next_addition: "LAST (next_addition tmp la a) = LAST la"
  by (simp add: next_addition_def)

lemma LAST_idem: "(la :: TED_LiquidAddition)\<lparr>LAST := LAST la\<rparr> = la"
  by simp

lemma trace_ranges_Cons:
  "trace_ranges tmp (a # rest) la acc =
     (if filter (\<lambda>r. ELTIME r \<ge> ex_TIME a) tmp = [] then Inl IndexError
      else if acc = [] then trace_ranges tmp rest (next_addition tmp la a) [next_addition tmp la a]
      else if filter (\<lambda>r. ELTIME r < ex_TIME a) tmp = [] then Inl IndexError
      else trace_ranges tmp rest (next_addition tmp la a)
             (butlast acc @ [(last acc)\<lparr>LAST := last_before tmp (ex_TIME a)\<rparr>,
                             next_addition tmp la a]))"
  by (cases "filter (\<lambda>r. ELTIME r \<ge> ex_TIME a) tmp")
     (simp_all add: next_addition_def first_from_def last_before_def Let_def)

lemma range_rows_Cons:
  "range_rows tmp la (a # rest) =
     (next_addition tmp la a)
        \<lparr>LAST := (case rest of [] \<Rightarrow> LAST la | b # _ \<Rightarrow> last_before tmp (ex_TIME b))\<rparr>
     # range_rows tmp (next_addition tmp la a) rest"
  by (simp add: next_addition_def Let_def)

declare trace_ranges.simps(2) [simp del] range_rows.simps(2) [simp del]

lemma trace_ranges_eq:
  "trace_ranges tmp adds la acc = Inr out \<Longrightarrow>
   out = (case adds of [] \<Rightarrow> acc
          | a # _ \<Rightarrow> (if acc = [] then []
                      else butlast acc @ [(last acc)\<lparr>LAST := last_before tmp (ex_TIME a)\<rparr>]))
         @ range_rows tmp la adds"
proof (induction adds arbitrary: la acc out)
  case Nil
  then show ?case by simp
next
  case (Cons a rest)
  define la' where "la' = next_addition tmp la a"
  have L: "LAST la' = LAST la" by (simp add: la'_def LAST_next_addition)
  show ?case
  proof (cases "acc = []")
    case True
    with Cons.prems have "trace_ranges tmp rest la' [la'] = Inr out"
      by (simp add: trace_ranges_Cons la'_def split: if_splits)
    from Cons.IH [OF this] have "out = (case rest of [] \<Rightarrow> [la']
          | b # _ \<Rightarrow> [la'\<lparr>LAST := last_before tmp (ex_TIME b)\<rparr>]) @ range_rows tmp la' rest"
      by (simp split: list.splits)
    moreover have "la'\<lparr>LAST := LAST la\<rparr> = la'"
      using LAST_idem [of la'] L by simp
    ultimately show ?thesis using True
      by (simp add: range_rows_Cons la'_def [symmetric] split: list.splits)
  next
    case False
    let ?acc = "butlast acc @ [(last acc)\<lparr>LAST := last_before tmp (ex_TIME a)\<rparr>, la']"
    from False Cons.prems have "trace_ranges tmp rest la' ?acc = Inr out"
      by (simp add: trace_ranges_Cons la'_def split: if_splits)
    from Cons.IH [OF this] have "out = (case rest of [] \<Rightarrow> ?acc
          | b # _ \<Rightarrow> butlast acc @ [(last acc)\<lparr>LAST := last_before tmp (ex_TIME a)\<rparr>,
                       la'\<lparr>LAST := last_before tmp (ex_TIME b)\<rparr>]) @ range_rows tmp la' rest"
      by (simp add: butlast_append split: list.splits)
    moreover have "la'\<lparr>LAST := LAST la\<rparr> = la'"
      using LAST_idem [of la'] L by simp
    ultimately show ?thesis using False
      by (simp add: range_rows_Cons la'_def [symmetric] split: list.splits)
  qed
qed


lemma trace_ranges_ok:
  "trace_ranges tmp adds la acc = Inr out \<Longrightarrow>
   (\<forall>a \<in> set adds. filter (\<lambda>r. ELTIME r \<ge> ex_TIME a) tmp \<noteq> []) \<and>
   (\<forall>b \<in> set (tl adds). filter (\<lambda>r. ELTIME r < ex_TIME b) tmp \<noteq> [])"
proof (induction adds arbitrary: la acc out)
  case Nil
  then show ?case by simp
next
  case (Cons a rest)
  from Cons.prems have ge: "filter (\<lambda>r. ELTIME r \<ge> ex_TIME a) tmp \<noteq> []"
    by (simp add: trace_ranges_Cons split: if_splits)
  from Cons.prems obtain acc' where
    rec: "trace_ranges tmp rest (next_addition tmp la a) acc' = Inr out" and ne: "acc' \<noteq> []"
    by (auto simp: trace_ranges_Cons split: if_splits)
  from Cons.IH [OF rec] have
    r1: "\<forall>a \<in> set rest. filter (\<lambda>r. ELTIME r \<ge> ex_TIME a) tmp \<noteq> []" and
    r2: "\<forall>b \<in> set (tl rest). filter (\<lambda>r. ELTIME r < ex_TIME b) tmp \<noteq> []"
    by simp_all
  have "filter (\<lambda>r. ELTIME r < ex_TIME b) tmp \<noteq> []" if "rest = b # bs" for b bs
    using rec ne that by (simp add: trace_ranges_Cons split: if_splits)
  with r2 have "\<forall>b \<in> set rest. filter (\<lambda>r. ELTIME r < ex_TIME b) tmp \<noteq> []"
    by (cases rest) auto
  with ge r1 show ?case by simp
qed

lemma length_range_rows: "length (range_rows tmp la adds) = length adds"
  by (induction adds arbitrary: la) (simp_all add: range_rows_Cons)

lemma la_EXPID_next_addition: "la_EXPID (next_addition tmp la a) = la_EXPID la"
  and la_CELLID_next_addition: "la_CELLID (next_addition tmp la a) = la_CELLID la"
  by (simp_all add: next_addition_def)

lemma range_rows_nth:
  "i < length adds \<Longrightarrow>
   FIRST (range_rows tmp la adds ! i) = first_from tmp (ex_TIME (adds ! i)) \<and>
   LAST (range_rows tmp la adds ! i) =
     (if Suc i < length adds then last_before tmp (ex_TIME (adds ! Suc i)) else LAST la) \<and>
   la_LIQUID (range_rows tmp la adds ! i) = ex_LIQUID (adds ! i) \<and>
   la_CONC (range_rows tmp la adds ! i) = ex_CONC (adds ! i) \<and>
   la_CONCU (range_rows tmp la adds ! i) = ex_CONCU (adds ! i) \<and>
   la_CONCT (range_rows tmp la adds ! i) = ex_CONCT (adds ! i) \<and>
   la_EXPID (range_rows tmp la adds ! i) = la_EXPID la \<and>
   la_CELLID (range_rows tmp la adds ! i) = la_CELLID la"
proof (induction adds arbitrary: la i)
  case Nil
  then show ?case by simp
next
  case (Cons a rest)
  show ?case
  proof (cases i)
    case 0
    then show ?thesis
      by (cases rest) (simp_all add: range_rows_Cons next_addition_def)
  next
    case (Suc j)
    with Cons.prems have j: "j < length rest" by simp
    from Cons.IH [OF j, of "next_addition tmp la a"] Suc show ?thesis
      by (simp add: range_rows_Cons LAST_next_addition la_EXPID_next_addition
          la_CELLID_next_addition)
  qed
qed

text \<open>The rows that the builder returns for the liquid additions.\<close>

lemma liquid_addition_rows_nth:
  assumes ok: "liquid_addition_rows tmp adds la = Inr las"
  shows "length las = length adds"
    and "i < length adds \<Longrightarrow> FIRST (las ! i) = first_from tmp (ex_TIME (adds ! i))"
    and "i < length adds \<Longrightarrow> LAST (las ! i) =
           (if Suc i < length adds then last_before tmp (ex_TIME (adds ! Suc i))
            else TRACENUM (last tmp))"
    and "i < length adds \<Longrightarrow> la_LIQUID (las ! i) = ex_LIQUID (adds ! i) \<and>
           la_CONC (las ! i) = ex_CONC (adds ! i) \<and> la_CONCU (las ! i) = ex_CONCU (adds ! i) \<and>
           la_CONCT (las ! i) = ex_CONCT (adds ! i)"
    and "i < length adds \<Longrightarrow> la_EXPID (las ! i) = la_EXPID la \<and> la_CELLID (las ! i) = la_CELLID la"
    and "\<forall>a \<in> set adds. filter (\<lambda>r. ELTIME r \<ge> ex_TIME a) tmp \<noteq> []"
    and "\<forall>b \<in> set (tl adds). filter (\<lambda>r. ELTIME r < ex_TIME b) tmp \<noteq> []"
proof -
  from ok obtain out where tr: "trace_ranges tmp adds la [] = Inr out"
    and cl: "close_last_range tmp out = Inr (butlast out @ [(last out)\<lparr>LAST := TRACENUM (last tmp)\<rparr>])"
    and las: "las = map (fill_analysis tmp) (butlast out @ [(last out)\<lparr>LAST := TRACENUM (last tmp)\<rparr>])"
    and ne: "out \<noteq> []"
    by (auto simp: liquid_addition_rows_def close_last_range_def split: sum.splits if_splits)
  from trace_ranges_eq [OF tr] have out: "out = range_rows tmp la adds"
    by (simp split: list.splits)
  have len: "length out = length adds" by (simp add: out length_range_rows)
  define cl where "cl = butlast out @ [(last out)\<lparr>LAST := TRACENUM (last tmp)\<rparr>]"
  have lcl: "length cl = length out"
    using ne unfolding cl_def by (cases out rule: rev_cases) simp_all
  have las': "las = map (fill_analysis tmp) cl" by (simp only: las cl_def)
  show "length las = length adds" using len lcl by (simp add: las')
  from trace_ranges_ok [OF tr]
  show "\<forall>a \<in> set adds. filter (\<lambda>r. ELTIME r \<ge> ex_TIME a) tmp \<noteq> []"
    and "\<forall>b \<in> set (tl adds). filter (\<lambda>r. ELTIME r < ex_TIME b) tmp \<noteq> []" by simp_all
  have cl_nth: "cl ! i =
      (if Suc i < length adds then out ! i else (out ! i)\<lparr>LAST := TRACENUM (last tmp)\<rparr>)"
    if "i < length adds" for i
  proof (cases "Suc i < length adds")
    case True
    then show ?thesis using len unfolding cl_def by (simp add: nth_append nth_butlast)
  next
    case False
    with that have i: "i = length out - 1" using len by simp
    then show ?thesis using False ne unfolding cl_def
      by (simp add: nth_append last_conv_nth)
  qed
  have nth: "las ! i = fill_analysis tmp
      (if Suc i < length adds then out ! i else (out ! i)\<lparr>LAST := TRACENUM (last tmp)\<rparr>)"
    if "i < length adds" for i
  proof -
    have "las ! i = fill_analysis tmp (cl ! i)"
      using that len lcl unfolding las' by (simp only: nth_map)
    then show ?thesis by (simp only: cl_nth [OF that])
  qed
  note rr = range_rows_nth [of _ adds tmp la, folded out]
  show "FIRST (las ! i) = first_from tmp (ex_TIME (adds ! i))" if "i < length adds"
    using nth [OF that] rr [OF that] by (simp add: fill_analysis_def)
  show "LAST (las ! i) =
           (if Suc i < length adds then last_before tmp (ex_TIME (adds ! Suc i))
            else TRACENUM (last tmp))" if "i < length adds"
    using nth [OF that] rr [OF that] by (simp add: fill_analysis_def)
  show "la_LIQUID (las ! i) = ex_LIQUID (adds ! i) \<and>
           la_CONC (las ! i) = ex_CONC (adds ! i) \<and> la_CONCU (las ! i) = ex_CONCU (adds ! i) \<and>
           la_CONCT (las ! i) = ex_CONCT (adds ! i)" if "i < length adds"
    using nth [OF that] rr [OF that] by (simp add: fill_analysis_def)
  show "la_EXPID (las ! i) = la_EXPID la \<and> la_CELLID (las ! i) = la_CELLID la" if "i < length adds"
    using nth [OF that] rr [OF that] by (simp add: fill_analysis_def)
qed


subsection \<open>The rows of an experiment and its recorded traces\<close>

lemma map_result_all2:
  "map_result f xs = Inr ys \<Longrightarrow> list_all2 (\<lambda>x y. f x = Inr y) xs ys"
  by (induction xs arbitrary: ys) (auto split: sum.splits)

lemma result_wide_row_fields:
  "result_wide_row la rs res = Inr r \<Longrightarrow>
   ELTIME r = elapsedTime res \<and> TRACENUM r = traceNumber res \<and>
   rw_EXPID r = la_EXPID la \<and> rw_CELLID r = la_CELLID la"
  by (auto simp: result_wide_row_def split: option.splits sum.splits)

lemma all2_row_traces:
  "list_all2 (\<lambda>res r. result_wide_row la rs res = Inr r) ress rows \<Longrightarrow>
   row_traces rows = traces_of ress \<and>
   (\<forall>r \<in> set rows. rw_EXPID r = la_EXPID la \<and> rw_CELLID r = la_CELLID la)"
proof (induction rule: list_all2_induct)
  case Nil
  show ?case by (simp add: row_traces_def traces_of_def)
next
  case (Cons res ress r rows)
  from result_wide_row_fields [OF Cons.hyps(1)] Cons.IH show ?case
    by (simp add: row_traces_def traces_of_def)
qed

lemma experiment_tables_parts:
  assumes "experiment_tables trial experiment = Inr rows"
  obtains la exp_res_wide where
    "liquid_addition_rows (sort_key rw_sort_key exp_res_wide)
       (liquid_additions_of experiment) la = Inr (er_liquid_adds rows)"
    "exp_res_wide \<noteq> []"
    "liquid_additions_of experiment \<noteq> []"
    "row_traces exp_res_wide = traces_of (current_results experiment)"
    "\<forall>r \<in> set exp_res_wide. rw_EXPID r = la_EXPID la \<and> rw_CELLID r = la_CELLID la"
    "er_res_wide rows = add_liquids (er_liquid_adds rows) exp_res_wide"
proof -
  from assms obtain rs where rs: "first_results experiment = Inr rs"
    by (auto simp: experiment_tables_def split: sum.splits)
  from assms rs obtain cid l where cid: "cell_id (cell rs) = Some cid"
    and l: "experiment_ljp trial rs = Inr l"
    by (auto simp: experiment_tables_def split: sum.splits option.splits)
  define la where "la = template_liquid_addition experiment cid l"
  from assms rs cid l obtain exec_ps exp_las exp_res_wide tmp where
    ex: "liquid_executions experiment = Inr exec_ps" and
    las: "sorted_liquid_additions exec_ps = Inr exp_las" and
    erw: "experiment_results_wide la rs = Inr exp_res_wide" and
    tmp: "sorted_results_wide exp_res_wide = Inr tmp" and
    lar: "liquid_addition_rows tmp exp_las la = Inr (er_liquid_adds rows)" and
    rw: "er_res_wide rows = add_liquids (er_liquid_adds rows) exp_res_wide"
    by (auto simp: experiment_tables_def la_def Let_def split: sum.splits option.splits)
  from ex las have adds: "exp_las = liquid_additions_of experiment" and ne: "exec_ps \<noteq> []"
    by (auto simp: liquid_executions_def sorted_liquid_additions_def liquid_additions_of_def
        split: option.splits if_splits)
  have adds_ne: "liquid_additions_of experiment \<noteq> []"
  proof -
    from ne have "set (drop_duplicates (sort_key ex_TIME exec_ps)) \<noteq> {}"
      by (simp add: drop_duplicates_def)
    with las adds show ?thesis
      by (auto simp: sorted_liquid_additions_def split: if_splits)
  qed
  from tmp have tmp_eq: "tmp = sort_key rw_sort_key exp_res_wide" and rne: "exp_res_wide \<noteq> []"
    by (auto simp: sorted_results_wide_def split: if_splits)
  from rs obtain rss where rss: "resultsSet experiment = Some (rs # rss)"
    by (auto simp: first_results_def split: option.splits list.splits)
  from erw obtain ress where ress: "results rs = Some ress"
    and mr: "map_result (result_wide_row la rs)
               (filter (\<lambda>res. result_type res = CIPA_RESULT_TYPE_CURRENT) ress) = Inr exp_res_wide"
    by (auto simp: experiment_results_wide_def split: option.splits)
  have cur: "current_results experiment =
      filter (\<lambda>res. result_type res = CIPA_RESULT_TYPE_CURRENT) ress"
    by (simp add: current_results_def recorded_results_def rss ress)
  from all2_row_traces [OF map_result_all2 [OF mr]] cur
  have tr: "row_traces exp_res_wide = traces_of (current_results experiment)"
    and ids: "\<forall>r \<in> set exp_res_wide. rw_EXPID r = la_EXPID la \<and> rw_CELLID r = la_CELLID la"
    by simp_all
  show thesis
    using that [of exp_res_wide la] lar rne adds_ne tr ids rw
    by (simp add: tmp_eq adds)
qed


subsection \<open>Order of the sorted rows\<close>

lemma sorted_filter_hd:
  assumes "sorted (map f xs)" "filter P xs \<noteq> []" "x \<in> set xs" "P x"
  shows "f (hd (filter P xs)) \<le> f x"
proof -
  have s: "sorted (map f (filter P xs))" using assms(1) by (rule sorted_filter)
  obtain y ys where y: "filter P xs = y # ys" using assms(2) by (cases "filter P xs") auto
  have "x \<in> set (filter P xs)" using assms(3,4) by simp
  with s y show ?thesis by auto
qed

lemma sorted_map_last:
  assumes "sorted (map f xs)" "x \<in> set xs"
  shows "f x \<le> f (last xs)"
  using assms by (induction xs) (auto split: if_splits)

lemma sorted_filter_last:
  assumes "sorted (map f xs)" "x \<in> set xs" "P x"
  shows "f x \<le> f (last (filter P xs))"
proof -
  have "sorted (map f (filter P xs))" using assms(1) by (rule sorted_filter)
  moreover have "x \<in> set (filter P xs)" using assms(2,3) by simp
  ultimately show ?thesis by (rule sorted_map_last)
qed

text \<open>Rows of one experiment carry the same \<^verbatim>\<open>EXPID\<close> and \<^verbatim>\<open>CELLID\<close>, so that their
  order is the one of elapsed time and then trace number; with trace numbers that
  increase with elapsed time it is the order of both.\<close>

lemma rw_sort_key_le:
  assumes "rw_EXPID r = rw_EXPID r'" "rw_CELLID r = rw_CELLID r'"
    and "rw_sort_key r \<le> rw_sort_key r'"
    and "ELTIME r < ELTIME r' \<longrightarrow> TRACENUM r < TRACENUM r'"
  shows "ELTIME r \<le> ELTIME r' \<and> TRACENUM r \<le> TRACENUM r'"
  using assms by (auto simp: rw_sort_key_def less_eq_prod_def)

lemma in_row_traces: "r \<in> set rows \<Longrightarrow> (ELTIME r, TRACENUM r) \<in> set (row_traces rows)"
  by (auto simp: row_traces_def)

lemma row_traces_sort_key [simp]: "set (row_traces (sort_key f rows)) = set (row_traces rows)"
  by (simp add: row_traces_def)

lemma rows_le:
  assumes ids: "\<forall>r \<in> set tmp. rw_EXPID r = e \<and> rw_CELLID r = c"
    and mono: "increasing_with_time (row_traces tmp)"
    and r: "r \<in> set tmp" and r': "r' \<in> set tmp"
    and le: "rw_sort_key r \<le> rw_sort_key r'"
  shows "ELTIME r \<le> ELTIME r' \<and> TRACENUM r \<le> TRACENUM r'"
proof (rule rw_sort_key_le [OF _ _ le])
  show "rw_EXPID r = rw_EXPID r'" "rw_CELLID r = rw_CELLID r'" using ids r r' by simp_all
  show "ELTIME r < ELTIME r' \<longrightarrow> TRACENUM r < TRACENUM r'"
    using mono in_row_traces [OF r] in_row_traces [OF r']
    unfolding increasing_with_time_def by fastforce
qed

lemma first_from_earliest:
  assumes srt: "sorted (map rw_sort_key tmp)"
    and ids: "\<forall>r \<in> set tmp. rw_EXPID r = e \<and> rw_CELLID r = c"
    and mono: "increasing_with_time (row_traces tmp)"
    and ne: "filter (\<lambda>r. ELTIME r \<ge> t) tmp \<noteq> []"
  shows "earliest_from (row_traces tmp) t (first_from tmp t)"
proof -
  let ?h = "hd (filter (\<lambda>r. ELTIME r \<ge> t) tmp)"
  have h: "?h \<in> set (filter (\<lambda>r. ELTIME r \<ge> t) tmp)" using ne by (rule hd_in_set)
  then have hin: "?h \<in> set tmp" and ht: "t \<le> ELTIME ?h" by simp_all
  have "ELTIME ?h \<le> fst q \<and> TRACENUM ?h \<le> snd q"
    if q: "q \<in> set (row_traces tmp)" and tq: "t \<le> fst q" for q
  proof -
    from q obtain r where r: "r \<in> set tmp" and qr: "q = (ELTIME r, TRACENUM r)"
      by (auto simp: row_traces_def)
    from tq qr have "t \<le> ELTIME r" by simp
    from sorted_filter_hd [OF srt ne r this]
    have "rw_sort_key ?h \<le> rw_sort_key r" .
    from rows_le [OF ids mono hin r this] qr show ?thesis by simp
  qed
  with in_row_traces [OF hin] ht show ?thesis
    unfolding earliest_from_def first_from_def by force
qed

lemma last_before_latest:
  assumes srt: "sorted (map rw_sort_key tmp)"
    and ids: "\<forall>r \<in> set tmp. rw_EXPID r = e \<and> rw_CELLID r = c"
    and mono: "increasing_with_time (row_traces tmp)"
    and ne: "filter (\<lambda>r. ELTIME r < t) tmp \<noteq> []"
  shows "latest_before (row_traces tmp) t (last_before tmp t)"
proof -
  let ?l = "last (filter (\<lambda>r. ELTIME r < t) tmp)"
  have l: "?l \<in> set (filter (\<lambda>r. ELTIME r < t) tmp)" using ne by (rule last_in_set)
  then have lin: "?l \<in> set tmp" and lt: "ELTIME ?l < t" by simp_all
  have "fst q \<le> ELTIME ?l \<and> snd q \<le> TRACENUM ?l"
    if q: "q \<in> set (row_traces tmp)" and tq: "fst q < t" for q
  proof -
    from q obtain r where r: "r \<in> set tmp" and qr: "q = (ELTIME r, TRACENUM r)"
      by (auto simp: row_traces_def)
    from tq qr have "ELTIME r < t" by simp
    from sorted_filter_last [OF srt r, of "\<lambda>r. ELTIME r < t", OF this]
    have "rw_sort_key r \<le> rw_sort_key ?l" .
    from rows_le [OF ids mono r lin this] qr show ?thesis by simp
  qed
  with in_row_traces [OF lin] lt show ?thesis
    unfolding latest_before_def last_before_def by force
qed

lemma last_row_last_trace:
  assumes srt: "sorted (map rw_sort_key tmp)"
    and ids: "\<forall>r \<in> set tmp. rw_EXPID r = e \<and> rw_CELLID r = c"
    and mono: "increasing_with_time (row_traces tmp)"
    and ne: "tmp \<noteq> []"
  shows "last_trace (row_traces tmp) (TRACENUM (last tmp))"
proof -
  have lin: "last tmp \<in> set tmp" using ne by simp
  have "fst q \<le> ELTIME (last tmp) \<and> snd q \<le> TRACENUM (last tmp)"
    if q: "q \<in> set (row_traces tmp)" for q
  proof -
    from q obtain r where r: "r \<in> set tmp" and qr: "q = (ELTIME r, TRACENUM r)"
      by (auto simp: row_traces_def)
    from sorted_map_last [OF srt r] have "rw_sort_key r \<le> rw_sort_key (last tmp)" .
    from rows_le [OF ids mono r lin this] qr show ?thesis by simp
  qed
  with in_row_traces [OF lin] show ?thesis
    unfolding last_trace_def by force
qed

lemma earliest_from_cong: "set tr = set tr' \<Longrightarrow> earliest_from tr t n = earliest_from tr' t n"
  and latest_before_cong: "set tr = set tr' \<Longrightarrow> latest_before tr t n = latest_before tr' t n"
  and last_trace_cong: "set tr = set tr' \<Longrightarrow> last_trace tr n = last_trace tr' n"
  and increasing_with_time_cong:
    "set tr = set tr' \<Longrightarrow> increasing_with_time tr = increasing_with_time tr'"
  by (simp_all add: earliest_from_def latest_before_def last_trace_def increasing_with_time_def)

subsection \<open>The liquid additions in time order\<close>

lemma sorted_wrt_remdups: "sorted_wrt P xs \<Longrightarrow> sorted_wrt P (remdups xs)"
  by (induction xs) auto

lemma sorted_map_drop_duplicates:
  "sorted (map f xs) \<Longrightarrow> sorted (map f (drop_duplicates xs))"
  unfolding drop_duplicates_def sorted_map sorted_wrt_rev
  by (rule sorted_wrt_remdups) (simp add: sorted_wrt_rev)

lemma sorted_liquid_additions_of: "sorted (map ex_TIME (liquid_additions_of experiment))"
  by (simp add: liquid_additions_of_def sorted_map_drop_duplicates split: option.splits)

text \<open>What the builder writes into \<^verbatim>\<open>FIRST\<close> and \<^verbatim>\<open>LAST\<close>, for an experiment whose
  current traces are numbered in the order of their elapsed times.\<close>

lemma trace_range_facts:
  assumes ok: "experiment_tables trial experiment = Inr rows"
    and mono: "increasing_with_time (traces_of (current_results experiment))"
  defines "adds \<equiv> liquid_additions_of experiment"
    and "las \<equiv> er_liquid_adds rows"
    and "traces \<equiv> traces_of (current_results experiment)"
  shows "length las = length adds"
    and "adds \<noteq> []"
    and "i < length adds \<Longrightarrow>
           la_LIQUID (las ! i) = ex_LIQUID (adds ! i) \<and> la_CONC (las ! i) = ex_CONC (adds ! i) \<and>
           la_CONCU (las ! i) = ex_CONCU (adds ! i) \<and> la_CONCT (las ! i) = ex_CONCT (adds ! i)"
    and "i < length adds \<Longrightarrow> earliest_from traces (ex_TIME (adds ! i)) (FIRST (las ! i))"
    and "Suc i < length adds \<Longrightarrow> latest_before traces (ex_TIME (adds ! Suc i)) (LAST (las ! i))"
    and "Suc i = length adds \<Longrightarrow> last_trace traces (LAST (las ! i))"
proof -
  from ok obtain la exp_res_wide where
    lar: "liquid_addition_rows (sort_key rw_sort_key exp_res_wide) adds la = Inr las" and
    rne: "exp_res_wide \<noteq> []" and ane: "adds \<noteq> []" and
    tr: "row_traces exp_res_wide = traces" and
    ids0: "\<forall>r \<in> set exp_res_wide. rw_EXPID r = la_EXPID la \<and> rw_CELLID r = la_CELLID la"
    unfolding adds_def las_def traces_def by (rule experiment_tables_parts)
  let ?tmp = "sort_key rw_sort_key exp_res_wide"
  have srt: "sorted (map rw_sort_key ?tmp)" by simp
  have ids: "\<forall>r \<in> set ?tmp. rw_EXPID r = la_EXPID la \<and> rw_CELLID r = la_CELLID la"
    using ids0 by simp
  have st: "set (row_traces ?tmp) = set traces" using tr by simp
  have mono': "increasing_with_time (row_traces ?tmp)"
    using mono increasing_with_time_cong [OF st] by (simp add: traces_def)
  have tne: "?tmp \<noteq> []" using rne by (metis length_sort length_0_conv)
  note facts = liquid_addition_rows_nth [OF lar]
  show "length las = length adds" by (rule facts(1))
  show "adds \<noteq> []" by (rule ane)
  show "la_LIQUID (las ! i) = ex_LIQUID (adds ! i) \<and> la_CONC (las ! i) = ex_CONC (adds ! i) \<and>
        la_CONCU (las ! i) = ex_CONCU (adds ! i) \<and> la_CONCT (las ! i) = ex_CONCT (adds ! i)"
    if "i < length adds" using facts(4) [OF that] .
  show "earliest_from traces (ex_TIME (adds ! i)) (FIRST (las ! i))" if i: "i < length adds"
  proof -
    have "filter (\<lambda>r. ELTIME r \<ge> ex_TIME (adds ! i)) ?tmp \<noteq> []"
      using facts(6) i by simp
    from first_from_earliest [OF srt ids mono' this] facts(2) [OF i]
    show ?thesis by (simp add: earliest_from_cong [OF st])
  qed
  show "latest_before traces (ex_TIME (adds ! Suc i)) (LAST (las ! i))"
    if i: "Suc i < length adds"
  proof -
    have "adds ! Suc i \<in> set (tl adds)"
      using i by (cases adds) simp_all
    with facts(7) have "filter (\<lambda>r. ELTIME r < ex_TIME (adds ! Suc i)) ?tmp \<noteq> []" by simp
    from last_before_latest [OF srt ids mono' this] facts(3) [of i] i
    show ?thesis by (simp add: latest_before_cong [OF st])
  qed
  show "last_trace traces (LAST (las ! i))" if i: "Suc i = length adds"
  proof -
    from last_row_last_trace [OF srt ids mono' tne] facts(3) [of i] i
    show ?thesis by (simp add: last_trace_cong [OF st])
  qed
qed


lemma returnedE:
  assumes "case r of Inl e \<Rightarrow> False | Inr v \<Rightarrow> True"
  obtains v where "r = Inr v"
  using assms by (cases r) auto

lemma last_index_at_or_before:
  fixes T :: "nat \<Rightarrow> real"
  assumes "0 < k" "T 0 \<le> t"
  obtains i where "i < k" "T i \<le> t" "Suc i < k \<Longrightarrow> t < T (Suc i)"
proof -
  let ?S = "{i. i < k \<and> T i \<le> t}"
  have fin: "finite ?S" by simp
  have ne: "?S \<noteq> {}" using assms by auto
  have m: "Max ?S \<in> ?S" using Max_in [OF fin ne] .
  have "t < T (Suc (Max ?S))" if "Suc (Max ?S) < k"
  proof (rule ccontr)
    assume "\<not> t < T (Suc (Max ?S))"
    with that have "Suc (Max ?S) \<in> ?S" by simp
    from Max_ge [OF fin this] show False by simp
  qed
  with m that show thesis by blast
qed


subsection \<open>Claim C2: the trace range of each liquid addition\<close>

text \<open>
  Claim C2, as the code has it. The builder only looks at the results of type current
  (the rows of the wide layout). When it returns the rows of an experiment whose
  current traces are numbered in the order of their elapsed times and none of whose
  cursors has the name of an attribute of a row, it has one row per liquid addition,
  in the order of their times; \<^verbatim>\<open>FIRST\<close> of an addition is the trace number of the
  earliest current trace with elapsed time at or after the addition, \<^verbatim>\<open>LAST\<close> of an
  addition followed by another one is the trace number of the latest current trace
  with elapsed time before that next addition, and \<^verbatim>\<open>LAST\<close> of the final addition is
  the trace number of the last current trace. When the additions have distinct times,
  each row has the liquid and the concentration of its addition.
\<close>

theorem liquid_addition_trace_ranges:
  assumes "experiment_tables trial experiment = Inr rows"
    and "increasing_with_time (traces_of (current_results experiment))"
    and "cursors_named_apart experiment"
  shows "length (er_liquid_adds rows) = length (liquid_additions_of experiment) \<and>
    (\<forall>i < length (liquid_additions_of experiment).
       earliest_from (traces_of (current_results experiment))
         (ex_TIME (liquid_additions_of experiment ! i)) (FIRST (er_liquid_adds rows ! i)) \<and>
       (if Suc i < length (liquid_additions_of experiment)
        then latest_before (traces_of (current_results experiment))
               (ex_TIME (liquid_additions_of experiment ! Suc i)) (LAST (er_liquid_adds rows ! i))
        else last_trace (traces_of (current_results experiment))
               (LAST (er_liquid_adds rows ! i))) \<and>
       (distinct (map ex_TIME (liquid_additions_of experiment)) \<longrightarrow>
          la_LIQUID (er_liquid_adds rows ! i) = ex_LIQUID (liquid_additions_of experiment ! i) \<and>
          la_CONC (er_liquid_adds rows ! i) = ex_CONC (liquid_additions_of experiment ! i)))"
proof (intro conjI allI impI)
  note f = trace_range_facts [OF assms(1,2)]
  show "length (er_liquid_adds rows) = length (liquid_additions_of experiment)" by (rule f(1))
  fix i assume i: "i < length (liquid_additions_of experiment)"
  from f(3) [OF i]
  show "la_LIQUID (er_liquid_adds rows ! i) = ex_LIQUID (liquid_additions_of experiment ! i)"
    and "la_CONC (er_liquid_adds rows ! i) = ex_CONC (liquid_additions_of experiment ! i)"
    by simp_all
  show "earliest_from (traces_of (current_results experiment))
         (ex_TIME (liquid_additions_of experiment ! i)) (FIRST (er_liquid_adds rows ! i))"
    by (rule f(4) [OF i])
  show "if Suc i < length (liquid_additions_of experiment)
        then latest_before (traces_of (current_results experiment))
               (ex_TIME (liquid_additions_of experiment ! Suc i)) (LAST (er_liquid_adds rows ! i))
        else last_trace (traces_of (current_results experiment))
               (LAST (er_liquid_adds rows ! i))"
  proof (cases "Suc i < length (liquid_additions_of experiment)")
    case True
    with f(5) [OF True] show ?thesis by simp
  next
    case False
    with i have "Suc i = length (liquid_additions_of experiment)" by simp
    from f(6) [OF this] False show ?thesis by simp
  qed
qed


text \<open>The scenario of the specification: additions at 0 s and 5 s, ten current traces
  at 0 s to 9 s, each with the cursor \<open>Peak\<close>.\<close>

theorem liquid_addition_trace_ranges_two_additions:
  "ranges_of (experiment_tables (example_trial []) two_additions) = [(1, 5), (6, 10)] \<and>
   earliest_from (traces_of (current_results two_additions)) 0 1 \<and>
   latest_before (traces_of (current_results two_additions)) 5 5 \<and>
   earliest_from (traces_of (current_results two_additions)) 5 6 \<and>
   last_trace (traces_of (current_results two_additions)) 10 \<and>
   map la_LIQUID (er_liquid_adds (projr (experiment_tables (example_trial []) two_additions)))
     = [''control'', ''drug'']"
proof -
  have names: "cursors_named_apart two_additions"
    by code_simp
  have liquids: "map la_LIQUID
      (er_liquid_adds (projr (experiment_tables (example_trial []) two_additions)))
     = [''control'', ''drug'']"
    by code_simp
  have "case experiment_tables (example_trial []) two_additions of
          Inl e \<Rightarrow> False | Inr v \<Rightarrow> True"
    by code_simp
  then obtain rows where ok: "experiment_tables (example_trial []) two_additions = Inr rows"
    by (rule returnedE)
  have mono: "increasing_with_time (traces_of (current_results two_additions))"
    by code_simp
  have times: "map ex_TIME (liquid_additions_of two_additions) = [0, 5]"
    by code_simp
  have ranges: "ranges_of (experiment_tables (example_trial []) two_additions) = [(1, 5), (6, 10)]"
    by code_simp
  from times have len: "length (liquid_additions_of two_additions) = 2"
    and t0: "ex_TIME (liquid_additions_of two_additions ! 0) = 0"
    and t1: "ex_TIME (liquid_additions_of two_additions ! Suc 0) = 5"
    by (auto simp: map_eq_Cons_conv)
  from ranges ok have
    "FIRST (er_liquid_adds rows ! 0) = 1" "LAST (er_liquid_adds rows ! 0) = 5"
    "FIRST (er_liquid_adds rows ! Suc 0) = 6" "LAST (er_liquid_adds rows ! Suc 0) = 10"
    by (auto simp: ranges_of_def map_eq_Cons_conv)
  with liquid_addition_trace_ranges [OF ok mono names] len t0 t1 ranges
  have "ranges_of (experiment_tables (example_trial []) two_additions) = [(1, 5), (6, 10)] \<and>
   earliest_from (traces_of (current_results two_additions)) 0 1 \<and>
   latest_before (traces_of (current_results two_additions)) 5 5 \<and>
   earliest_from (traces_of (current_results two_additions)) 5 6 \<and>
   last_trace (traces_of (current_results two_additions)) 10"
    by (auto simp: numeral_2_eq_2 less_Suc_eq)
  with liquids show ?thesis by simp
qed



text \<open>A result of another type is a recorded result, and the builder passes it over:
  with a voltage recorded at 0 s as trace 1 and the currents from 1 s on as traces 2 to
  4, the earliest recorded result at or after the addition at 0 s is trace 1, and
  \<^verbatim>\<open>FIRST\<close> is 2.\<close>

theorem first_trace_passes_over_other_result_types:
  "increasing_with_time (traces_of (recorded_results voltage_first)) \<and>
   earliest_from (traces_of (recorded_results voltage_first)) 0 1 \<and>
   ranges_of (experiment_tables (example_trial []) voltage_first) = [(2, 4)]"
  by code_simp

subsection \<open>Claim C3: the trace ranges of an experiment\<close>

text \<open>
  Claim C3, as the code has it. When the builder returns the rows of an experiment
  whose current traces are numbered in the order of their elapsed times and none of
  whose cursors has the name of an attribute of a row, the ranges \<open>[FIRST, LAST]\<close> of
  its liquid additions lie one after the other without overlap, and a current trace
  lies in exactly one of them when its elapsed time is at or after the time of the
  first liquid addition, and in none of them when it is before.
\<close>

theorem liquid_addition_ranges_partition:
  assumes ok: "experiment_tables trial experiment = Inr rows"
    and mono: "increasing_with_time (traces_of (current_results experiment))"
    and names: "cursors_named_apart experiment"
  shows "(\<forall>i j. i < j \<and> j < length (er_liquid_adds rows) \<longrightarrow>
            LAST (er_liquid_adds rows ! i) < FIRST (er_liquid_adds rows ! j)) \<and>
         (\<forall>p \<in> set (traces_of (current_results experiment)).
            if ex_TIME (hd (liquid_additions_of experiment)) \<le> fst p
            then \<exists>!i. i < length (er_liquid_adds rows) \<and> in_range (er_liquid_adds rows ! i) (snd p)
            else \<forall>i < length (er_liquid_adds rows). \<not> in_range (er_liquid_adds rows ! i) (snd p))"
proof -
  define adds where "adds = liquid_additions_of experiment"
  define las where "las = er_liquid_adds rows"
  define traces where "traces = traces_of (current_results experiment)"
  note f = trace_range_facts [OF ok mono, folded adds_def las_def traces_def]
  have len: "length las = length adds" by (rule f(1))
  have srt: "sorted (map ex_TIME adds)"
    unfolding adds_def by (rule sorted_liquid_additions_of)
  have T_mono: "ex_TIME (adds ! i) \<le> ex_TIME (adds ! j)" if "i \<le> j" "j < length adds" for i j
    using sorted_nth_mono [OF srt, of i j] that by simp
  have inc: "snd p < snd q" if "p \<in> set traces" "q \<in> set traces" "fst p < fst q" for p q
    using mono that unfolding increasing_with_time_def traces_def by blast
  have sep: "LAST (las ! i) < FIRST (las ! j)" if ij: "i < j" and j: "j < length las" for i j
  proof -
    from ij j len have si: "Suc i < length adds" and j': "j < length adds" by simp_all
    from f(5) [OF si] obtain p where p: "p \<in> set traces" "fst p < ex_TIME (adds ! Suc i)"
      "snd p = LAST (las ! i)"
      unfolding latest_before_def by blast
    from f(4) [OF j'] obtain q where q: "q \<in> set traces" "ex_TIME (adds ! j) \<le> fst q"
      "snd q = FIRST (las ! j)"
      unfolding earliest_from_def by blast
    from T_mono [of "Suc i" j] ij j' have "ex_TIME (adds ! Suc i) \<le> ex_TIME (adds ! j)" by simp
    with p(2) q(2) have "fst p < fst q" by simp
    from inc [OF p(1) q(1) this] p(3) q(3) show ?thesis by simp
  qed
  have cover: "\<exists>i. i < length las \<and> in_range (las ! i) (snd p)"
    if p: "p \<in> set traces" and t: "ex_TIME (hd adds) \<le> fst p" for p
  proof -
    from f(2) have k: "0 < length adds" by simp
    from t f(2) have "ex_TIME (adds ! 0) \<le> fst p" by (simp add: hd_conv_nth)
    from last_index_at_or_before [of "length adds" "\<lambda>i. ex_TIME (adds ! i)", OF k this]
    obtain i where i: "i < length adds" and ti: "ex_TIME (adds ! i) \<le> fst p"
      and nxt: "Suc i < length adds \<Longrightarrow> fst p < ex_TIME (adds ! Suc i)"
      by blast
    from f(4) [OF i] p ti have lo: "FIRST (las ! i) \<le> snd p"
      unfolding earliest_from_def by blast
    have hi: "snd p \<le> LAST (las ! i)"
    proof (cases "Suc i < length adds")
      case True
      from f(5) [OF True] p nxt [OF True] show ?thesis
        unfolding latest_before_def by blast
    next
      case False
      with i have "Suc i = length adds" by simp
      from f(6) [OF this] p show ?thesis
        unfolding last_trace_def by blast
    qed
    from lo hi i len show ?thesis by (auto simp: in_range_def)
  qed
  have uniq: "i = j"
    if "i < length las" "in_range (las ! i) n" "j < length las" "in_range (las ! j) n" for i j n
  proof (rule ccontr)
    assume "i \<noteq> j"
    then consider "i < j" | "j < i" by linarith
    then show False
    proof cases
      case 1
      from sep [OF 1 that(3)] that(2,4) show False by (simp add: in_range_def)
    next
      case 2
      from sep [OF 2 that(1)] that(2,4) show False by (simp add: in_range_def)
    qed
  qed
  have before: "\<not> in_range (las ! i) (snd p)"
    if p: "p \<in> set traces" and t: "\<not> ex_TIME (hd adds) \<le> fst p" and i: "i < length las" for p i
  proof -
    from i len have i': "i < length adds" by simp
    from f(4) [OF i'] obtain q where q: "q \<in> set traces" "ex_TIME (adds ! i) \<le> fst q"
      "snd q = FIRST (las ! i)"
      unfolding earliest_from_def by blast
    from T_mono [of 0 i] i' f(2) have "ex_TIME (hd adds) \<le> ex_TIME (adds ! i)"
      by (simp add: hd_conv_nth)
    with t q(2) have "fst p < fst q" by simp
    from inc [OF p q(1) this] q(3) show ?thesis by (simp add: in_range_def)
  qed
  have "\<forall>i j. i < j \<and> j < length las \<longrightarrow> LAST (las ! i) < FIRST (las ! j)"
    using sep by blast
  moreover have "\<forall>p \<in> set traces.
            if ex_TIME (hd adds) \<le> fst p
            then \<exists>!i. i < length las \<and> in_range (las ! i) (snd p)
            else \<forall>i < length las. \<not> in_range (las ! i) (snd p)"
  proof
    fix p assume p: "p \<in> set traces"
    show "if ex_TIME (hd adds) \<le> fst p
            then \<exists>!i. i < length las \<and> in_range (las ! i) (snd p)
            else \<forall>i < length las. \<not> in_range (las ! i) (snd p)"
    proof (cases "ex_TIME (hd adds) \<le> fst p")
      case True
      from cover [OF p True] uniq True show ?thesis by auto
    next
      case False
      with before [OF p False] show ?thesis by simp
    qed
  qed
  ultimately show ?thesis
    unfolding adds_def las_def traces_def by blast
qed


theorem liquid_addition_ranges_partition_two_additions:
  "LAST (er_liquid_adds (projr (experiment_tables (example_trial []) two_additions)) ! 0)
     < FIRST (er_liquid_adds (projr (experiment_tables (example_trial []) two_additions)) ! 1) \<and>
   (\<exists>!i. i < length (er_liquid_adds (projr (experiment_tables (example_trial []) two_additions))) \<and>
      in_range (er_liquid_adds (projr (experiment_tables (example_trial []) two_additions)) ! i) 4)"
proof -
  have "case experiment_tables (example_trial []) two_additions of
          Inl e \<Rightarrow> False | Inr v \<Rightarrow> True"
    by code_simp
  then obtain rows where ok: "experiment_tables (example_trial []) two_additions = Inr rows"
    by (rule returnedE)
  have mono: "increasing_with_time (traces_of (current_results two_additions))"
    by code_simp
  have len: "length (er_liquid_adds (projr (experiment_tables (example_trial []) two_additions))) = 2"
    by code_simp
  have names: "cursors_named_apart two_additions"
    by code_simp
  have p: "(3, 4) \<in> set (traces_of (current_results two_additions))"
    by code_simp
  have t: "ex_TIME (hd (liquid_additions_of two_additions)) \<le> 3"
    by code_simp
  note part = liquid_addition_ranges_partition [OF ok mono names]
  from part len ok have "LAST (er_liquid_adds rows ! 0) < FIRST (er_liquid_adds rows ! 1)"
    by simp
  moreover from part p t
  have "\<exists>!i. i < length (er_liquid_adds rows) \<and> in_range (er_liquid_adds rows ! i) 4"
    by fastforce
  ultimately show ?thesis by (simp add: ok)
qed

text \<open>With one liquid addition at 5 s and ten current traces at 0 s to 9 s, the only
  range is \<open>[6, 10]\<close>: the traces 1 to 5 are in no range. And with a voltage recorded
  at 0 s as trace 1, the currents recorded from 1 s on as traces 2 to 4 and one liquid
  addition at 0 s, the only range is \<open>[2, 4]\<close>: trace 1 is recorded at the time of the
  addition and is in no range, as the builder makes the ranges from the current
  traces only.\<close>

theorem traces_before_first_addition_uncovered:
  "increasing_with_time (traces_of (current_results late_addition)) \<and>
   map snd (traces_of (current_results late_addition)) = [1, 2, 3, 4, 5, 6, 7, 8, 9, 10] \<and>
   ranges_of (experiment_tables (example_trial []) late_addition) = [(6, 10)] \<and>
   \<not> covered (ranges_of (experiment_tables (example_trial []) late_addition)) 1 \<and>
   increasing_with_time (traces_of (recorded_results voltage_first)) \<and>
   map ex_TIME (liquid_additions_of voltage_first) = [0] \<and>
   traces_of (recorded_results voltage_first) = [(0, 1), (1, 2), (2, 3), (3, 4)] \<and>
   ranges_of (experiment_tables (example_trial []) voltage_first) = [(2, 4)] \<and>
   \<not> covered (ranges_of (experiment_tables (example_trial []) voltage_first)) 1"
  by code_simp

section \<open>Properties of the exporter\<close>

subsection \<open>The exceptions of the table builder\<close>

lemma map_result_Inl: "map_result f xs = Inl e \<Longrightarrow> \<exists>x \<in> set xs. f x = Inl e"
  by (induction xs) (auto split: sum.splits)

lemma builtin_cursor_definitions: "cursor_definitions rs = Inl e \<Longrightarrow> builtin_exception e"
  by (auto simp: cursor_definitions_def cursor_definition_def py_float_def
      dest!: map_result_Inl split: option.splits sum.splits cell.splits)

lemma builtin_add_cursor_values: "add_cursor_values rcs d = Inl e \<Longrightarrow> builtin_exception e"
  by (induction rcs arbitrary: d) (auto split: option.splits)

lemma builtin_experiment_results_wide:
  "experiment_results_wide la rs = Inl e \<Longrightarrow> builtin_exception e"
  by (auto simp: experiment_results_wide_def result_wide_row_def
      dest!: map_result_Inl builtin_add_cursor_values split: option.splits sum.splits)

lemma builtin_trace_ranges: "trace_ranges tmp adds la acc = Inl e \<Longrightarrow> builtin_exception e"
  by (induction adds arbitrary: la acc) (auto simp: trace_ranges_Cons split: if_splits)

lemma builtin_liquid_addition_rows:
  "liquid_addition_rows tmp adds la = Inl e \<Longrightarrow> builtin_exception e"
  by (auto simp: liquid_addition_rows_def close_last_range_def
      dest!: builtin_trace_ranges split: sum.splits if_splits)

lemma builtin_experiment_tables: "experiment_tables trial experiment = Inl e \<Longrightarrow> builtin_exception e"
  unfolding experiment_tables_def Let_def
  by (auto simp: first_results_def experiment_ljp_def liquid_executions_def
      sorted_liquid_additions_def sorted_results_wide_def
      dest!: builtin_cursor_definitions builtin_experiment_results_wide
        builtin_liquid_addition_rows
      split: sum.splits option.splits list.splits if_splits)

lemma builtin_df_sort_values: "df_sort_values by_cols df = Inl e \<Longrightarrow> builtin_exception e"
  and builtin_df_drop: "df_drop c df = Inl e \<Longrightarrow> builtin_exception e"
  by (auto simp: df_sort_values_def df_drop_def split: if_splits)

lemma builtin_dataframes:
  "cells_cursors_liquids_results_dataframes trial = Inl e \<Longrightarrow> builtin_exception e"
  unfolding cells_cursors_liquids_results_dataframes_def Let_def
  by (auto dest!: map_result_Inl builtin_experiment_tables builtin_df_sort_values builtin_df_drop
      split: sum.splits)

lemma builtin_general_information: "general_information trial = Inl e \<Longrightarrow> builtin_exception e"
  by (auto simp: general_information_def split: option.splits list.splits)

lemma builtin_timeseries_to_df: "timeseries_to_df rd t w = Inl e \<Longrightarrow> builtin_exception e"
  by (auto simp: timeseries_to_df_def digits_from_file_def df_insert_first_def Let_def
      split: sum.splits option.splits if_splits)

lemma builtin_waveform_frame: "waveform_frame rd t w = Inl e \<Longrightarrow> builtin_exception e"
  by (auto simp: waveform_frame_def dest!: builtin_timeseries_to_df split: option.splits)

lemma builtin_waveforms_to_df: "waveforms_to_df rd ws = Inl e \<Longrightarrow> builtin_exception e"
  by (auto simp: waveforms_to_df_def dest!: builtin_waveform_frame map_result_Inl
      split: list.splits sum.splits if_splits)

lemma builtin_voltage_command_dataframe:
  "voltage_command_dataframe rd trial = Inl e \<Longrightarrow> builtin_exception e"
  by (auto simp: voltage_command_dataframe_def dest!: builtin_timeseries_to_df
      split: list.splits sum.splits Protocol.splits)

lemma builtin_export_waveforms:
  "export_waveforms rd edformat teddir exps st = Inl e \<Longrightarrow> builtin_exception e"
proof (induction exps arbitrary: st)
  case Nil
  then show ?case by simp
next
  case (Cons x xs)
  show ?case
  proof (cases "export_experiment_waveforms rd edformat teddir x st")
    case (Inl e')
    with Cons.prems have "e' = e" by simp
    with Inl show ?thesis
      by (auto simp: export_experiment_waveforms_def first_results_def Let_def
          dest!: builtin_waveforms_to_df
          split: sum.splits option.splits list.splits)
  next
    case (Inr st')
    with Cons.prems Cons.IH [of st'] show ?thesis by simp
  qed
qed


subsection \<open>Claim C4: the format of the waveform files\<close>

text \<open>
  Claim C4, as the code has it. \<^verbatim>\<open>to_xlsx\<close> raises an
  \<^verbatim>\<open>EncapsulatedDataFileError\<close> exactly when the format is none of \<^verbatim>\<open>csv\<close>, \<^verbatim>\<open>zip\<close>
  and \<^verbatim>\<open>xlsx\<close> and the steps before the format is looked at (the general information,
  the voltage command and the four tables) have completed; the error carries the format.
  For the three formats it is never raised.
\<close>

theorem to_xlsx_unsupported_format:
  "to_xlsx rd trial ted_xlsx_filename edformat = Inl (EncapsulatedDataFileError f m) \<longleftrightarrow>
     f = edformat \<and> m = ''Unsopported file format for encapsulated data'' \<and>
     edformat \<notin> set [''csv'', ''zip'', ''xlsx''] \<and> tables_built rd trial"
proof (cases "tables_built rd trial")
  case False
  then consider e where "general_information trial = Inl e"
    | gi e where "general_information trial = Inr gi" "voltage_command_dataframe rd trial = Inl e"
    | gi ivp e where "general_information trial = Inr gi"
        "voltage_command_dataframe rd trial = Inr ivp"
        "cells_cursors_liquids_results_dataframes trial = Inl e"
    unfolding tables_built_def
    by (cases "general_information trial"; cases "voltage_command_dataframe rd trial";
        cases "cells_cursors_liquids_results_dataframes trial") auto
  then have "\<exists>e. to_xlsx rd trial ted_xlsx_filename edformat = Inl e \<and> builtin_exception e"
  proof cases
    case 1
    with builtin_general_information [OF 1] show ?thesis by (simp add: to_xlsx_def)
  next
    case 2
    with builtin_voltage_command_dataframe [OF 2(2)] show ?thesis by (simp add: to_xlsx_def)
  next
    case 3
    with builtin_dataframes [OF 3(3)] show ?thesis by (simp add: to_xlsx_def)
  qed
  with False show ?thesis by auto
next
  case True
  then obtain gi ivp dfs where ok: "general_information trial = Inr gi"
    "voltage_command_dataframe rd trial = Inr ivp"
    "cells_cursors_liquids_results_dataframes trial = Inr dfs"
    unfolding tables_built_def
    by (cases "general_information trial"; cases "voltage_command_dataframe rd trial";
        cases "cells_cursors_liquids_results_dataframes trial") auto
  show ?thesis
  proof (cases "edformat \<in> set [''csv'', ''zip'', ''xlsx'']")
    case False
    with True ok show ?thesis by (auto simp: to_xlsx_def)
  next
    case supported: True
    let ?w = "export_waveforms rd edformat (dirname ted_xlsx_filename) (experiments trial)
                (LiquidAdditions dfs, [])"
    have "to_xlsx rd trial ted_xlsx_filename edformat \<noteq> Inl (EncapsulatedDataFileError f m)"
    proof (cases ?w)
      case (Inl e)
      from builtin_export_waveforms [OF Inl] have "e \<noteq> EncapsulatedDataFileError f m" by auto
      moreover from ok supported Inl have "to_xlsx rd trial ted_xlsx_filename edformat = Inl e"
        by (auto simp: to_xlsx_def)
      ultimately show ?thesis by simp
    next
      case (Inr written)
      with ok supported show ?thesis by (auto simp: to_xlsx_def)
    qed
    with supported show ?thesis by simp
  qed
qed

theorem to_xlsx_unsupported_format_hdf5:
  "to_xlsx no_files (example_trial [two_additions]) ''ted.xlsx'' ''hdf5'' =
     Inl (EncapsulatedDataFileError ''hdf5'' ''Unsopported file format for encapsulated data'')"
proof -
  have "tables_built no_files (example_trial [two_additions])"
    by code_simp
  with to_xlsx_unsupported_format [of no_files "example_trial [two_additions]" "''ted.xlsx''"
      "''hdf5''" "''hdf5''" "''Unsopported file format for encapsulated data''"]
  show ?thesis by simp
qed

text \<open>The tables are built before the format is looked at: for an experiment whose
  liquid addition comes after its last trace the builder raises \<^verbatim>\<open>IndexError\<close>, also
  when the format is not supported.\<close>

theorem to_xlsx_checks_format_late:
  "to_xlsx no_files (example_trial [addition_after_traces]) ''ted.xlsx'' ''hdf5'' = Inl IndexError"
  by code_simp

subsection \<open>Claim C9: a trial without experiments\<close>

text \<open>
  Claim C9 does not hold of the code: for a trial without experiments the builder
  makes the table of liquid additions from an empty list, the table has no columns, and
  sorting it by \<^verbatim>\<open>STIME\<close> raises \<^verbatim>\<open>KeyError\<close>; so does \<^verbatim>\<open>to_xlsx\<close>, whatever the
  format, for a trial with a study and a device.
\<close>

theorem to_xlsx_without_experiments:
  "cells_cursors_liquids_results_dataframes (trial\<lparr>experiments := []\<rparr>) = Inl KeyError \<and>
   isl (to_xlsx rd (trial\<lparr>experiments := []\<rparr>) ted_xlsx_filename edformat) \<and>
   to_xlsx rd (example_trial []) ted_xlsx_filename edformat = Inl KeyError"
proof -
  have a: "cells_cursors_liquids_results_dataframes (trial\<lparr>experiments := []\<rparr>) = Inl KeyError"
    for trial
    by (simp add: cells_cursors_liquids_results_dataframes_def DataFrame_def df_sort_values_def
        drop_duplicates_def)
  have b: "isl (to_xlsx rd (trial\<lparr>experiments := []\<rparr>) ted_xlsx_filename edformat)"
    by (simp add: to_xlsx_def a split: sum.splits)
  have "example_trial [] = (example_trial [])\<lparr>experiments := []\<rparr>"
    by (simp add: example_trial_def)
  then have c: "cells_cursors_liquids_results_dataframes (example_trial []) = Inl KeyError"
    using a [of "example_trial []"] by simp
  have "general_information (example_trial []) \<noteq> Inl e" for e
    by (simp add: general_information_def example_trial_def)
  moreover have "voltage_command_dataframe rd (example_trial []) \<noteq> Inl e" for e
    by (simp add: voltage_command_dataframe_def example_trial_def)
  ultimately have "to_xlsx rd (example_trial []) ted_xlsx_filename edformat = Inl KeyError"
    by (auto simp: to_xlsx_def c split: sum.splits)
  with a b show ?thesis by simp
qed

section \<open>Properties of the wide layout\<close>

subsection \<open>The keys of the rows\<close>

lemma add_cursor_values_keys:
  "add_cursor_values rcs d = Inr d' \<Longrightarrow> fst ` set d' = fst ` set d \<union> cursor_name ` set rcs"
proof (induction rcs arbitrary: d)
  case Nil
  then show ?case by simp
next
  case (Cons rc rcs)
  then obtain r where r: "cursor_result rc = Some r"
    and rec: "add_cursor_values rcs (AList.update (cursor_name rc) (cr_value r) d) = Inr d'"
    by (auto split: option.splits)
  from Cons.IH [OF rec] show ?case by (auto simp: dom_update)
qed

lemma result_wide_row_dynamic:
  "result_wide_row la rs res = Inr r \<Longrightarrow>
   \<exists>rcs. result_cursors res = Some rcs \<and> add_cursor_values rcs [] = Inr (rw_dynamic r)"
  by (auto simp: result_wide_row_def split: option.splits sum.splits)

lemma result_wide_row_keys:
  assumes "result_wide_row la rs res = Inr r"
  shows "fst ` set (rw_dynamic r) = set (result_cursor_names res)"
proof -
  from result_wide_row_dynamic [OF assms] obtain rcs where
    rcs: "result_cursors res = Some rcs" and dyn: "add_cursor_values rcs [] = Inr (rw_dynamic r)"
    by blast
  from add_cursor_values_keys [OF dyn] rcs show ?thesis
    by (simp add: result_cursor_names_def)
qed

lemma all2_dynamic_keys:
  "list_all2 (\<lambda>res r. result_wide_row la rs res = Inr r) ress rows \<Longrightarrow>
   dynamic_keys rows = (\<Union>res \<in> set ress. set (result_cursor_names res))"
proof (induction rule: list_all2_induct)
  case Nil
  show ?case by (simp add: dynamic_keys_def)
next
  case (Cons res ress r rows)
  from result_wide_row_keys [OF Cons.hyps(1)] Cons.IH show ?case
    by (simp add: dynamic_keys_def)
qed

lemma add_liquid_keys:
  "fst ` set (rw_dynamic er) \<subseteq> fst ` set (rw_dynamic (add_liquid la er)) \<and>
   fst ` set (rw_dynamic (add_liquid la er)) \<subseteq> fst ` set (rw_dynamic er) \<union> {''CTLFL'', ''SBFL''}"
  by (auto simp: add_liquid_def dom_update)

lemma map_add_liquid_keys:
  "dynamic_keys rows \<subseteq> dynamic_keys (map (add_liquid la) rows) \<and>
   dynamic_keys (map (add_liquid la) rows) \<subseteq> dynamic_keys rows \<union> {''CTLFL'', ''SBFL''}"
proof (intro conjI subsetI)
  fix k assume "k \<in> dynamic_keys rows"
  then obtain er where er: "er \<in> set rows" "k \<in> fst ` set (rw_dynamic er)"
    unfolding dynamic_keys_def by blast
  with add_liquid_keys [of er la] have "k \<in> fst ` set (rw_dynamic (add_liquid la er))" by blast
  with er(1) show "k \<in> dynamic_keys (map (add_liquid la) rows)"
    unfolding dynamic_keys_def by auto
next
  fix k assume "k \<in> dynamic_keys (map (add_liquid la) rows)"
  then obtain er where er: "er \<in> set rows" "k \<in> fst ` set (rw_dynamic (add_liquid la er))"
    unfolding dynamic_keys_def by auto
  with add_liquid_keys [of er la]
  have "k \<in> fst ` set (rw_dynamic er) \<union> {''CTLFL'', ''SBFL''}" by blast
  with er(1) show "k \<in> dynamic_keys rows \<union> {''CTLFL'', ''SBFL''}"
    unfolding dynamic_keys_def by auto
qed

lemma add_liquids_keys:
  "dynamic_keys rows \<subseteq> dynamic_keys (add_liquids las rows) \<and>
   dynamic_keys (add_liquids las rows) \<subseteq> dynamic_keys rows \<union> {''CTLFL'', ''SBFL''}"
proof (induction las arbitrary: rows)
  case Nil
  show ?case by (auto simp: add_liquids_def)
next
  case (Cons la las)
  have "add_liquids (la # las) rows = add_liquids las (map (add_liquid la) rows)"
    by (simp add: add_liquids_def)
  with Cons.IH [of "map (add_liquid la) rows"] map_add_liquid_keys [of rows la]
  show ?case by auto
qed


lemma experiment_tables_res_wide:
  assumes "experiment_tables trial experiment = Inr rows"
  obtains la rs exp_res_wide where
    "list_all2 (\<lambda>res r. result_wide_row la rs res = Inr r)
       (current_results experiment) exp_res_wide"
    "er_res_wide rows = add_liquids (er_liquid_adds rows) exp_res_wide"
proof -
  from assms obtain rs where rs: "first_results experiment = Inr rs"
    by (auto simp: experiment_tables_def split: sum.splits)
  from assms rs obtain cid l where cid: "cell_id (cell rs) = Some cid"
    and l: "experiment_ljp trial rs = Inr l"
    by (auto simp: experiment_tables_def split: sum.splits option.splits)
  define la where "la = template_liquid_addition experiment cid l"
  from assms rs cid l obtain exp_res_wide where
    erw: "experiment_results_wide la rs = Inr exp_res_wide" and
    rw: "er_res_wide rows = add_liquids (er_liquid_adds rows) exp_res_wide"
    by (auto simp: experiment_tables_def la_def Let_def split: sum.splits option.splits)
  from rs obtain rss where rss: "resultsSet experiment = Some (rs # rss)"
    by (auto simp: first_results_def split: option.splits list.splits)
  from erw obtain ress where ress: "results rs = Some ress"
    and mr: "map_result (result_wide_row la rs)
               (filter (\<lambda>res. result_type res = CIPA_RESULT_TYPE_CURRENT) ress) = Inr exp_res_wide"
    by (auto simp: experiment_results_wide_def split: option.splits)
  have cur: "current_results experiment =
      filter (\<lambda>res. result_type res = CIPA_RESULT_TYPE_CURRENT) ress"
    by (simp add: current_results_def recorded_results_def rss ress)
  from map_result_all2 [OF mr] cur rw show thesis
    using that [of la rs exp_res_wide] by simp
qed

lemma experiment_tables_keys:
  assumes "experiment_tables trial experiment = Inr rows"
  shows "(\<Union>res \<in> set (current_results experiment). set (result_cursor_names res))
           \<subseteq> dynamic_keys (er_res_wide rows)"
    and "dynamic_keys (er_res_wide rows)
           \<subseteq> (\<Union>res \<in> set (current_results experiment). set (result_cursor_names res))
              \<union> {''CTLFL'', ''SBFL''}"
proof -
  from assms obtain la rs exp_res_wide where
    a2: "list_all2 (\<lambda>res r. result_wide_row la rs res = Inr r)
           (current_results experiment) exp_res_wide" and
    rw: "er_res_wide rows = add_liquids (er_liquid_adds rows) exp_res_wide"
    by (rule experiment_tables_res_wide)
  note k = all2_dynamic_keys [OF a2]
  note al = add_liquids_keys [of exp_res_wide "er_liquid_adds rows"]
  show "(\<Union>res \<in> set (current_results experiment). set (result_cursor_names res))
           \<subseteq> dynamic_keys (er_res_wide rows)"
    using al k by (simp add: rw)
  show "dynamic_keys (er_res_wide rows)
           \<subseteq> (\<Union>res \<in> set (current_results experiment). set (result_cursor_names res))
              \<union> {''CTLFL'', ''SBFL''}"
    using al k by (simp add: rw)
qed

lemma dynamic_keys_concat: "dynamic_keys (concat xss) = (\<Union>xs \<in> set xss. dynamic_keys xs)"
  by (auto simp: dynamic_keys_def)

lemma dynamic_keys_append: "dynamic_keys (xs @ ys) = dynamic_keys xs \<union> dynamic_keys ys"
  by (auto simp: dynamic_keys_def)

lemma all_tables_keys:
  assumes "list_all2 (\<lambda>e rows. experiment_tables trial e = Inr rows) exps rows_list"
  shows "(\<Union>e \<in> set exps. \<Union>res \<in> set (current_results e). set (result_cursor_names res))
           \<subseteq> dynamic_keys (concat (map er_res_wide rows_list)) \<and>
         dynamic_keys (concat (map er_res_wide rows_list))
           \<subseteq> (\<Union>e \<in> set exps. \<Union>res \<in> set (current_results e). set (result_cursor_names res))
              \<union> {''CTLFL'', ''SBFL''}"
  using assms
proof (induction rule: list_all2_induct)
  case Nil
  show ?case by (simp add: dynamic_keys_def)
next
  case (Cons e exps rows rows_list)
  have comb: "A \<union> B \<subseteq> K \<union> L \<and> K \<union> L \<subseteq> A \<union> B \<union> CS"
    if "A \<subseteq> K" "K \<subseteq> A \<union> CS" "B \<subseteq> L \<and> L \<subseteq> B \<union> CS"
    for A B K L CS :: "string set"
    using that by blast
  from comb [OF experiment_tables_keys [OF Cons.hyps(1)] Cons.IH] show ?case
    by (simp add: dynamic_keys_append Un_commute)
qed

subsection \<open>Columns of a table\<close>

lemma set_drop_duplicates [simp]: "set (drop_duplicates xs) = set xs"
  and distinct_drop_duplicates [simp]: "distinct (drop_duplicates xs)"
  by (simp_all add: drop_duplicates_def)

lemma DataFrame_columns_set:
  "set (df_columns (DataFrame dicts)) = (\<Union>d \<in> set dicts. fst ` set d)"
  by (auto simp: DataFrame_def Let_def)

lemma distinct_DataFrame_columns: "distinct (df_columns (DataFrame dicts))"
  by (simp add: DataFrame_def Let_def)

lemma rw_dict_keys: "fst ` set (rw_dict r) = set wide_columns \<union> fst ` set (rw_dynamic r)"
  by (auto simp: rw_dict_def wide_columns_def)

lemma DataFrame_rw_columns:
  "rows \<noteq> [] \<Longrightarrow>
   set (df_columns (DataFrame (map rw_dict rows))) = set wide_columns \<union> dynamic_keys rows"
  unfolding DataFrame_columns_set dynamic_keys_def
  by (cases rows) (auto simp: rw_dict_keys)

lemma df_drop_columns:
  "df_drop c df = Inr df' \<Longrightarrow>
   c \<in> set (df_columns df) \<and> df_columns df' = filter (\<lambda>k. k \<noteq> c) (df_columns df)"
  by (auto simp: df_drop_def split: if_splits)

lemma df_sort_values_result:
  "df_sort_values by_cols df = Inr df' \<Longrightarrow>
   df_columns df' = df_columns df \<and>
   df_rows df' = sort_key (\<lambda>r. map (\<lambda>c. cell_key (df_get df r c)) by_cols) (df_rows df)"
  by (auto simp: df_sort_values_def split: if_splits)

lemma df_get_columns: "df_columns df = df_columns df' \<Longrightarrow> df_get df = df_get df'"
  by (simp add: df_get_def fun_eq_iff)

lemma df_sort_values_sorted:
  assumes "df_sort_values by_cols df = Inr df'"
  shows "sorted_by by_cols df'" and "distinct (df_rows df') = distinct (df_rows df)"
proof -
  note r = df_sort_values_result [OF assms]
  from r have "df_get df' = df_get df" by (intro df_get_columns) simp
  with r show "sorted_by by_cols df'" by (simp add: sorted_by_def)
  from r show "distinct (df_rows df') = distinct (df_rows df)" by simp
qed

lemma dataframes_ResultsWide:
  assumes ok: "cells_cursors_liquids_results_dataframes trial = Inr t"
  obtains rows_list dropped where
    "map_result (experiment_tables trial) (experiments trial) = Inr rows_list"
    "df_drop ''SRCXFN'' (DataFrame (map rw_dict (concat (map er_res_wide rows_list))))
       = Inr dropped"
    "df_sort_values [''EXPID'', ''CELLID'', ''ELTIME'', ''TRACENUM'']
       (df_drop_duplicates dropped) = Inr (ResultsWide t)"
proof (cases "map_result (experiment_tables trial) (experiments trial)")
  case (Inl e)
  with ok show ?thesis by (simp add: cells_cursors_liquids_results_dataframes_def)
next
  case mr: (Inr rows_list)
  show ?thesis
  proof (cases "df_sort_values [''STIME'', ''EXPID'', ''CELLID'', ''FIRST'', ''LAST'']
             (DataFrame (map la_dict (concat (map er_liquid_adds rows_list))))")
    case (Inl e)
    with ok mr show ?thesis
      by (simp add: cells_cursors_liquids_results_dataframes_def Let_def)
  next
    case la: (Inr la_df)
    show ?thesis
    proof (cases "df_drop ''SRCXFN''
        (DataFrame (map rw_dict (concat (map er_res_wide rows_list))))")
      case (Inl e)
      with ok mr la show ?thesis
        by (simp add: cells_cursors_liquids_results_dataframes_def Let_def)
    next
      case dr: (Inr dropped)
      show ?thesis
      proof (cases "df_sort_values [''EXPID'', ''CELLID'', ''ELTIME'', ''TRACENUM'']
          (df_drop_duplicates dropped)")
        case (Inl e)
        with ok mr la dr show ?thesis
          by (simp add: cells_cursors_liquids_results_dataframes_def Let_def)
      next
        case (Inr rw_df)
        with ok mr la dr have "ResultsWide t = rw_df"
          by (auto simp add: cells_cursors_liquids_results_dataframes_def Let_def)
        with that [OF mr dr] Inr show ?thesis by simp
      qed
    qed
  qed
qed

subsection \<open>The rows of the table of results\<close>

lemma zip_map_filter:
  "map snd (filter (\<lambda>kv. fst kv \<noteq> c) (zip cols (map f cols))) = map f (filter (\<lambda>k. k \<noteq> c) cols)"
  by (induction cols) auto

lemma DataFrame_rows: "df_rows (DataFrame dicts) = map (row_cells (df_columns (DataFrame dicts))) dicts"
  by (simp add: DataFrame_def Let_def row_cells_def)

lemma df_drop_rows:
  assumes "df_drop c (DataFrame dicts) = Inr df'"
  shows "df_rows df' = map (row_cells (df_columns df')) dicts"
proof -
  have "map snd (filter (\<lambda>kv. fst kv \<noteq> c) (zip cols (row_cells cols d)))
      = row_cells (filter (\<lambda>k. k \<noteq> c) cols) d" for cols d
    unfolding row_cells_def by (rule zip_map_filter)
  with assms show ?thesis
    by (auto simp: df_drop_def DataFrame_rows split: if_splits)
qed

lemma add_liquid_trace:
  "rw_EXPID (add_liquid la er) = rw_EXPID er \<and> ELTIME (add_liquid la er) = ELTIME er \<and>
   TRACENUM (add_liquid la er) = TRACENUM er"
  by (simp add: add_liquid_def)

lemma add_liquids_traces:
  "map (\<lambda>r. (rw_EXPID r, ELTIME r, TRACENUM r)) (add_liquids las rows)
     = map (\<lambda>r. (rw_EXPID r, ELTIME r, TRACENUM r)) rows"
proof (induction las arbitrary: rows)
  case Nil
  show ?case by (simp add: add_liquids_def)
next
  case (Cons la las)
  have "add_liquids (la # las) rows = add_liquids las (map (add_liquid la) rows)"
    by (simp add: add_liquids_def)
  with Cons.IH [of "map (add_liquid la) rows"] show ?case
    by (simp add: add_liquid_trace comp_def)
qed

lemma all2_traces:
  "list_all2 (\<lambda>res r. result_wide_row la rs res = Inr r) ress rows \<Longrightarrow>
   map (\<lambda>r. (rw_EXPID r, ELTIME r, TRACENUM r)) rows
     = map (\<lambda>res. (la_EXPID la, elapsedTime res, traceNumber res)) ress"
proof (induction rule: list_all2_induct)
  case Nil
  show ?case by simp
next
  case (Cons res ress r rows)
  from result_wide_row_fields [OF Cons.hyps(1)] Cons.IH show ?case by simp
qed

lemma experiment_tables_traces:
  assumes "experiment_tables trial experiment = Inr rows"
  shows "map (\<lambda>r. (rw_EXPID r, ELTIME r, TRACENUM r)) (er_res_wide rows)
     = map (\<lambda>res. (composite_id (exp_id experiment), elapsedTime res, traceNumber res))
         (current_results experiment)"
proof -
  from assms obtain rs where rs: "first_results experiment = Inr rs"
    by (auto simp: experiment_tables_def split: sum.splits)
  from assms rs obtain cid l where cid: "cell_id (cell rs) = Some cid"
    and l: "experiment_ljp trial rs = Inr l"
    by (auto simp: experiment_tables_def split: sum.splits option.splits)
  define la where "la = template_liquid_addition experiment cid l"
  have la_id: "la_EXPID la = composite_id (exp_id experiment)"
    by (simp add: la_def template_liquid_addition_def)
  from assms rs cid l obtain exp_res_wide where
    erw: "experiment_results_wide la rs = Inr exp_res_wide" and
    rw: "er_res_wide rows = add_liquids (er_liquid_adds rows) exp_res_wide"
    by (auto simp: experiment_tables_def la_def Let_def split: sum.splits option.splits)
  from rs obtain rss where rss: "resultsSet experiment = Some (rs # rss)"
    by (auto simp: first_results_def split: option.splits list.splits)
  from erw obtain ress where ress: "results rs = Some ress"
    and mr: "map_result (result_wide_row la rs)
               (filter (\<lambda>res. result_type res = CIPA_RESULT_TYPE_CURRENT) ress) = Inr exp_res_wide"
    by (auto simp: experiment_results_wide_def split: option.splits)
  have cur: "current_results experiment =
      filter (\<lambda>res. result_type res = CIPA_RESULT_TYPE_CURRENT) ress"
    by (simp add: current_results_def recorded_results_def rss ress)
  from all2_traces [OF map_result_all2 [OF mr]] show ?thesis
    by (simp add: rw add_liquids_traces cur la_id)
qed

lemma all_tables_traces:
  assumes "list_all2 (\<lambda>e rows. experiment_tables trial e = Inr rows) exps rows_list"
  shows "map (\<lambda>r. (rw_EXPID r, ELTIME r, TRACENUM r)) (concat (map er_res_wide rows_list))
     = concat (map (\<lambda>experiment.
                      map (\<lambda>res. (composite_id (exp_id experiment), elapsedTime res,
                                   traceNumber res))
                        (current_results experiment)) exps)"
  using assms
proof (induction rule: list_all2_induct)
  case Nil
  show ?case by simp
next
  case (Cons e exps rows rows_list)
  from experiment_tables_traces [OF Cons.hyps(1)] Cons.IH show ?case by simp
qed

subsection \<open>Claim C7: the table of results\<close>

text \<open>
  Claim C7, as the code has it. When the builder returns its tables, the table
  \<^verbatim>\<open>ResultsWide\<close> has no column \<^verbatim>\<open>SRCXFN\<close> (the builder drops it); it has the other
  twelve attributes of a row and the cursor names of the current results as columns,
  and beyond them at most \<^verbatim>\<open>CTLFL\<close> and \<^verbatim>\<open>SBFL\<close>, which the builder adds to the rows
  inside the range of a liquid addition; no column occurs twice. The rows are sorted by
  \<^verbatim>\<open>EXPID, CELLID, ELTIME, TRACENUM\<close>, and no row occurs twice. When no cursor has the
  name of an attribute of a row and the liquid additions of each experiment have
  distinct times, the builder has collected one row for every current result of the
  first set of results of every experiment, with its experiment, its elapsed time and
  its trace number, and the rows of the table are the cells of these rows under the
  columns of the table, each of them once.
\<close>

theorem results_wide_table:
  assumes "cells_cursors_liquids_results_dataframes trial = Inr t"
  shows "''SRCXFN'' \<notin> set (df_columns (ResultsWide t)) \<and>
         (set wide_columns \<union> cursor_names trial) - {''SRCXFN''}
           \<subseteq> set (df_columns (ResultsWide t)) \<and>
         set (df_columns (ResultsWide t))
           \<subseteq> (set wide_columns \<union> cursor_names trial \<union> {''CTLFL'', ''SBFL''}) - {''SRCXFN''} \<and>
         distinct (df_columns (ResultsWide t)) \<and>
         sorted_by [''EXPID'', ''CELLID'', ''ELTIME'', ''TRACENUM''] (ResultsWide t) \<and>
         distinct (df_rows (ResultsWide t)) \<and>
         ((\<forall>experiment \<in> set (experiments trial).
             cursors_named_apart experiment \<and>
             distinct (map ex_TIME (liquid_additions_of experiment))) \<longrightarrow>
            map (\<lambda>r. (rw_EXPID r, ELTIME r, TRACENUM r)) (wide_rows trial) = current_traces trial \<and>
            set (df_rows (ResultsWide t))
              = (\<lambda>r. row_cells (df_columns (ResultsWide t)) (rw_dict r)) ` set (wide_rows trial))"
proof -
  from assms obtain rows_list dropped where
    mr: "map_result (experiment_tables trial) (experiments trial) = Inr rows_list" and
    dr: "df_drop ''SRCXFN'' (DataFrame (map rw_dict (concat (map er_res_wide rows_list))))
           = Inr dropped" and
    so: "df_sort_values [''EXPID'', ''CELLID'', ''ELTIME'', ''TRACENUM'']
           (df_drop_duplicates dropped) = Inr (ResultsWide t)"
    by (rule dataframes_ResultsWide)
  define res_wide where "res_wide = concat (map er_res_wide rows_list)"
  note dr = dr [folded res_wide_def]
  note d = df_drop_columns [OF dr]
  have ne: "res_wide \<noteq> []"
  proof
    assume "res_wide = []"
    with d show False by (simp add: DataFrame_def drop_duplicates_def)
  qed
  have cols: "df_columns (ResultsWide t) =
      filter (\<lambda>k. k \<noteq> ''SRCXFN'') (df_columns (DataFrame (map rw_dict res_wide)))"
    using df_sort_values_result [OF so] d by (simp add: df_drop_duplicates_def)
  have keys: "cursor_names trial \<subseteq> dynamic_keys res_wide"
    "dynamic_keys res_wide \<subseteq> cursor_names trial \<union> {''CTLFL'', ''SBFL''}"
    using all_tables_keys [OF map_result_all2 [OF mr]]
    unfolding res_wide_def cursor_names_def by simp_all
  have set_cols: "set (df_columns (ResultsWide t)) =
      (set wide_columns \<union> dynamic_keys res_wide) - {''SRCXFN''}"
    unfolding cols using DataFrame_rw_columns [OF ne] by auto
  have "''SRCXFN'' \<notin> set (df_columns (ResultsWide t))"
    by (simp add: set_cols)
  moreover have "(set wide_columns \<union> cursor_names trial) - {''SRCXFN''}
           \<subseteq> set (df_columns (ResultsWide t))"
    unfolding set_cols using keys(1) by auto
  moreover have "set (df_columns (ResultsWide t))
           \<subseteq> (set wide_columns \<union> cursor_names trial \<union> {''CTLFL'', ''SBFL''}) - {''SRCXFN''}"
    unfolding set_cols using keys(2) by auto
  moreover have "distinct (df_columns (ResultsWide t))"
    unfolding cols by (simp add: distinct_DataFrame_columns)
  moreover have "sorted_by [''EXPID'', ''CELLID'', ''ELTIME'', ''TRACENUM''] (ResultsWide t)"
    using df_sort_values_sorted(1) [OF so] .
  moreover have "distinct (df_rows (ResultsWide t))"
    using df_sort_values_sorted(2) [OF so] by (simp add: df_drop_duplicates_def)
  moreover have "map (\<lambda>r. (rw_EXPID r, ELTIME r, TRACENUM r)) (wide_rows trial)
      = current_traces trial"
    using all_tables_traces [OF map_result_all2 [OF mr]]
    by (simp add: wide_rows_def mr current_traces_def)
  moreover have "set (df_rows (ResultsWide t))
      = (\<lambda>r. row_cells (df_columns (ResultsWide t)) (rw_dict r)) ` set (wide_rows trial)"
  proof -
    have c: "df_columns (ResultsWide t) = df_columns dropped"
      using df_sort_values_result [OF so] by (simp add: df_drop_duplicates_def)
    have "set (df_rows (ResultsWide t)) = set (df_rows dropped)"
      using df_sort_values_result [OF so] by (simp add: df_drop_duplicates_def)
    also have "\<dots> = set (map (row_cells (df_columns dropped)) (map rw_dict res_wide))"
      using df_drop_rows [OF dr] by simp
    finally show ?thesis
      by (simp add: c wide_rows_def mr res_wide_def image_image)
  qed
  ultimately show ?thesis by blast
qed

text \<open>The table for the two liquid additions and the ten traces with the cursor
  \<open>Peak\<close>.\<close>

theorem results_wide_table_two_additions:
  "''SRCXFN'' \<notin> set (df_columns (ResultsWide (projr (cells_cursors_liquids_results_dataframes
       (example_trial [two_additions]))))) \<and>
   ''Peak'' \<in> set (df_columns (ResultsWide (projr (cells_cursors_liquids_results_dataframes
       (example_trial [two_additions]))))) \<and>
   sorted_by [''EXPID'', ''CELLID'', ''ELTIME'', ''TRACENUM'']
     (ResultsWide (projr (cells_cursors_liquids_results_dataframes
       (example_trial [two_additions])))) \<and>
   distinct (df_rows (ResultsWide (projr (cells_cursors_liquids_results_dataframes
       (example_trial [two_additions]))))) \<and>
   map (\<lambda>r. TRACENUM r) (wide_rows (example_trial [two_additions]))
     = [1, 2, 3, 4, 5, 6, 7, 8, 9, 10] \<and>
   set (df_rows (ResultsWide (projr (cells_cursors_liquids_results_dataframes
       (example_trial [two_additions])))))
     = (\<lambda>r. row_cells (df_columns (ResultsWide (projr (cells_cursors_liquids_results_dataframes
                (example_trial [two_additions]))))) (rw_dict r))
         ` set (wide_rows (example_trial [two_additions])) \<and>
   length (df_rows (ResultsWide (projr (cells_cursors_liquids_results_dataframes
       (example_trial [two_additions]))))) = 10"
proof -
  have names: "\<forall>experiment \<in> set (experiments (example_trial [two_additions])).
      cursors_named_apart experiment \<and> distinct (map ex_TIME (liquid_additions_of experiment))"
    by code_simp
  have tn: "map (\<lambda>r. TRACENUM r) (wide_rows (example_trial [two_additions]))
     = [1, 2, 3, 4, 5, 6, 7, 8, 9, 10]"
    by code_simp
  have len: "length (df_rows (ResultsWide (projr (cells_cursors_liquids_results_dataframes
       (example_trial [two_additions]))))) = 10"
    by code_simp
  have "case cells_cursors_liquids_results_dataframes (example_trial [two_additions]) of
          Inl e \<Rightarrow> False | Inr v \<Rightarrow> True"
    by code_simp
  then obtain t where
    ok: "cells_cursors_liquids_results_dataframes (example_trial [two_additions]) = Inr t"
    by (rule returnedE)
  have "''Peak'' \<in> cursor_names (example_trial [two_additions])"
    by (simp add: cursor_names_def example_trial_def two_additions_def ten_traces_def
        current_results_def recorded_results_def example_experiment_def example_result_def
        result_cursor_names_def)
  then have peak: "''Peak'' \<in> (set wide_columns \<union> cursor_names (example_trial [two_additions]))
      - {''SRCXFN''}"
    by simp
  note r = results_wide_table [OF ok]
  from r peak have "''Peak'' \<in> set (df_columns (ResultsWide t))" by blast
  moreover from r names have "set (df_rows (ResultsWide t))
      = (\<lambda>r. row_cells (df_columns (ResultsWide t)) (rw_dict r))
          ` set (wide_rows (example_trial [two_additions]))"
    by blast
  moreover from r have "''SRCXFN'' \<notin> set (df_columns (ResultsWide t))"
    "sorted_by [''EXPID'', ''CELLID'', ''ELTIME'', ''TRACENUM''] (ResultsWide t)"
    "distinct (df_rows (ResultsWide t))"
    by blast+
  ultimately show ?thesis using tn len by (simp add: ok)
qed

text \<open>The columns for the two liquid additions and the ten traces with the cursor
  \<open>Peak\<close>: \<^verbatim>\<open>SRCXFN\<close> is not among them, \<^verbatim>\<open>CTLFL\<close> and \<^verbatim>\<open>SBFL\<close> are.\<close>

theorem results_wide_columns_two_additions:
  "df_columns (ResultsWide (projr (cells_cursors_liquids_results_dataframes
       (example_trial [two_additions])))) =
     [''EXPID'', ''CELLID'', ''RESTYPE'', ''LEAKMTH'', ''ELTIME'', ''ELTIMEU'', ''TRACENUM'',
      ''ANLFL'', ''LIQUID'', ''CONC'', ''CONCU'', ''CONCT'', ''Peak'', ''CTLFL'', ''SBFL'']"
  by code_simp

section \<open>Properties of the importer\<close>

subsection \<open>The exceptions of the importer\<close>

text \<open>
  Every exception that \<^verbatim>\<open>from_xlsx\<close> raises is one of Python or of pandas: the module
  raises none of its own when it reads a dataset.
\<close>

lemma builtin_expand_items: "expand_items items new_row logged = Inl e \<Longrightarrow> builtin_exception e"
  by (induction items arbitrary: new_row logged) (auto split: if_splits option.splits)

lemma builtin_expand_numbers_list: "expand_numbers_list s = Inl e \<Longrightarrow> builtin_exception e"
  by (auto simp: expand_numbers_list_def dest!: builtin_expand_items split: option.splits if_splits)

lemma builtin_load_waveform_file:
  "load_waveform_file files dir fn old = Inl e \<Longrightarrow> builtin_exception e"
  by (auto simp: load_waveform_file_def Let_def read_csv_def read_zipped_csv_def read_excel_def
      map_sum_def split: if_splits option.splits sum.splits)

lemma builtin_nt:
  "nt_iloc t i j = Inl e \<Longrightarrow> builtin_exception e"
  "nt_column_name t j = Inl e \<Longrightarrow> builtin_exception e"
  by (auto simp: nt_iloc_def nt_column_name_def split: if_splits)

lemma builtin_load_waveform_data:
  "load_waveform_data files dir wd fn = Inl e \<Longrightarrow> builtin_exception e"
  by (auto simp: load_waveform_data_def
      dest!: builtin_load_waveform_file builtin_nt
      split: sum.splits option.splits prod.splits)

lemma builtin_waveform_for_trace:
  "waveform_for_trace files dir wd fn = Inl e \<Longrightarrow> builtin_exception e"
  by (auto simp: waveform_for_trace_def dest!: builtin_load_waveform_data split: if_splits)

lemma builtin_column_result:
  "column_result wd th res v cwf c = Inl e \<Longrightarrow> builtin_exception e"
  by (auto simp: column_result_def Let_def split: if_splits option.splits)

lemma builtin_trace_numbers:
  "map_result (\<lambda>n. case py_int n of None \<Rightarrow> Inl ValueError | Some i \<Rightarrow> Inr i) ns = Inl e
   \<Longrightarrow> builtin_exception e"
  by (auto dest!: map_result_Inl split: option.splits)

lemma builtin_column_results:
  "map_result (column_result wd th res v cwf) cs = Inl e \<Longrightarrow> builtin_exception e"
  by (auto dest!: map_result_Inl builtin_column_result)

lemma builtin_import_trace:
  assumes "import_trace files dir h cellid cc ec row st = Inl e"
  shows "builtin_exception e"
proof -
  obtain res cipa_lp where row: "row = (res, cipa_lp)" by (cases row)
  define la_row where "la_row = filter (\<lambda>l. la_EXPID l = rw_EXPID res \<and> la_CELLID l = cellid \<and>
                               FIRST l \<le> TRACENUM res \<and> LAST l \<ge> TRACENUM res) (ih_la h)"
  note d = assms [unfolded import_trace_def row prod.case Let_def, folded la_row_def]
  show ?thesis
  proof (cases "length la_row = 1")
    case False
    with d show ?thesis by simp
  next
    case one: True
    show ?thesis
    proof (cases "expand_numbers_list (Some (ANL (la_row ! 0)))")
      case (Inl e')
      with d one builtin_expand_numbers_list [OF Inl] show ?thesis by simp
    next
      case ex: (Inr expanded)
      show ?thesis
      proof (cases "map_result (\<lambda>n. case py_int n of None \<Rightarrow> Inl ValueError | Some i \<Rightarrow> Inr i)
                   (fst expanded)")
        case (Inl e')
        with d one ex builtin_trace_numbers [OF Inl] show ?thesis by simp
      next
        case vt: (Inr valid_traces)
        show ?thesis
        proof (cases "waveform_for_trace files dir (is_waveformdata st) (la_SRCXFN (la_row ! 0))")
          case (Inl e')
          with d one ex vt builtin_waveform_for_trace [OF Inl] show ?thesis by simp
        next
          case (Inr w)
          obtain wd tu th where w: "w = (wd, tu, th)" by (cases w)
          from d one ex vt Inr w builtin_column_results show ?thesis
            by (simp split: sum.splits)
        qed
      qed
    qed
  qed
qed

lemma builtin_import_traces:
  "import_traces files dir h cellid cc ec rows st = Inl e \<Longrightarrow> builtin_exception e"
  by (induction rows arbitrary: st) (auto dest!: builtin_import_trace split: sum.splits)

lemma builtin_import_leak_method: "import_leak_method rows = Inl e \<Longrightarrow> builtin_exception e"
  by (auto simp: import_leak_method_def split: list.splits option.splits)

lemma builtin_import_experiment:
  assumes "import_experiment files dir wb h key = Inl e"
  shows "builtin_exception e"
proof -
  obtain expid cellid stime where key: "key = (expid, cellid, stime)" by (cases key)
  define rows where
    "rows = filter (\<lambda>r. rw_EXPID r = expid \<and> rw_CELLID r = cellid) (sheet_ResultsWide wb)"
  note d = assms [unfolded import_experiment_def key prod.case Let_def, folded rows_def]
  show ?thesis
  proof (cases "import_leak_method rows")
    case (Inl e')
    with d builtin_import_leak_method [OF Inl] show ?thesis by simp
  next
    case (Inr lm)
    with d builtin_import_traces show ?thesis
      by (simp split: sum.splits)
  qed
qed

lemma builtin_import_liquid_protocols:
  "import_liquid_protocols fmt la = Inl e \<Longrightarrow> builtin_exception e"
  by (auto simp: import_liquid_protocols_def import_liquid_protocol_def Let_def
      dest!: map_result_Inl split: sum.splits prod.splits list.splits option.splits)

lemma builtin_import_study_and_devices:
  "import_study_and_devices gi = Inl e \<Longrightarrow> builtin_exception e"
  by (auto simp: import_study_and_devices_def gi_value_def
      dest!: map_result_Inl split: sum.splits list.splits)

lemma builtin_import_ljp: "import_ljp la = Inl e \<Longrightarrow> builtin_exception e"
  by (auto simp: import_ljp_def split: list.splits)

lemma builtin_import_voltage_protocol:
  "import_voltage_protocol vc = Inl e \<Longrightarrow> builtin_exception e"
  unfolding import_voltage_protocol_def Let_def
  by (auto dest!: builtin_nt split: sum.splits)

lemma builtin_import_cursors: "map_result import_cursor cs = Inl e \<Longrightarrow> builtin_exception e"
  by (auto simp: import_cursor_def dest!: map_result_Inl split: option.splits)

lemma builtin_from_xlsx_head:
  assumes "from_xlsx_head fmt wb = Inl e"
  shows "builtin_exception e"
proof -
  note d = assms [unfolded from_xlsx_head_def Let_def]
  show ?thesis
  proof (cases "import_study_and_devices (sheet_GeneralInformation wb)")
    case (Inl e')
    with d builtin_import_study_and_devices [OF Inl] show ?thesis by simp
  next
    case sd: (Inr sd)
    show ?thesis
    proof (cases "import_ljp (map normalise_flags (sheet_LiquidAdditions wb))")
      case (Inl e')
      with d sd builtin_import_ljp [OF Inl] show ?thesis by simp
    next
      case l: (Inr l)
      show ?thesis
      proof (cases "import_voltage_protocol (sheet_IntendedVoltageProtocol wb)")
        case (Inl e')
        with d sd l builtin_import_voltage_protocol [OF Inl] show ?thesis by simp
      next
        case vp: (Inr vp)
        show ?thesis
        proof (cases "import_liquid_protocols fmt (map normalise_flags (sheet_LiquidAdditions wb))")
          case (Inl e')
          with d sd l vp builtin_import_liquid_protocols [OF Inl] show ?thesis by simp
        next
          case (Inr lps)
          with d sd l vp builtin_import_cursors show ?thesis
            by (simp split: sum.splits)
        qed
      qed
    qed
  qed
qed

lemma builtin_from_xlsx: "from_xlsx fmt files dir wb = Inl e \<Longrightarrow> builtin_exception e"
  by (auto simp: from_xlsx_def dest!: builtin_from_xlsx_head map_result_Inl
      builtin_import_experiment split: sum.splits)


subsection \<open>Claim C6: the time axis of a waveform file\<close>

text \<open>
  Claim C6 does not hold of the code. For the units \<^verbatim>\<open>s\<close>, \<^verbatim>\<open>ms\<close> and \<^verbatim>\<open>us\<close>, and for
  any other unit with a first step of at least 0.001, the time of the first sample and
  the step are the ones in milliseconds. For any other unit with a first step below
  0.001 the step is multiplied by 1000 and the time of the first sample by 0.001:
  a file whose first column \<^verbatim>\<open>t_time\<close> starts at 0.5 s with a step of 0.0002 s is read
  with a step of 0.2 ms and a first sample at 0.0005 ms, where 500 ms is meant.
\<close>

theorem time_axis_of_unknown_unit:
  "snd (normalise_time u h st) =
     (if st < 1 / 1000 \<and> u \<notin> set [''s'', ''ms'', ''us''] then (h * (1 / 1000), st * 1000)
      else time_axis_in_ms u h st) \<and>
   normalise_time ''time'' (1 / 2) (1 / 5000) = (''ms'', 1 / 2000, 1 / 5) \<and>
   time_axis_in_ms ''time'' (1 / 2) (1 / 5000) = (500, 1 / 5) \<and>
   load_waveform_data example_files ''.'' new_waveformdata ''seconds.csv'' =
     Inr (\<lparr>wd_filename = ''seconds.csv'', wd_data = csv_files example_files ''./seconds.csv'',
           t_increase_ms = 1 / 5\<rparr>, ''ms'', 1 / 2000)"
proof -
  have "snd (normalise_time u h st) =
     (if st < 1 / 1000 \<and> u \<notin> set [''s'', ''ms'', ''us''] then (h * (1 / 1000), st * 1000)
      else time_axis_in_ms u h st)"
    by (simp add: normalise_time_def time_axis_in_ms_def)
  moreover have "normalise_time ''time'' (1 / 2) (1 / 5000) = (''ms'', 1 / 2000, 1 / 5)"
    by (simp add: normalise_time_def)
  moreover have "time_axis_in_ms ''time'' (1 / 2) (1 / 5000) = (500, 1 / 5)"
    by (simp add: time_axis_in_ms_def)
  moreover have "load_waveform_data example_files ''.'' new_waveformdata ''seconds.csv'' =
     Inr (\<lparr>wd_filename = ''seconds.csv'', wd_data = csv_files example_files ''./seconds.csv'',
           t_increase_ms = 1 / 5\<rparr>, ''ms'', 1 / 2000)"
    by code_simp
  ultimately show ?thesis by blast
qed

subsection \<open>Claim C5: references to unsupported waveform files\<close>

text \<open>
  Claim C5 does not hold of the code: \<^verbatim>\<open>from_xlsx\<close> never raises a \<^verbatim>\<open>ParseFileError\<close>.
  For a reference of none of the supported kinds the \<^verbatim>\<open>if\<close> on the extension reads no
  file and raises nothing, so the data loaded for the file before stay in use; when
  no data are loaded yet, reading the name of the first column of \<^verbatim>\<open>None\<close> raises
  \<^verbatim>\<open>AttributeError\<close>.
\<close>

lemma load_unsupported:
  "unsupported_reference srcxfn \<Longrightarrow> load_waveform_file files dir srcxfn old = Inr old"
  by (simp add: unsupported_reference_def load_waveform_file_def Let_def split: if_splits)

theorem unsupported_waveform_reference:
  "from_xlsx fmt files ted_directory wb \<noteq> Inl (ParseFileError f m) \<and>
   (unsupported_reference srcxfn \<longrightarrow>
      load_waveform_file files ted_directory srcxfn old = Inr old \<and>
      load_waveform_data files ted_directory (wd\<lparr>wd_data := None\<rparr>) srcxfn = Inl AttributeError)"
proof (intro conjI impI)
  show "from_xlsx fmt files ted_directory wb \<noteq> Inl (ParseFileError f m)"
    using builtin_from_xlsx [of fmt files ted_directory wb "ParseFileError f m"] by auto
  assume u: "unsupported_reference srcxfn"
  show "load_waveform_file files ted_directory srcxfn old = Inr old"
    using u by (rule load_unsupported)
  show "load_waveform_data files ted_directory (wd\<lparr>wd_data := None\<rparr>) srcxfn = Inl AttributeError"
    by (simp add: load_waveform_data_def load_unsupported [OF u])
qed

text \<open>The references \<^verbatim>\<open>C1.txt\<close> and \<^verbatim>\<open>C1.tar:C1.csv\<close>, with no data loaded.\<close>

theorem unsupported_waveform_reference_txt:
  "unsupported_reference ''C1.txt'' \<and>
   load_waveform_data example_files ''.'' new_waveformdata ''C1.txt'' = Inl AttributeError \<and>
   unsupported_reference ''C1.tar:C1.csv'' \<and>
   load_waveform_data example_files ''.'' new_waveformdata ''C1.tar:C1.csv''
     = Inl AttributeError"
proof -
  have u: "unsupported_reference ''C1.txt''" by code_simp
  have v: "unsupported_reference ''C1.tar:C1.csv''" by code_simp
  have n: "new_waveformdata\<lparr>wd_data := None\<rparr> = new_waveformdata"
    by (simp add: new_waveformdata_def)
  from unsupported_waveform_reference [of example_fmt example_files "''.''"
      "example_workbook ''C1.txt'' ''NOMINAL''" "[]" "[]" "''C1.txt''" None new_waveformdata] u n
  have a: "load_waveform_data example_files ''.'' new_waveformdata ''C1.txt''
      = Inl AttributeError"
    by simp
  from unsupported_waveform_reference [of example_fmt example_files "''.''"
      "example_workbook ''C1.txt'' ''NOMINAL''" "[]" "[]" "''C1.tar:C1.csv''" None
      new_waveformdata] v n
  have b: "load_waveform_data example_files ''.'' new_waveformdata ''C1.tar:C1.csv''
      = Inl AttributeError"
    by simp
  from u v a b show ?thesis by simp
qed

text \<open>Importing a dataset whose liquid additions refer to \<^verbatim>\<open>C1.txt\<close> raises
  \<^verbatim>\<open>AttributeError\<close>, not \<^verbatim>\<open>ParseFileError\<close>; so does one that refers to
  \<^verbatim>\<open>C1.tar:C1.csv\<close>.\<close>

theorem import_of_text_reference:
  "from_xlsx example_fmt example_files ''.'' (example_workbook ''C1.txt'' ''NOMINAL'')
     = Inl AttributeError \<and>
   from_xlsx example_fmt example_files ''.'' (example_workbook ''C1.tar:C1.csv'' ''NOMINAL'')
     = Inl AttributeError"
  by code_simp

subsection \<open>Claim C10: the type of a concentration\<close>

lemma map_result_error:
  assumes "x \<in> set xs" "f x = Inl e" "\<forall>y \<in> set xs. \<forall>e'. f y = Inl e' \<longrightarrow> e' = e"
  shows "map_result f xs = Inl e"
  using assms
proof (induction xs)
  case Nil
  then show ?case by simp
next
  case (Cons y ys)
  show ?case
  proof (cases "f y")
    case (Inl e')
    with Cons.prems(3) have "e' = e" by simp
    with Inl show ?thesis by simp
  next
    case (Inr v)
    with Cons.prems have "x \<in> set ys" by auto
    from Cons.IH [OF this Cons.prems(2)] Cons.prems(3) have "map_result f ys = Inl e" by simp
    with Inr show ?thesis by simp
  qed
qed

lemma conctypes_upper:
  "conctypes (upper ct) \<noteq> None \<longleftrightarrow> upper ct \<in> set [''NOMINAL'', ''MEASURED'']"
  by (auto simp: conctypes_def)

lemma liquid_names: "map liquid_name (import_liquids la) = drop_duplicates (map la_LIQUID la)"
proof -
  have "map liquid_name (map (\<lambda>(idx, nm). \<lparr>liquid_id = new_Id (''L-'' @ str_of_int (int idx)),
          liquid_name = nm, batch = [], liquid_description = []\<rparr>) ps) = map snd ps" for ps
    by (induction ps) auto
  then have "map liquid_name (import_liquids la)
      = map snd (enumerate 0 (drop_duplicates (map la_LIQUID la)))"
    unfolding import_liquids_def by blast
  then show ?thesis by simp
qed

lemma import_liquid_protocol_error:
  assumes "r \<in> set la" "fst key = la_LIQUID r"
    and "import_liquid_protocol fmt (import_liquids la) (idx, key) = Inl e"
  shows "e = KeyError"
proof -
  have "la_LIQUID r \<in> set (map liquid_name (import_liquids la))"
    using assms(1) by (simp add: liquid_names)
  then have "filter (\<lambda>l. liquid_name l = la_LIQUID r) (import_liquids la) \<noteq> []"
    by (auto simp: filter_empty_conv)
  with assms(2,3) show ?thesis
    by (cases key) (auto simp: import_liquid_protocol_def split: list.splits option.splits)
qed

lemma import_liquid_protocols_KeyError:
  assumes r: "r \<in> set la" and bad: "upper (la_CONCT r) \<notin> set [''NOMINAL'', ''MEASURED'']"
  shows "import_liquid_protocols fmt la = Inl KeyError"
proof -
  define keys where "keys = drop_duplicates (map liquid_key_of la)"
  have "liquid_key_of r \<in> set keys" using r by (simp add: keys_def)
  then obtain idx where "idx < length keys" "keys ! idx = liquid_key_of r"
    by (auto simp: in_set_conv_nth)
  then have idx: "(idx, liquid_key_of r) \<in> set (enumerate 0 keys)"
    by (simp add: in_set_enumerate_eq)
  have none: "conctypes (upper (la_CONCT r)) = None"
    using bad conctypes_upper [of "la_CONCT r"] by auto
  have "la_LIQUID r \<in> set (map liquid_name (import_liquids la))"
    using r by (simp add: liquid_names)
  then have "filter (\<lambda>l. liquid_name l = la_LIQUID r) (import_liquids la) \<noteq> []"
    by (auto simp: filter_empty_conv)
  with none have err: "import_liquid_protocol fmt (import_liquids la) (idx, liquid_key_of r)
      = Inl KeyError"
    by (auto simp: import_liquid_protocol_def liquid_key_of_def split: list.splits)
  have all: "\<forall>y \<in> set (enumerate 0 keys). \<forall>e'.
      import_liquid_protocol fmt (import_liquids la) y = Inl e' \<longrightarrow> e' = KeyError"
  proof (intro ballI allI impI)
    fix y e' assume y: "y \<in> set (enumerate 0 keys)"
      and e': "import_liquid_protocol fmt (import_liquids la) y = Inl e'"
    obtain i k where ik: "y = (i, k)" by (cases y)
    with y have "k \<in> set keys" by (auto simp: in_set_enumerate_eq)
    then obtain r' where r': "r' \<in> set la" "k = liquid_key_of r'" by (auto simp: keys_def)
    then have "fst k = la_LIQUID r'" by (simp add: liquid_key_of_def)
    from import_liquid_protocol_error [OF r'(1) this] e' ik show "e' = KeyError" by simp
  qed
  from map_result_error [OF idx err all] show ?thesis
    by (simp add: import_liquid_protocols_def keys_def [symmetric])
qed

text \<open>
  Claim C10, as the code has it. The table of concentration types has exactly the keys
  \<^verbatim>\<open>NOMINAL\<close> and \<^verbatim>\<open>MEASURED\<close>, looked up in upper case. When a row of the liquid
  additions has another \<^verbatim>\<open>CONCT\<close>, \<^verbatim>\<open>from_xlsx\<close> returns no trial; and it raises
  \<^verbatim>\<open>KeyError\<close> when the sheets that it reads before it makes the liquid protocols (the
  general information and the intended voltage protocol) can be read. When one of
  them cannot, its exception comes first.
\<close>

theorem unknown_concentration_type:
  "(conctypes (upper ct) \<noteq> None \<longleftrightarrow> upper ct \<in> set [''NOMINAL'', ''MEASURED'']) \<and>
   ((\<exists>r \<in> set (sheet_LiquidAdditions wb).
       upper (la_CONCT r) \<notin> set [''NOMINAL'', ''MEASURED'']) \<longrightarrow>
      isl (from_xlsx fmt files ted_directory wb) \<and>
      (sheets_readable wb \<longrightarrow> from_xlsx fmt files ted_directory wb = Inl KeyError))"
proof (intro conjI impI)
  show "conctypes (upper ct) \<noteq> None \<longleftrightarrow> upper ct \<in> set [''NOMINAL'', ''MEASURED'']"
    by (rule conctypes_upper)
  assume "\<exists>r \<in> set (sheet_LiquidAdditions wb).
       upper (la_CONCT r) \<notin> set [''NOMINAL'', ''MEASURED'']"
  then obtain r where r: "r \<in> set (sheet_LiquidAdditions wb)"
    and bad: "upper (la_CONCT r) \<notin> set [''NOMINAL'', ''MEASURED'']" by blast
  define la where "la = map normalise_flags (sheet_LiquidAdditions wb)"
  have r': "normalise_flags r \<in> set la" using r by (simp add: la_def)
  have "la_CONCT (normalise_flags r) = la_CONCT r" by (simp add: normalise_flags_def)
  with bad have bad': "upper (la_CONCT (normalise_flags r)) \<notin> set [''NOMINAL'', ''MEASURED'']"
    by simp
  note ke = import_liquid_protocols_KeyError [OF r' bad', of fmt]
  have ljp: "\<not> isl (import_ljp la)"
    using r' by (cases la) (auto simp: import_ljp_def)
  have head: "isl (from_xlsx_head fmt wb)"
    unfolding from_xlsx_head_def Let_def la_def [symmetric]
    by (simp add: ke split: sum.splits)
  then show "isl (from_xlsx fmt files ted_directory wb)"
    by (cases "from_xlsx_head fmt wb") (simp_all add: from_xlsx_def)
  assume "sheets_readable wb"
  then obtain sd vp where "import_study_and_devices (sheet_GeneralInformation wb) = Inr sd"
    "import_voltage_protocol (sheet_IntendedVoltageProtocol wb) = Inr vp"
    unfolding sheets_readable_def
    by (cases "import_study_and_devices (sheet_GeneralInformation wb)";
        cases "import_voltage_protocol (sheet_IntendedVoltageProtocol wb)") auto
  moreover from ljp obtain l where "import_ljp la = Inr l" by (cases "import_ljp la") auto
  ultimately have "from_xlsx_head fmt wb = Inl KeyError"
    unfolding from_xlsx_head_def Let_def la_def [symmetric] by (simp add: ke)
  then show "from_xlsx fmt files ted_directory wb = Inl KeyError"
    by (simp add: from_xlsx_def)
qed

text \<open>A dataset whose liquid additions have the concentration type \<^verbatim>\<open>CALCULATED\<close>.\<close>

theorem unknown_concentration_type_calculated:
  "from_xlsx example_fmt example_files ''.'' (example_workbook ''C1.csv'' ''CALCULATED'')
     = Inl KeyError"
proof -
  have r: "\<exists>r \<in> set (sheet_LiquidAdditions (example_workbook ''C1.csv'' ''CALCULATED'')).
       upper (la_CONCT r) \<notin> set [''NOMINAL'', ''MEASURED'']"
    by code_simp
  have s: "sheets_readable (example_workbook ''C1.csv'' ''CALCULATED'')"
    by code_simp
  from unknown_concentration_type [of "''CALCULATED''" "example_workbook ''C1.csv'' ''CALCULATED''"
      example_fmt example_files "''.''"] r s
  show ?thesis by blast
qed

text \<open>The same dataset with an empty sheet for the intended voltage protocol, as
  \<^verbatim>\<open>to_xlsx\<close> writes it for a trial without a voltage protocol: reading the name of the
  first column of that sheet raises \<^verbatim>\<open>IndexError\<close> before the concentration type is
  looked up.\<close>

theorem unknown_concentration_type_after_voltage_sheet:
  "(\<exists>r \<in> set (sheet_LiquidAdditions
               ((example_workbook ''C1.csv'' ''CALCULATED'')
                  \<lparr>sheet_IntendedVoltageProtocol := \<lparr>nt_columns = [], nt_rows = []\<rparr>\<rparr>)).
      upper (la_CONCT r) \<notin> set [''NOMINAL'', ''MEASURED'']) \<and>
   from_xlsx example_fmt example_files ''.''
     ((example_workbook ''C1.csv'' ''CALCULATED'')
        \<lparr>sheet_IntendedVoltageProtocol := \<lparr>nt_columns = [], nt_rows = []\<rparr>\<rparr>)
     = Inl IndexError"
  by code_simp

subsection \<open>Claim C1: exporting and importing again\<close>

text \<open>
  Claim C1 does not hold of the code for the format \<^verbatim>\<open>xlsx\<close>. \<^verbatim>\<open>to_xlsx\<close> writes the
  reference \<^verbatim>\<open>waveforms.xlsx:C1\<close> (file, colon, sheet) for the cell \<^verbatim>\<open>C1\<close> in the table
  of liquid additions. \<^verbatim>\<open>from_xlsx\<close> tests whether the reference ends in \<^verbatim>\<open>.csv\<close> or in
  \<^verbatim>\<open>.xlsx\<close>; this one does neither, no file is read, and the import raises
  \<^verbatim>\<open>AttributeError\<close>, also when \<^verbatim>\<open>waveforms.xlsx\<close> is there. The same dataset with the
  reference \<^verbatim>\<open>C1.csv\<close> is imported, with the traces 1, 2 and 3.
\<close>

theorem xlsx_reference_not_imported:
  "written_references (to_xlsx no_files (example_trial [two_additions]) ''ted.xlsx'' ''xlsx'')
     = [Str ''waveforms.xlsx:C1'', Str ''waveforms.xlsx:C1''] \<and>
   from_xlsx example_fmt example_files ''.'' (example_workbook ''waveforms.xlsx:C1'' ''NOMINAL'')
     = Inl AttributeError \<and>
   (case from_xlsx example_fmt example_files ''.'' (example_workbook ''C1.csv'' ''NOMINAL'') of
      Inl e \<Rightarrow> []
    | Inr t \<Rightarrow> map (\<lambda>e. map traceNumber (recorded_results e)) (experiments t)) = [[1, 2, 3]]"
  by code_simp

end
